theory Spec2Isabelle
  imports Main "HOL-Library.Word" "HOL-Library.Signed_Division" "HOL-Library.Monad_Syntax"
begin

unbundle bit_operations_syntax

section \<open>Machine types\<close>

type_synonym u8 = "8 word"
type_synonym u16 = "16 word"
type_synonym u32 = "32 word"

text \<open>
  A nullable pointer to a byte buffer is an \<open>option\<close>: \<open>None\<close> is \<open>NULL\<close>.
  A computation that may dereference an invalid pointer returns an \<open>option\<close> as well:
  \<open>None\<close> stands for the invalid access.
\<close>

type_synonym plane = "u8 list option"

definition peek :: "plane \<Rightarrow> nat \<Rightarrow> u8 option" where
  "peek p i = (case p of None \<Rightarrow> None
               | Some xs \<Rightarrow> if i < length xs then Some (xs ! i) else None)"

definition poke :: "u8 list \<Rightarrow> nat \<Rightarrow> u8 \<Rightarrow> u8 list option" where
  "poke xs i v = (if i < length xs then Some (xs[i := v]) else None)"

text \<open>Two's complement wrap-around of \<open>int32_t\<close> and of the 64-bit \<open>ptrdiff_t\<close>.\<close>

definition int32_t :: "int \<Rightarrow> int" where
  "int32_t x = signed_take_bit 31 x"

definition ptrdiff_t :: "int \<Rightarrow> int" where
  "ptrdiff_t x = signed_take_bit 63 x"

text \<open>Conversion of an integer to \<open>unsigned int\<close>.\<close>

definition uint32_t :: "int \<Rightarrow> nat" where
  "uint32_t x = nat (x mod 2 ^ 32)"

primrec foldM :: "('a \<Rightarrow> 's \<Rightarrow> 's option) \<Rightarrow> 'a list \<Rightarrow> 's \<Rightarrow> 's option" where
  "foldM f [] s = Some s"
| "foldM f (x # xs) s = (case f x s of None \<Rightarrow> None | Some s' \<Rightarrow> foldM f xs s')"

section \<open>Resolutions and definition tables\<close>

definition kBase16 :: nat where "kBase16 = 0"
definition kBase4 :: nat where "kBase4 = 1"
definition kBase :: nat where "kBase = 2"
definition k4Base :: nat where "k4Base = 3"
definition k16Base :: nat where "k16Base = 4"
definition k64Base :: nat where "k64Base = 5"
definition kMaxScenes :: nat where "kMaxScenes = 6"

definition kUpResNearest :: int where "kUpResNearest = 0"
definition kUpResIterpolate :: int where "kUpResIterpolate = 1"
definition kUpResLumaIterpolate :: int where "kUpResLumaIterpolate = 2"

definition kPCDRawColorSpace :: int where "kPCDRawColorSpace = 0"
definition kPCDLinearCCIR709ColorSpace :: int where "kPCDLinearCCIR709ColorSpace = 1"
definition kPCDsRGBColorSpace :: int where "kPCDsRGBColorSpace = 2"
definition kPCDYCCColorSpace :: int where "kPCDYCCColorSpace = 3"

definition kPCDD65White :: int where "kPCDD65White = 0"
definition kPCDD50White :: int where "kPCDD50White = 1"

definition kMaxPCDMetadata :: nat where "kMaxPCDMetadata = 20"

definition pcdByteSize :: nat where "pcdByteSize = 0"
definition pcdInt16Size :: nat where "pcdInt16Size = 1"
definition pcdFloatSize :: nat where "pcdFloatSize = 2"

definition kNumThreads :: nat where "kNumThreads = 8"
definition KSectorSize :: nat where "KSectorSize = 2048"

definition PCDLumaWidth :: "nat list" where
  "PCDLumaWidth = [192, 384, 768, 1536, 3072, 6144]"
definition PCDLumaHeight :: "nat list" where
  "PCDLumaHeight = [128, 256, 512, 1024, 2048, 4096]"
definition PCDChromaWidth :: "nat list" where
  "PCDChromaWidth = [96, 192, 384, 384, 1536, 3072]"
definition PCDChromaHeight :: "nat list" where
  "PCDChromaHeight = [64, 128, 256, 256, 1024, 2048]"
definition PCDChromaResFactor :: "nat list" where
  "PCDChromaResFactor = [1, 1, 1, 1, 1, 1]"
definition RowShift :: "nat list" where
  "RowShift = [0, 0, 0, 9, 9, 6]"
definition RowMask :: "u32 list" where
  "RowMask = [0, 0, 0, 0x1fff, 0x1fff, 0x3fff]"
definition RowSubSample :: "nat list" where
  "RowSubSample = [1, 1, 1, 1, 1, 2]"
definition SequenceShift :: "nat list" where
  "SequenceShift = [0, 0, 0, 0, 0, 1]"
definition SequenceMask :: "u32 list" where
  "SequenceMask = [0, 0, 0, 0, 0x0, 0xf]"
definition PlaneShift :: "nat list" where
  "PlaneShift = [0, 0, 0, 22, 22, 19]"
definition PlaneMask :: "u32 list" where
  "PlaneMask = [0, 0, 0, 0x3, 0x3, 0x6]"
definition HuffmanHeaderSize :: "nat list" where
  "HuffmanHeaderSize = [0, 0, 0, 3, 3, 4]"

definition PCDMetadataDescriptions :: "string list" where
  "PCDMetadataDescriptions =
   [''PCD specification version'',
    ''Authoring software Release number'',
    ''Scanning time'',
    ''Last modification time'',
    ''Image medium'',
    ''Product type'',
    ''Scanner vendor identity'',
    ''Scanner product identity'',
    ''Scanner firmware revision'',
    ''Scanner firmware date'',
    ''Scanner serial number'',
    ''Scanner pixel size (microns)'',
    ''Image workstation equipment manufacturer'',
    ''Photo finisher name'',
    ''Scene balance algorithm revision'',
    ''Scene balance algorithm command'',
    ''Scene balance algorithm film identification'',
    ''Copyright status'',
    ''Copyright file name'',
    ''Compression'']"

section \<open>Look-up tables of the colour conversion\<close>

definition toLinearLight :: "int list" where
  "toLinearLight =
   [0, 0, 0, 0, 0, 0, 0, 1, 1, 1, 1, 1, 1, 2, 2, 2,
   2, 2, 2, 3, 3, 3, 3, 3, 3, 4, 4, 4, 4, 4, 4, 5,
   5, 5, 5, 5, 5, 5, 6, 6, 6, 6, 6, 6, 7, 7, 7, 7,
   7, 7, 8, 8, 8, 8, 8, 8, 9, 9, 9, 9, 9, 9, 10, 10,
   10, 10, 10, 10, 10, 11, 11, 11, 11, 11, 11, 12, 12, 12, 12, 12,
   12, 13, 13, 13, 13, 13, 13, 14, 14, 14, 14, 14, 14, 15, 15, 15,
   15, 15, 15, 16, 16, 16, 16, 16, 16, 17, 17, 17, 17, 17, 18, 18,
   18, 18, 18, 19, 19, 19, 19, 19, 20, 20, 20, 20, 20, 21, 21, 21,
   21, 21, 22, 22, 22, 22, 23, 23, 23, 23, 23, 24, 24, 24, 24, 25,
   25, 25, 25, 25, 26, 26, 26, 26, 27, 27, 27, 27, 28, 28, 28, 28,
   29, 29, 29, 29, 30, 30, 30, 30, 31, 31, 31, 31, 32, 32, 32, 32,
   33, 33, 33, 33, 34, 34, 34, 35, 35, 35, 35, 36, 36, 36, 36, 37,
   37, 37, 38, 38, 38, 38, 39, 39, 39, 40, 40, 40, 41, 41, 41, 41,
   42, 42, 42, 43, 43, 43, 44, 44, 44, 45, 45, 45, 45, 46, 46, 46,
   47, 47, 47, 48, 48, 48, 49, 49, 49, 50, 50, 50, 51, 51, 51, 52,
   52, 52, 53, 53, 53, 54, 54, 54, 55, 55, 56, 56, 56, 57, 57, 57,
   58, 58, 58, 59, 59, 60, 60, 60, 61, 61, 61, 62, 62, 63, 63, 63,
   64, 64, 64, 65, 65, 66, 66, 66, 67, 67, 68, 68, 68, 69, 69, 70,
   70, 70, 71, 71, 72, 72, 72, 73, 73, 74, 74, 74, 75, 75, 76, 76,
   77, 77, 77, 78, 78, 79, 79, 79, 80, 80, 81, 81, 82, 82, 83, 83,
   83, 84, 84, 85, 85, 86, 86, 87, 87, 87, 88, 88, 89, 89, 90, 90,
   91, 91, 92, 92, 93, 93, 93, 94, 94, 95, 95, 96, 96, 97, 97, 98,
   98, 99, 99, 100, 100, 101, 101, 102, 102, 103, 103, 104, 104, 105, 105, 106,
   106, 107, 107, 108, 108, 109, 109, 110, 110, 111, 111, 112, 112, 113, 113, 114,
   114, 115, 115, 116, 117, 117, 118, 118, 119, 119, 120, 120, 121, 121, 122, 122,
   123, 124, 124, 125, 125, 126, 126, 127, 127, 128, 129, 129, 130, 130, 131, 131,
   132, 132, 133, 134, 134, 135, 135, 136, 137, 137, 138, 138, 139, 139, 140, 141,
   141, 142, 142, 143, 144, 144, 145, 145, 146, 147, 147, 148, 148, 149, 150, 150,
   151, 151, 152, 153, 153, 154, 155, 155, 156, 156, 157, 158, 158, 159, 160, 160,
   161, 161, 162, 163, 163, 164, 165, 165, 166, 167, 167, 168, 168, 169, 170, 170,
   171, 172, 172, 173, 174, 174, 175, 176, 176, 177, 178, 178, 179, 180, 180, 181,
   182, 182, 183, 184, 184, 185, 186, 187, 187, 188, 189, 189, 190, 191, 191, 192,
   193, 193, 194, 195, 196, 196, 197, 198, 198, 199, 200, 201, 201, 202, 203, 203,
   204, 205, 206, 206, 207, 208, 209, 209, 210, 211, 211, 212, 213, 214, 214, 215,
   216, 217, 217, 218, 219, 220, 220, 221, 222, 223, 223, 224, 225, 226, 226, 227,
   228, 229, 230, 230, 231, 232, 233, 233, 234, 235, 236, 237, 237, 238, 239, 240,
   240, 241, 242, 243, 244, 244, 245, 246, 247, 248, 248, 249, 250, 251, 252, 253,
   253, 254, 255, 256, 257, 257, 258, 259, 260, 261, 262, 262, 263, 264, 265, 266,
   267, 267, 268, 269, 270, 271, 272, 272, 273, 274, 275, 276, 277, 278, 278, 279,
   280, 281, 282, 283, 284, 284, 285, 286, 287, 288, 289, 290, 291, 291, 292, 293,
   294, 295, 296, 297, 298, 298, 299, 300, 301, 302, 303, 304, 305, 306, 307, 307,
   308, 309, 310, 311, 312, 313, 314, 315, 316, 317, 317, 318, 319, 320, 321, 322,
   323, 324, 325, 326, 327, 328, 329, 330, 331, 331, 332, 333, 334, 335, 336, 337,
   338, 339, 340, 341, 342, 343, 344, 345, 346, 347, 348, 349, 350, 351, 352, 353,
   354, 355, 355, 356, 357, 358, 359, 360, 361, 362, 363, 364, 365, 366, 367, 368,
   369, 370, 371, 372, 373, 374, 375, 376, 377, 378, 379, 380, 381, 382, 384, 385,
   386, 387, 388, 389, 390, 391, 392, 393, 394, 395, 396, 397, 398, 399, 400, 401,
   402, 403, 404, 405, 406, 407, 408, 410, 411, 412, 413, 414, 415, 416, 417, 418,
   419, 420, 421, 422, 423, 424, 426, 427, 428, 429, 430, 431, 432, 433, 434, 435,
   436, 438, 439, 440, 441, 442, 443, 444, 445, 446, 447, 449, 450, 451, 452, 453,
   454, 455, 456, 458, 459, 460, 461, 462, 463, 464, 465, 467, 468, 469, 470, 471,
   472, 473, 475, 476, 477, 478, 479, 480, 482, 483, 484, 485, 486, 487, 489, 490,
   491, 492, 493, 494, 496, 497, 498, 499, 500, 501, 503, 504, 505, 506, 507, 509,
   510, 511, 512, 513, 515, 516, 517, 518, 519, 521, 522, 523, 524, 525, 527, 528,
   529, 530, 532, 533, 534, 535, 536, 538, 539, 540, 541, 543, 544, 545, 546, 548,
   549, 550, 551, 553, 554, 555, 556, 558, 559, 560, 561, 563, 564, 565, 566, 568,
   569, 570, 571, 573, 574, 575, 577, 578, 579, 580, 582, 583, 584, 585, 587, 588,
   589, 591, 592, 593, 595, 596, 597, 598, 600, 601, 602, 604, 605, 606, 608, 609,
   610, 612, 613, 614, 616, 617, 618, 620, 621, 622, 624, 625, 626, 628, 629, 630,
   632, 633, 634, 636, 637, 638, 640, 641, 642, 644, 645, 646, 648, 649, 651, 652,
   653, 655, 656, 657, 659, 660, 661, 663, 664, 666, 667, 668, 670, 671, 673, 674,
   675, 677, 678, 680, 681, 682, 684, 685, 687, 688, 689, 691, 692, 694, 695, 696,
   698, 699, 701, 702, 704, 705, 706, 708, 709, 711, 712, 714, 715, 716, 718, 719,
   721, 722, 724, 725, 727, 728, 729, 731, 732, 734, 735, 737, 738, 740, 741, 743,
   744, 746, 747, 749, 750, 751, 753, 754, 756, 757, 759, 760, 762, 763, 765, 766,
   768, 769, 771, 772, 774, 775, 777, 778, 780, 781, 783, 784, 786, 787, 789, 790,
   792, 793, 795, 797, 798, 800, 801, 803, 804, 806, 807, 809, 810, 812, 813, 815,
   817, 818, 820, 821, 823, 824, 826, 827, 829, 831, 832, 834, 835, 837, 838, 840,
   841, 843, 845, 846, 848, 849, 851, 853, 854, 856, 857, 859, 860, 862, 864, 865,
   867, 868, 870, 872, 873, 875, 876, 878, 880, 881, 883, 885, 886, 888, 889, 891,
   893, 894, 896, 898, 899, 901, 902, 904, 906, 907, 909, 911, 912, 914, 916, 917,
   919, 921, 922, 924, 925, 927, 929, 930, 932, 934, 935, 937, 939, 940, 942, 944,
   945, 947, 949, 951, 952, 954, 956, 957, 959, 961, 962, 964, 966, 967, 969, 971,
   973, 974, 976, 978, 979, 981, 983, 985, 986, 988, 990, 991, 993, 995, 997, 998,
   1000, 1002, 1003, 1005, 1007, 1009, 1010, 1012, 1014, 1016, 1017, 1019, 1021, 1023, 1024, 1026,
   1028, 1030, 1031, 1033, 1035, 1037, 1038, 1040, 1042, 1044, 1046, 1047, 1049, 1051, 1053, 1054,
   1056, 1058, 1060, 1062, 1063, 1065, 1067, 1069, 1071, 1072, 1074, 1076, 1078, 1080, 1081, 1083,
   1085, 1087, 1089, 1090, 1092, 1094, 1096, 1098, 1099, 1101, 1103, 1105, 1107, 1109, 1110, 1112,
   1114, 1116, 1118, 1120, 1121, 1123, 1125, 1127, 1129, 1131, 1133, 1134, 1136, 1138, 1140, 1142,
   1144, 1146, 1147, 1149, 1151, 1153, 1155, 1157, 1159, 1160, 1162, 1164, 1166, 1168, 1170, 1172,
   1174, 1176, 1177, 1179, 1181, 1183, 1185, 1187, 1189, 1191, 1193, 1195, 1196, 1198, 1200, 1202,
   1204, 1206, 1208, 1210, 1212, 1214, 1216, 1218, 1219, 1221, 1223, 1225, 1227, 1229, 1231, 1233,
   1235, 1237, 1239, 1241, 1243, 1245, 1247, 1249, 1251, 1253, 1254, 1256, 1258, 1260, 1262, 1264,
   1266, 1268, 1270, 1272, 1274, 1276, 1278, 1280, 1282, 1284, 1286, 1288, 1290, 1292, 1294, 1296,
   1298, 1300, 1302, 1304, 1306, 1308, 1310, 1312, 1314, 1316, 1318, 1320, 1322, 1324, 1326, 1328,
   1330, 1332, 1334, 1336, 1338, 1340, 1342, 1344, 1346, 1348, 1350, 1353, 1355, 1357, 1359, 1361,
   1363, 1365, 1367, 1369, 1371, 1373, 1375, 1377, 1379, 1381, 1383, 1385, 1387]"

definition CCIR709tosRGB :: "int list" where
  "CCIR709tosRGB =
   [0, 12, 25, 38, 51, 64, 75, 85, 94, 103, 111, 118, 125, 132, 139, 145,
   151, 157, 163, 168, 173, 179, 184, 188, 193, 198, 202, 207, 211, 215, 219, 224,
   228, 231, 235, 239, 243, 247, 250, 254, 257, 261, 264, 267, 271, 274, 277, 280,
   284, 287, 290, 293, 296, 299, 302, 305, 308, 310, 313, 316, 319, 321, 324, 327,
   329, 332, 335, 337, 340, 342, 345, 347, 350, 352, 355, 357, 360, 362, 364, 367,
   369, 371, 374, 376, 378, 380, 383, 385, 387, 389, 392, 394, 396, 398, 400, 402,
   404, 406, 408, 410, 413, 415, 417, 419, 421, 423, 425, 427, 428, 430, 432, 434,
   436, 438, 440, 442, 444, 446, 447, 449, 451, 453, 455, 457, 458, 460, 462, 464,
   466, 467, 469, 471, 473, 474, 476, 478, 479, 481, 483, 485, 486, 488, 490, 491,
   493, 494, 496, 498, 499, 501, 503, 504, 506, 507, 509, 511, 512, 514, 515, 517,
   518, 520, 521, 523, 525, 526, 528, 529, 531, 532, 534, 535, 537, 538, 540, 541,
   543, 544, 545, 547, 548, 550, 551, 553, 554, 556, 557, 558, 560, 561, 563, 564,
   565, 567, 568, 570, 571, 572, 574, 575, 576, 578, 579, 580, 582, 583, 584, 586,
   587, 588, 590, 591, 592, 594, 595, 596, 598, 599, 600, 602, 603, 604, 605, 607,
   608, 609, 611, 612, 613, 614, 616, 617, 618, 619, 621, 622, 623, 624, 626, 627,
   628, 629, 630, 632, 633, 634, 635, 636, 638, 639, 640, 641, 642, 644, 645, 646,
   647, 648, 650, 651, 652, 653, 654, 655, 657, 658, 659, 660, 661, 662, 663, 665,
   666, 667, 668, 669, 670, 671, 672, 674, 675, 676, 677, 678, 679, 680, 681, 682,
   684, 685, 686, 687, 688, 689, 690, 691, 692, 693, 694, 696, 697, 698, 699, 700,
   701, 702, 703, 704, 705, 706, 707, 708, 709, 710, 711, 713, 714, 715, 716, 717,
   718, 719, 720, 721, 722, 723, 724, 725, 726, 727, 728, 729, 730, 731, 732, 733,
   734, 735, 736, 737, 738, 739, 740, 741, 742, 743, 744, 745, 746, 747, 748, 749,
   750, 751, 752, 753, 754, 755, 756, 757, 758, 759, 760, 761, 762, 762, 763, 764,
   765, 766, 767, 768, 769, 770, 771, 772, 773, 774, 775, 776, 777, 778, 779, 779,
   780, 781, 782, 783, 784, 785, 786, 787, 788, 789, 790, 791, 791, 792, 793, 794,
   795, 796, 797, 798, 799, 800, 801, 801, 802, 803, 804, 805, 806, 807, 808, 809,
   810, 810, 811, 812, 813, 814, 815, 816, 817, 817, 818, 819, 820, 821, 822, 823,
   824, 824, 825, 826, 827, 828, 829, 830, 830, 831, 832, 833, 834, 835, 836, 836,
   837, 838, 839, 840, 841, 842, 842, 843, 844, 845, 846, 847, 847, 848, 849, 850,
   851, 852, 852, 853, 854, 855, 856, 857, 857, 858, 859, 860, 861, 862, 862, 863,
   864, 865, 866, 866, 867, 868, 869, 870, 870, 871, 872, 873, 874, 874, 875, 876,
   877, 878, 879, 879, 880, 881, 882, 882, 883, 884, 885, 886, 886, 887, 888, 889,
   890, 890, 891, 892, 893, 894, 894, 895, 896, 897, 897, 898, 899, 900, 901, 901,
   902, 903, 904, 904, 905, 906, 907, 907, 908, 909, 910, 911, 911, 912, 913, 914,
   914, 915, 916, 917, 917, 918, 919, 920, 920, 921, 922, 923, 923, 924, 925, 926,
   926, 927, 928, 929, 929, 930, 931, 932, 932, 933, 934, 935, 935, 936, 937, 937,
   938, 939, 940, 940, 941, 942, 943, 943, 944, 945, 946, 946, 947, 948, 948, 949,
   950, 951, 951, 952, 953, 953, 954, 955, 956, 956, 957, 958, 958, 959, 960, 961,
   961, 962, 963, 963, 964, 965, 966, 966, 967, 968, 968, 969, 970, 971, 971, 972,
   973, 973, 974, 975, 975, 976, 977, 978, 978, 979, 980, 980, 981, 982, 982, 983,
   984, 984, 985, 986, 987, 987, 988, 989, 989, 990, 991, 991, 992, 993, 993, 994,
   995, 995, 996, 997, 997, 998, 999, 999, 1000, 1001, 1002, 1002, 1003, 1004, 1004, 1005,
   1006, 1006, 1007, 1008, 1008, 1009, 1010, 1010, 1011, 1012, 1012, 1013, 1014, 1014, 1015, 1016,
   1016, 1017, 1018, 1018, 1019, 1020, 1020, 1021, 1021, 1022, 1023, 1023, 1024, 1025, 1025, 1026,
   1027, 1027, 1028, 1029, 1029, 1030, 1031, 1031, 1032, 1033, 1033, 1034, 1035, 1035, 1036, 1036,
   1037, 1038, 1038, 1039, 1040, 1040, 1041, 1042, 1042, 1043, 1044, 1044, 1045, 1045, 1046, 1047,
   1047, 1048, 1049, 1049, 1050, 1051, 1051, 1052, 1052, 1053, 1054, 1054, 1055, 1056, 1056, 1057,
   1057, 1058, 1059, 1059, 1060, 1061, 1061, 1062, 1062, 1063, 1064, 1064, 1065, 1066, 1066, 1067,
   1067, 1068, 1069, 1069, 1070, 1071, 1071, 1072, 1072, 1073, 1074, 1074, 1075, 1076, 1076, 1077,
   1077, 1078, 1079, 1079, 1080, 1080, 1081, 1082, 1082, 1083, 1083, 1084, 1085, 1085, 1086, 1087,
   1087, 1088, 1088, 1089, 1090, 1090, 1091, 1091, 1092, 1093, 1093, 1094, 1094, 1095, 1096, 1096,
   1097, 1097, 1098, 1099, 1099, 1100, 1100, 1101, 1102, 1102, 1103, 1103, 1104, 1105, 1105, 1106,
   1106, 1107, 1107, 1108, 1109, 1109, 1110, 1110, 1111, 1112, 1112, 1113, 1113, 1114, 1115, 1115,
   1116, 1116, 1117, 1117, 1118, 1119, 1119, 1120, 1120, 1121, 1122, 1122, 1123, 1123, 1124, 1124,
   1125, 1126, 1126, 1127, 1127, 1128, 1129, 1129, 1130, 1130, 1131, 1131, 1132, 1133, 1133, 1134,
   1134, 1135, 1135, 1136, 1137, 1137, 1138, 1138, 1139, 1139, 1140, 1141, 1141, 1142, 1142, 1143,
   1143, 1144, 1145, 1145, 1146, 1146, 1147, 1147, 1148, 1148, 1149, 1150, 1150, 1151, 1151, 1152,
   1152, 1153, 1154, 1154, 1155, 1155, 1156, 1156, 1157, 1157, 1158, 1159, 1159, 1160, 1160, 1161,
   1161, 1162, 1162, 1163, 1164, 1164, 1165, 1165, 1166, 1166, 1167, 1167, 1168, 1169, 1169, 1170,
   1170, 1171, 1171, 1172, 1172, 1173, 1174, 1174, 1175, 1175, 1176, 1176, 1177, 1177, 1178, 1178,
   1179, 1180, 1180, 1181, 1181, 1182, 1182, 1183, 1183, 1184, 1184, 1185, 1185, 1186, 1187, 1187,
   1188, 1188, 1189, 1189, 1190, 1190, 1191, 1191, 1192, 1193, 1193, 1194, 1194, 1195, 1195, 1196,
   1196, 1197, 1197, 1198, 1198, 1199, 1199, 1200, 1201, 1201, 1202, 1202, 1203, 1203, 1204, 1204,
   1205, 1205, 1206, 1206, 1207, 1207, 1208, 1208, 1209, 1210, 1210, 1211, 1211, 1212, 1212, 1213,
   1213, 1214, 1214, 1215, 1215, 1216, 1216, 1217, 1217, 1218, 1218, 1219, 1219, 1220, 1221, 1221,
   1222, 1222, 1223, 1223, 1224, 1224, 1225, 1225, 1226, 1226, 1227, 1227, 1228, 1228, 1229, 1229,
   1230, 1230, 1231, 1231, 1232, 1232, 1233, 1233, 1234, 1234, 1235, 1236, 1236, 1237, 1237, 1238,
   1238, 1239, 1239, 1240, 1240, 1241, 1241, 1242, 1242, 1243, 1243, 1244, 1244, 1245, 1245, 1246,
   1246, 1247, 1247, 1248, 1248, 1249, 1249, 1250, 1250, 1251, 1251, 1252, 1252, 1253, 1253, 1254,
   1254, 1255, 1255, 1256, 1256, 1257, 1257, 1258, 1258, 1259, 1259, 1260, 1260, 1261, 1261, 1262,
   1262, 1263, 1263, 1264, 1264, 1265, 1265, 1266, 1266, 1267, 1267, 1268, 1268, 1269, 1269, 1270,
   1270, 1271, 1271, 1272, 1272, 1273, 1273, 1274, 1274, 1275, 1275, 1276, 1276, 1277, 1277, 1278,
   1278, 1279, 1279, 1280, 1280, 1281, 1281, 1282, 1282, 1282, 1283, 1283, 1284, 1284, 1285, 1285,
   1286, 1286, 1287, 1287, 1288, 1288, 1289, 1289, 1290, 1290, 1291, 1291, 1292, 1292, 1293, 1293,
   1294, 1294, 1295, 1295, 1296, 1296, 1297, 1297, 1298, 1298, 1298, 1299, 1299, 1300, 1300, 1301,
   1301, 1302, 1302, 1303, 1303, 1304, 1304, 1305, 1305, 1306, 1306, 1307, 1307, 1308, 1308, 1308,
   1309, 1309, 1310, 1310, 1311, 1311, 1312, 1312, 1313, 1313, 1314, 1314, 1315, 1315, 1316, 1316,
   1317, 1317, 1317, 1318, 1318, 1319, 1319, 1320, 1320, 1321, 1321, 1322, 1322, 1323, 1323, 1324,
   1324, 1325, 1325, 1325, 1326, 1326, 1327, 1327, 1328, 1328, 1329, 1329, 1330, 1330, 1331, 1331,
   1332, 1332, 1332, 1333, 1333, 1334, 1334, 1335, 1335, 1336, 1336, 1337, 1337, 1338, 1338, 1338,
   1339, 1339, 1340, 1340, 1341, 1341, 1342, 1342, 1343, 1343, 1343, 1344, 1344, 1345, 1345, 1346,
   1346, 1347, 1347, 1348, 1348, 1349, 1349, 1349, 1350, 1350, 1351, 1351, 1352, 1352, 1353, 1353,
   1354, 1354, 1354, 1355, 1355, 1356, 1356, 1357, 1357, 1358, 1358, 1359, 1359, 1359, 1360, 1360,
   1361, 1361, 1362, 1362, 1363, 1363, 1363, 1364, 1364, 1365, 1365, 1366, 1366, 1367, 1367, 1368,
   1368, 1368, 1369, 1369, 1370, 1370, 1371, 1371, 1372, 1372, 1372, 1373, 1373, 1374, 1374, 1375,
   1375, 1376, 1376, 1376, 1377, 1377, 1378, 1378, 1379, 1379, 1380, 1380, 1380, 1381, 1381, 1382,
   1382, 1383, 1383, 1384, 1384, 1384, 1385, 1385, 1386, 1386, 1387, 1387, 1387]"

definition uint8Output :: "u8 list" where
  "uint8Output =
   [0, 0, 0, 0, 0, 0, 1, 1, 1, 1, 1, 2, 2, 2, 2, 2,
   2, 3, 3, 3, 3, 3, 4, 4, 4, 4, 4, 4, 5, 5, 5, 5,
   5, 6, 6, 6, 6, 6, 6, 7, 7, 7, 7, 7, 8, 8, 8, 8,
   8, 9, 9, 9, 9, 9, 9, 10, 10, 10, 10, 10, 11, 11, 11, 11,
   11, 11, 12, 12, 12, 12, 12, 13, 13, 13, 13, 13, 13, 14, 14, 14,
   14, 14, 15, 15, 15, 15, 15, 15, 16, 16, 16, 16, 16, 17, 17, 17,
   17, 17, 18, 18, 18, 18, 18, 18, 19, 19, 19, 19, 19, 20, 20, 20,
   20, 20, 20, 21, 21, 21, 21, 21, 22, 22, 22, 22, 22, 22, 23, 23,
   23, 23, 23, 24, 24, 24, 24, 24, 24, 25, 25, 25, 25, 25, 26, 26,
   26, 26, 26, 27, 27, 27, 27, 27, 27, 28, 28, 28, 28, 28, 29, 29,
   29, 29, 29, 29, 30, 30, 30, 30, 30, 31, 31, 31, 31, 31, 31, 32,
   32, 32, 32, 32, 33, 33, 33, 33, 33, 33, 34, 34, 34, 34, 34, 35,
   35, 35, 35, 35, 36, 36, 36, 36, 36, 36, 37, 37, 37, 37, 37, 38,
   38, 38, 38, 38, 38, 39, 39, 39, 39, 39, 40, 40, 40, 40, 40, 40,
   41, 41, 41, 41, 41, 42, 42, 42, 42, 42, 42, 43, 43, 43, 43, 43,
   44, 44, 44, 44, 44, 45, 45, 45, 45, 45, 45, 46, 46, 46, 46, 46,
   47, 47, 47, 47, 47, 47, 48, 48, 48, 48, 48, 49, 49, 49, 49, 49,
   49, 50, 50, 50, 50, 50, 51, 51, 51, 51, 51, 51, 52, 52, 52, 52,
   52, 53, 53, 53, 53, 53, 54, 54, 54, 54, 54, 54, 55, 55, 55, 55,
   55, 56, 56, 56, 56, 56, 56, 57, 57, 57, 57, 57, 58, 58, 58, 58,
   58, 58, 59, 59, 59, 59, 59, 60, 60, 60, 60, 60, 60, 61, 61, 61,
   61, 61, 62, 62, 62, 62, 62, 63, 63, 63, 63, 63, 63, 64, 64, 64,
   64, 64, 65, 65, 65, 65, 65, 65, 66, 66, 66, 66, 66, 67, 67, 67,
   67, 67, 67, 68, 68, 68, 68, 68, 69, 69, 69, 69, 69, 69, 70, 70,
   70, 70, 70, 71, 71, 71, 71, 71, 72, 72, 72, 72, 72, 72, 73, 73,
   73, 73, 73, 74, 74, 74, 74, 74, 74, 75, 75, 75, 75, 75, 76, 76,
   76, 76, 76, 76, 77, 77, 77, 77, 77, 78, 78, 78, 78, 78, 78, 79,
   79, 79, 79, 79, 80, 80, 80, 80, 80, 81, 81, 81, 81, 81, 81, 82,
   82, 82, 82, 82, 83, 83, 83, 83, 83, 83, 84, 84, 84, 84, 84, 85,
   85, 85, 85, 85, 85, 86, 86, 86, 86, 86, 87, 87, 87, 87, 87, 88,
   88, 88, 88, 88, 88, 89, 89, 89, 89, 89, 90, 90, 90, 90, 90, 90,
   91, 91, 91, 91, 91, 92, 92, 92, 92, 92, 92, 93, 93, 93, 93, 93,
   94, 94, 94, 94, 94, 94, 95, 95, 95, 95, 95, 96, 96, 96, 96, 96,
   97, 97, 97, 97, 97, 97, 98, 98, 98, 98, 98, 99, 99, 99, 99, 99,
   99, 100, 100, 100, 100, 100, 101, 101, 101, 101, 101, 101, 102, 102, 102, 102,
   102, 103, 103, 103, 103, 103, 103, 104, 104, 104, 104, 104, 105, 105, 105, 105,
   105, 106, 106, 106, 106, 106, 106, 107, 107, 107, 107, 107, 108, 108, 108, 108,
   108, 108, 109, 109, 109, 109, 109, 110, 110, 110, 110, 110, 110, 111, 111, 111,
   111, 111, 112, 112, 112, 112, 112, 112, 113, 113, 113, 113, 113, 114, 114, 114,
   114, 114, 115, 115, 115, 115, 115, 115, 116, 116, 116, 116, 116, 117, 117, 117,
   117, 117, 117, 118, 118, 118, 118, 118, 119, 119, 119, 119, 119, 119, 120, 120,
   120, 120, 120, 121, 121, 121, 121, 121, 121, 122, 122, 122, 122, 122, 123, 123,
   123, 123, 123, 124, 124, 124, 124, 124, 124, 125, 125, 125, 125, 125, 126, 126,
   126, 126, 126, 126, 127, 127, 127, 127, 127, 128, 128, 128, 128, 128, 128, 129,
   129, 129, 129, 129, 130, 130, 130, 130, 130, 130, 131, 131, 131, 131, 131, 132,
   132, 132, 132, 132, 133, 133, 133, 133, 133, 133, 134, 134, 134, 134, 134, 135,
   135, 135, 135, 135, 135, 136, 136, 136, 136, 136, 137, 137, 137, 137, 137, 137,
   138, 138, 138, 138, 138, 139, 139, 139, 139, 139, 139, 140, 140, 140, 140, 140,
   141, 141, 141, 141, 141, 142, 142, 142, 142, 142, 142, 143, 143, 143, 143, 143,
   144, 144, 144, 144, 144, 144, 145, 145, 145, 145, 145, 146, 146, 146, 146, 146,
   146, 147, 147, 147, 147, 147, 148, 148, 148, 148, 148, 148, 149, 149, 149, 149,
   149, 150, 150, 150, 150, 150, 151, 151, 151, 151, 151, 151, 152, 152, 152, 152,
   152, 153, 153, 153, 153, 153, 153, 154, 154, 154, 154, 154, 155, 155, 155, 155,
   155, 155, 156, 156, 156, 156, 156, 157, 157, 157, 157, 157, 157, 158, 158, 158,
   158, 158, 159, 159, 159, 159, 159, 160, 160, 160, 160, 160, 160, 161, 161, 161,
   161, 161, 162, 162, 162, 162, 162, 162, 163, 163, 163, 163, 163, 164, 164, 164,
   164, 164, 164, 165, 165, 165, 165, 165, 166, 166, 166, 166, 166, 166, 167, 167,
   167, 167, 167, 168, 168, 168, 168, 168, 169, 169, 169, 169, 169, 169, 170, 170,
   170, 170, 170, 171, 171, 171, 171, 171, 171, 172, 172, 172, 172, 172, 173, 173,
   173, 173, 173, 173, 174, 174, 174, 174, 174, 175, 175, 175, 175, 175, 176, 176,
   176, 176, 176, 176, 177, 177, 177, 177, 177, 178, 178, 178, 178, 178, 178, 179,
   179, 179, 179, 179, 180, 180, 180, 180, 180, 180, 181, 181, 181, 181, 181, 182,
   182, 182, 182, 182, 182, 183, 183, 183, 183, 183, 184, 184, 184, 184, 184, 185,
   185, 185, 185, 185, 185, 186, 186, 186, 186, 186, 187, 187, 187, 187, 187, 187,
   188, 188, 188, 188, 188, 189, 189, 189, 189, 189, 189, 190, 190, 190, 190, 190,
   191, 191, 191, 191, 191, 191, 192, 192, 192, 192, 192, 193, 193, 193, 193, 193,
   194, 194, 194, 194, 194, 194, 195, 195, 195, 195, 195, 196, 196, 196, 196, 196,
   196, 197, 197, 197, 197, 197, 198, 198, 198, 198, 198, 198, 199, 199, 199, 199,
   199, 200, 200, 200, 200, 200, 200, 201, 201, 201, 201, 201, 202, 202, 202, 202,
   202, 203, 203, 203, 203, 203, 203, 204, 204, 204, 204, 204, 205, 205, 205, 205,
   205, 205, 206, 206, 206, 206, 206, 207, 207, 207, 207, 207, 207, 208, 208, 208,
   208, 208, 209, 209, 209, 209, 209, 209, 210, 210, 210, 210, 210, 211, 211, 211,
   211, 211, 212, 212, 212, 212, 212, 212, 213, 213, 213, 213, 213, 214, 214, 214,
   214, 214, 214, 215, 215, 215, 215, 215, 216, 216, 216, 216, 216, 216, 217, 217,
   217, 217, 217, 218, 218, 218, 218, 218, 218, 219, 219, 219, 219, 219, 220, 220,
   220, 220, 220, 221, 221, 221, 221, 221, 221, 222, 222, 222, 222, 222, 223, 223,
   223, 223, 223, 223, 224, 224, 224, 224, 224, 225, 225, 225, 225, 225, 225, 226,
   226, 226, 226, 226, 227, 227, 227, 227, 227, 227, 228, 228, 228, 228, 228, 229,
   229, 229, 229, 229, 230, 230, 230, 230, 230, 230, 231, 231, 231, 231, 231, 232,
   232, 232, 232, 232, 232, 233, 233, 233, 233, 233, 234, 234, 234, 234, 234, 234,
   235, 235, 235, 235, 235, 236, 236, 236, 236, 236, 236, 237, 237, 237, 237, 237,
   238, 238, 238, 238, 238, 239, 239, 239, 239, 239, 239, 240, 240, 240, 240, 240,
   241, 241, 241, 241, 241, 241, 242, 242, 242, 242, 242, 243, 243, 243, 243, 243,
   243, 244, 244, 244, 244, 244, 245, 245, 245, 245, 245, 245, 246, 246, 246, 246,
   246, 247, 247, 247, 247, 247, 248, 248, 248, 248, 248, 248, 249, 249, 249, 249,
   249, 250, 250, 250, 250, 250, 250, 251, 251, 251, 251, 251, 252, 252, 252, 252,
   252, 252, 253, 253, 253, 253, 253, 254, 254, 254, 254, 254, 255]"

definition uint16Output :: "u16 list" where
  "uint16Output =
   [0, 47, 94, 141, 188, 236, 283, 330, 377, 424, 472, 519, 566, 613, 661, 708,
   755, 802, 849, 897, 944, 991, 1038, 1085, 1133, 1180, 1227, 1274, 1322, 1369, 1416, 1463,
   1510, 1558, 1605, 1652, 1699, 1746, 1794, 1841, 1888, 1935, 1983, 2030, 2077, 2124, 2171, 2219,
   2266, 2313, 2360, 2407, 2455, 2502, 2549, 2596, 2644, 2691, 2738, 2785, 2832, 2880, 2927, 2974,
   3021, 3069, 3116, 3163, 3210, 3257, 3305, 3352, 3399, 3446, 3493, 3541, 3588, 3635, 3682, 3730,
   3777, 3824, 3871, 3918, 3966, 4013, 4060, 4107, 4154, 4202, 4249, 4296, 4343, 4391, 4438, 4485,
   4532, 4579, 4627, 4674, 4721, 4768, 4815, 4863, 4910, 4957, 5004, 5052, 5099, 5146, 5193, 5240,
   5288, 5335, 5382, 5429, 5476, 5524, 5571, 5618, 5665, 5713, 5760, 5807, 5854, 5901, 5949, 5996,
   6043, 6090, 6138, 6185, 6232, 6279, 6326, 6374, 6421, 6468, 6515, 6562, 6610, 6657, 6704, 6751,
   6799, 6846, 6893, 6940, 6987, 7035, 7082, 7129, 7176, 7223, 7271, 7318, 7365, 7412, 7460, 7507,
   7554, 7601, 7648, 7696, 7743, 7790, 7837, 7884, 7932, 7979, 8026, 8073, 8121, 8168, 8215, 8262,
   8309, 8357, 8404, 8451, 8498, 8545, 8593, 8640, 8687, 8734, 8782, 8829, 8876, 8923, 8970, 9018,
   9065, 9112, 9159, 9207, 9254, 9301, 9348, 9395, 9443, 9490, 9537, 9584, 9631, 9679, 9726, 9773,
   9820, 9868, 9915, 9962, 10009, 10056, 10104, 10151, 10198, 10245, 10292, 10340, 10387, 10434, 10481, 10529,
   10576, 10623, 10670, 10717, 10765, 10812, 10859, 10906, 10953, 11001, 11048, 11095, 11142, 11190, 11237, 11284,
   11331, 11378, 11426, 11473, 11520, 11567, 11614, 11662, 11709, 11756, 11803, 11851, 11898, 11945, 11992, 12039,
   12087, 12134, 12181, 12228, 12276, 12323, 12370, 12417, 12464, 12512, 12559, 12606, 12653, 12700, 12748, 12795,
   12842, 12889, 12937, 12984, 13031, 13078, 13125, 13173, 13220, 13267, 13314, 13361, 13409, 13456, 13503, 13550,
   13598, 13645, 13692, 13739, 13786, 13834, 13881, 13928, 13975, 14022, 14070, 14117, 14164, 14211, 14259, 14306,
   14353, 14400, 14447, 14495, 14542, 14589, 14636, 14683, 14731, 14778, 14825, 14872, 14920, 14967, 15014, 15061,
   15108, 15156, 15203, 15250, 15297, 15345, 15392, 15439, 15486, 15533, 15581, 15628, 15675, 15722, 15769, 15817,
   15864, 15911, 15958, 16006, 16053, 16100, 16147, 16194, 16242, 16289, 16336, 16383, 16430, 16478, 16525, 16572,
   16619, 16667, 16714, 16761, 16808, 16855, 16903, 16950, 16997, 17044, 17091, 17139, 17186, 17233, 17280, 17328,
   17375, 17422, 17469, 17516, 17564, 17611, 17658, 17705, 17752, 17800, 17847, 17894, 17941, 17989, 18036, 18083,
   18130, 18177, 18225, 18272, 18319, 18366, 18414, 18461, 18508, 18555, 18602, 18650, 18697, 18744, 18791, 18838,
   18886, 18933, 18980, 19027, 19075, 19122, 19169, 19216, 19263, 19311, 19358, 19405, 19452, 19499, 19547, 19594,
   19641, 19688, 19736, 19783, 19830, 19877, 19924, 19972, 20019, 20066, 20113, 20160, 20208, 20255, 20302, 20349,
   20397, 20444, 20491, 20538, 20585, 20633, 20680, 20727, 20774, 20821, 20869, 20916, 20963, 21010, 21058, 21105,
   21152, 21199, 21246, 21294, 21341, 21388, 21435, 21483, 21530, 21577, 21624, 21671, 21719, 21766, 21813, 21860,
   21907, 21955, 22002, 22049, 22096, 22144, 22191, 22238, 22285, 22332, 22380, 22427, 22474, 22521, 22568, 22616,
   22663, 22710, 22757, 22805, 22852, 22899, 22946, 22993, 23041, 23088, 23135, 23182, 23229, 23277, 23324, 23371,
   23418, 23466, 23513, 23560, 23607, 23654, 23702, 23749, 23796, 23843, 23891, 23938, 23985, 24032, 24079, 24127,
   24174, 24221, 24268, 24315, 24363, 24410, 24457, 24504, 24552, 24599, 24646, 24693, 24740, 24788, 24835, 24882,
   24929, 24976, 25024, 25071, 25118, 25165, 25213, 25260, 25307, 25354, 25401, 25449, 25496, 25543, 25590, 25637,
   25685, 25732, 25779, 25826, 25874, 25921, 25968, 26015, 26062, 26110, 26157, 26204, 26251, 26298, 26346, 26393,
   26440, 26487, 26535, 26582, 26629, 26676, 26723, 26771, 26818, 26865, 26912, 26960, 27007, 27054, 27101, 27148,
   27196, 27243, 27290, 27337, 27384, 27432, 27479, 27526, 27573, 27621, 27668, 27715, 27762, 27809, 27857, 27904,
   27951, 27998, 28045, 28093, 28140, 28187, 28234, 28282, 28329, 28376, 28423, 28470, 28518, 28565, 28612, 28659,
   28706, 28754, 28801, 28848, 28895, 28943, 28990, 29037, 29084, 29131, 29179, 29226, 29273, 29320, 29367, 29415,
   29462, 29509, 29556, 29604, 29651, 29698, 29745, 29792, 29840, 29887, 29934, 29981, 30029, 30076, 30123, 30170,
   30217, 30265, 30312, 30359, 30406, 30453, 30501, 30548, 30595, 30642, 30690, 30737, 30784, 30831, 30878, 30926,
   30973, 31020, 31067, 31114, 31162, 31209, 31256, 31303, 31351, 31398, 31445, 31492, 31539, 31587, 31634, 31681,
   31728, 31775, 31823, 31870, 31917, 31964, 32012, 32059, 32106, 32153, 32200, 32248, 32295, 32342, 32389, 32436,
   32484, 32531, 32578, 32625, 32673, 32720, 32767, 32814, 32861, 32909, 32956, 33003, 33050, 33098, 33145, 33192,
   33239, 33286, 33334, 33381, 33428, 33475, 33522, 33570, 33617, 33664, 33711, 33759, 33806, 33853, 33900, 33947,
   33995, 34042, 34089, 34136, 34183, 34231, 34278, 34325, 34372, 34420, 34467, 34514, 34561, 34608, 34656, 34703,
   34750, 34797, 34844, 34892, 34939, 34986, 35033, 35081, 35128, 35175, 35222, 35269, 35317, 35364, 35411, 35458,
   35505, 35553, 35600, 35647, 35694, 35742, 35789, 35836, 35883, 35930, 35978, 36025, 36072, 36119, 36167, 36214,
   36261, 36308, 36355, 36403, 36450, 36497, 36544, 36591, 36639, 36686, 36733, 36780, 36828, 36875, 36922, 36969,
   37016, 37064, 37111, 37158, 37205, 37252, 37300, 37347, 37394, 37441, 37489, 37536, 37583, 37630, 37677, 37725,
   37772, 37819, 37866, 37913, 37961, 38008, 38055, 38102, 38150, 38197, 38244, 38291, 38338, 38386, 38433, 38480,
   38527, 38574, 38622, 38669, 38716, 38763, 38811, 38858, 38905, 38952, 38999, 39047, 39094, 39141, 39188, 39236,
   39283, 39330, 39377, 39424, 39472, 39519, 39566, 39613, 39660, 39708, 39755, 39802, 39849, 39897, 39944, 39991,
   40038, 40085, 40133, 40180, 40227, 40274, 40321, 40369, 40416, 40463, 40510, 40558, 40605, 40652, 40699, 40746,
   40794, 40841, 40888, 40935, 40982, 41030, 41077, 41124, 41171, 41219, 41266, 41313, 41360, 41407, 41455, 41502,
   41549, 41596, 41643, 41691, 41738, 41785, 41832, 41880, 41927, 41974, 42021, 42068, 42116, 42163, 42210, 42257,
   42305, 42352, 42399, 42446, 42493, 42541, 42588, 42635, 42682, 42729, 42777, 42824, 42871, 42918, 42966, 43013,
   43060, 43107, 43154, 43202, 43249, 43296, 43343, 43390, 43438, 43485, 43532, 43579, 43627, 43674, 43721, 43768,
   43815, 43863, 43910, 43957, 44004, 44051, 44099, 44146, 44193, 44240, 44288, 44335, 44382, 44429, 44476, 44524,
   44571, 44618, 44665, 44713, 44760, 44807, 44854, 44901, 44949, 44996, 45043, 45090, 45137, 45185, 45232, 45279,
   45326, 45374, 45421, 45468, 45515, 45562, 45610, 45657, 45704, 45751, 45798, 45846, 45893, 45940, 45987, 46035,
   46082, 46129, 46176, 46223, 46271, 46318, 46365, 46412, 46459, 46507, 46554, 46601, 46648, 46696, 46743, 46790,
   46837, 46884, 46932, 46979, 47026, 47073, 47120, 47168, 47215, 47262, 47309, 47357, 47404, 47451, 47498, 47545,
   47593, 47640, 47687, 47734, 47782, 47829, 47876, 47923, 47970, 48018, 48065, 48112, 48159, 48206, 48254, 48301,
   48348, 48395, 48443, 48490, 48537, 48584, 48631, 48679, 48726, 48773, 48820, 48867, 48915, 48962, 49009, 49056,
   49104, 49151, 49198, 49245, 49292, 49340, 49387, 49434, 49481, 49528, 49576, 49623, 49670, 49717, 49765, 49812,
   49859, 49906, 49953, 50001, 50048, 50095, 50142, 50189, 50237, 50284, 50331, 50378, 50426, 50473, 50520, 50567,
   50614, 50662, 50709, 50756, 50803, 50851, 50898, 50945, 50992, 51039, 51087, 51134, 51181, 51228, 51275, 51323,
   51370, 51417, 51464, 51512, 51559, 51606, 51653, 51700, 51748, 51795, 51842, 51889, 51936, 51984, 52031, 52078,
   52125, 52173, 52220, 52267, 52314, 52361, 52409, 52456, 52503, 52550, 52597, 52645, 52692, 52739, 52786, 52834,
   52881, 52928, 52975, 53022, 53070, 53117, 53164, 53211, 53258, 53306, 53353, 53400, 53447, 53495, 53542, 53589,
   53636, 53683, 53731, 53778, 53825, 53872, 53920, 53967, 54014, 54061, 54108, 54156, 54203, 54250, 54297, 54344,
   54392, 54439, 54486, 54533, 54581, 54628, 54675, 54722, 54769, 54817, 54864, 54911, 54958, 55005, 55053, 55100,
   55147, 55194, 55242, 55289, 55336, 55383, 55430, 55478, 55525, 55572, 55619, 55666, 55714, 55761, 55808, 55855,
   55903, 55950, 55997, 56044, 56091, 56139, 56186, 56233, 56280, 56327, 56375, 56422, 56469, 56516, 56564, 56611,
   56658, 56705, 56752, 56800, 56847, 56894, 56941, 56989, 57036, 57083, 57130, 57177, 57225, 57272, 57319, 57366,
   57413, 57461, 57508, 57555, 57602, 57650, 57697, 57744, 57791, 57838, 57886, 57933, 57980, 58027, 58074, 58122,
   58169, 58216, 58263, 58311, 58358, 58405, 58452, 58499, 58547, 58594, 58641, 58688, 58735, 58783, 58830, 58877,
   58924, 58972, 59019, 59066, 59113, 59160, 59208, 59255, 59302, 59349, 59396, 59444, 59491, 59538, 59585, 59633,
   59680, 59727, 59774, 59821, 59869, 59916, 59963, 60010, 60058, 60105, 60152, 60199, 60246, 60294, 60341, 60388,
   60435, 60482, 60530, 60577, 60624, 60671, 60719, 60766, 60813, 60860, 60907, 60955, 61002, 61049, 61096, 61143,
   61191, 61238, 61285, 61332, 61380, 61427, 61474, 61521, 61568, 61616, 61663, 61710, 61757, 61804, 61852, 61899,
   61946, 61993, 62041, 62088, 62135, 62182, 62229, 62277, 62324, 62371, 62418, 62465, 62513, 62560, 62607, 62654,
   62702, 62749, 62796, 62843, 62890, 62938, 62985, 63032, 63079, 63127, 63174, 63221, 63268, 63315, 63363, 63410,
   63457, 63504, 63551, 63599, 63646, 63693, 63740, 63788, 63835, 63882, 63929, 63976, 64024, 64071, 64118, 64165,
   64212, 64260, 64307, 64354, 64401, 64449, 64496, 64543, 64590, 64637, 64685, 64732, 64779, 64826, 64873, 64921,
   64968, 65015, 65062, 65110, 65157, 65204, 65251, 65298, 65346, 65393, 65440, 65487, 65535]"

text \<open>
  A float sample is only ever copied from the constant table \<open>floatOutput\<close> or from the
  literal \<open>1.0f\<close>; it is represented by which constant it is.
\<close>

datatype float_const = floatOutput nat | float_one

datatype sample = Float float_const | UInt16 u16 | UInt8 u8

text \<open>
  The caller's output memory, addressed in units of one sample. The four channel
  pointers are addresses into it, so interleaved and separate buffers are both covered.
\<close>

type_synonym memory = "int \<Rightarrow> sample"

section \<open>File header and decoder object\<close>

record PCDFileHeader =
  signature :: string

record IPIHeader =
  ipiSignature :: string

record ImageComponentAttributes =
  attributes :: u8
  interleaveRatio :: u8

record PCDFile =
  header :: PCDFileHeader
  ipiHeader :: IPIHeader
  iciBase16 :: ImageComponentAttributes

record pcdDecode =
  upResMethod :: int
  monochrome :: bool
  luma :: plane
  chroma1 :: plane
  chroma2 :: plane
  deltas :: "plane list list"
  imageRotate :: nat
  imageResolution :: nat
  colorSpace :: int
  whiteBalance :: int
  imageIPEAvailable :: nat
  imageHuffmanClass :: nat
  baseScene :: nat
  sceneNumber :: nat
  ipeLayers :: nat
  ipeFiles :: nat
  pcdFileHeader :: "PCDFile option"
  errorString :: string

text \<open>\<open>strncmp(buffer, string, strlen(string)) == 0\<close> on a buffer at least that long.\<close>

definition compareBytes :: "string \<Rightarrow> string \<Rightarrow> bool" where
  "compareBytes buffer str \<longleftrightarrow> take (length str) buffer = str"

subsection \<open>Accessors\<close>

definition getWidth :: "pcdDecode \<Rightarrow> nat" where
  "getWidth s =
     (if imageRotate s = 0 then PCDLumaWidth ! sceneNumber s
      else if imageRotate s = 1 then PCDLumaHeight ! sceneNumber s
      else if imageRotate s = 2 then PCDLumaWidth ! sceneNumber s
      else if imageRotate s = 3 then PCDLumaHeight ! sceneNumber s
      else PCDLumaWidth ! sceneNumber s)"

definition getHeight :: "pcdDecode \<Rightarrow> nat" where
  "getHeight s =
     (if imageRotate s = 0 then PCDLumaHeight ! sceneNumber s
      else if imageRotate s = 1 then PCDLumaWidth ! sceneNumber s
      else if imageRotate s = 2 then PCDLumaHeight ! sceneNumber s
      else if imageRotate s = 3 then PCDLumaWidth ! sceneNumber s
      else PCDLumaHeight ! sceneNumber s)"

definition setInterpolation :: "int \<Rightarrow> pcdDecode \<Rightarrow> pcdDecode" where
  "setInterpolation v s = s\<lparr>upResMethod := v\<rparr>"

definition setColorSpace :: "int \<Rightarrow> pcdDecode \<Rightarrow> pcdDecode" where
  "setColorSpace v s = s\<lparr>colorSpace := v\<rparr>"

definition setWhiteBalance :: "int \<Rightarrow> pcdDecode \<Rightarrow> pcdDecode" where
  "setWhiteBalance v s = s\<lparr>whiteBalance := v\<rparr>"

definition getErrorString :: "pcdDecode \<Rightarrow> string" where
  "getErrorString s = errorString s"



definition getOrientation :: "pcdDecode \<Rightarrow> nat" where
  "getOrientation s = imageRotate s"

text \<open>
  \<open>getMetadata\<close>: \<open>description\<close> is the caller's buffer (\<open>None\<close> when the pointer is
  \<open>NULL\<close>), \<open>val\<close> the value buffer; both are given by the C string they hold and
  returned as left by the call. The formatting of a field of a parsed header
  (\<open>sprintf\<close>, \<open>asctime\<close>, the film tables) is the parameter \<open>fmt\<close>.
\<close>

definition getMetadata ::
  "(PCDFile \<Rightarrow> nat \<Rightarrow> nat \<Rightarrow> string) \<Rightarrow> pcdDecode \<Rightarrow> nat \<Rightarrow> string option \<Rightarrow> string
     \<Rightarrow> string option \<times> string" where
  "getMetadata fmt s select description val =
     (if select \<ge> kMaxPCDMetadata \<or> pcdFileHeader s = None then
        ((if description \<noteq> None then Some ''Error'' else description), ''Error'')
      else
        ((if description \<noteq> None then Some (PCDMetadataDescriptions ! select) else description),
         (if compareBytes (ipiSignature (ipiHeader (the (pcdFileHeader s)))) ''PCD_IPI''
          then fmt (the (pcdFileHeader s)) (imageHuffmanClass s) select
          else ''-'')))"

section \<open>The micro CMM\<close>

definition pcdMin :: "'a::linorder \<Rightarrow> 'a \<Rightarrow> 'a" where
  "pcdMin x y = (if x < y then x else y)"

definition pcdPin :: "int \<Rightarrow> int \<Rightarrow> int \<Rightarrow> int" where
  "pcdPin low x high = (if x < low then low else if x > high then high else x)"

record ConvertToRGBData =
  rd_outputSize :: nat
  rd_red :: int
  rd_green :: int
  rd_blue :: int
  rd_alpha :: "int option"
  rd_d :: int
  rd_startRow :: nat
  rd_endRow :: nat
  rd_columns :: nat
  rd_rows :: nat
  rd_lp :: plane
  rd_c1p :: plane
  rd_c2p :: plane
  rd_resFactor :: nat
  rd_imageRotate :: nat
  rd_colorSpace :: int
  rd_whiteBalance :: int

text \<open>
  The destination index of source pixel \<open>(row, col)\<close>. The source computes it in
  \<open>size_t\<close> and stores it in a \<open>ptrdiff_t\<close>: arithmetic modulo \<open>2^64\<close>, read back as
  signed.
\<close>

definition destIndex :: "nat \<Rightarrow> nat \<Rightarrow> nat \<Rightarrow> nat \<Rightarrow> nat \<Rightarrow> int \<Rightarrow> int" where
  "destIndex rot columns rows row col d =
     (if rot = 0 then ptrdiff_t ((int col + int row * int columns) * d)
      else if rot = 1 then ptrdiff_t ((int row + (int columns - 1 - int col) * int rows) * d)
      else if rot = 2 then
        ptrdiff_t ((int columns - 1 - int col + (int rows - 1 - int row) * int columns) * d)
      else if rot = 3 then ptrdiff_t ((int rows - 1 - int row + int col * int rows) * d)
      else ptrdiff_t ((int col + int row * int columns) * d))"

text \<open>The YCC branch: the planes scaled to the index range of the output tables.\<close>

definition yccIndex :: "u8 \<Rightarrow> int" where
  "yccIndex v = pcdPin 0 (int32_t (push_bit 10 (uint v)) sdiv 188) 1388"

text \<open>
  The RGB branch, first stage: Photo CD RGB from \<open>Li\<close>, \<open>C1i\<close>, \<open>C2i\<close>. \<open>>>\<close> on a
  negative \<open>int32_t\<close> is the arithmetic shift (\<open>drop_bit\<close> on \<open>int\<close>), \<open>/\<close> truncates
  (\<open>sdiv\<close>).
\<close>

definition photoCDRGB :: "int \<Rightarrow> int \<Rightarrow> int \<Rightarrow> int \<times> int \<times> int" where
  "photoCDRGB Li C1i C2i =
     (pcdPin 0 (drop_bit 10 (int32_t (Li + C2i))) 1388,
      pcdPin 0 (int32_t (int32_t (drop_bit 10 Li - C1i sdiv 5278) - C2i sdiv 2012)) 1388,
      pcdPin 0 (drop_bit 10 (int32_t (Li + C1i))) 1388)"

text \<open>The RGB branch, second stage: linear light, white balance, sRGB, pinning.\<close>

definition colorManage :: "int \<Rightarrow> int \<Rightarrow> int \<times> int \<times> int \<Rightarrow> int \<times> int \<times> int" where
  "colorManage cs wb rgb =
     (let (ri, gi, bi) = rgb;
          (ri, gi, bi) =
            (if cs = kPCDLinearCCIR709ColorSpace \<or> cs = kPCDsRGBColorSpace then
               (let ri = toLinearLight ! nat ri;
                    gi = toLinearLight ! nat gi;
                    bi = toLinearLight ! nat bi
                in if wb = kPCDD50White then
                     (let rt = ri; gt = gi; bt = bi
                      in (drop_bit 13 (int32_t (5930 * rt - 143 * gt + 393 * bt)),
                          drop_bit 13 (int32_t (- 176 * rt + 6268 * gt + 131 * bt)),
                          drop_bit 13 (int32_t (76 * rt - 128 * gt + 8256 * bt))))
                   else (ri, gi, bi))
             else (ri, gi, bi))
      in if cs = kPCDsRGBColorSpace then
           (CCIR709tosRGB ! nat (pcdPin 0 ri 1388),
            CCIR709tosRGB ! nat (pcdPin 0 gi 1388),
            CCIR709tosRGB ! nat (pcdPin 0 bi 1388))
         else (pcdPin 0 ri 1388, pcdPin 0 gi 1388, pcdPin 0 bi 1388))"

text \<open>
  One pixel. \<open>C1i\<close> and \<open>C2i\<close> are locals of \<open>convertToRGB\<close> that keep their value from
  pixel to pixel when the chroma pointer is \<open>NULL\<close>; they are threaded through as
  \<open>carry\<close>. The result is the triple of table indices and the new carry.
\<close>

definition convertPixel ::
  "ConvertToRGBData \<Rightarrow> nat \<Rightarrow> nat \<Rightarrow> int \<times> int \<Rightarrow> ((int \<times> int \<times> int) \<times> (int \<times> int)) option" where
  "convertPixel rd row col carry =
     (let lumaIndex = col + row * rd_columns rd;
          chromaIndex = drop_bit (rd_resFactor rd) col
            + drop_bit (rd_resFactor rd) row * drop_bit (rd_resFactor rd) (rd_columns rd)
      in if rd_colorSpace rd = kPCDYCCColorSpace then
           do {
             l \<leftarrow> peek (rd_lp rd) lumaIndex;
             c1 \<leftarrow> peek (rd_c1p rd) chromaIndex;
             c2 \<leftarrow> peek (rd_c2p rd) chromaIndex;
             Some ((yccIndex l, yccIndex c1, yccIndex c2), carry)
           }
         else
           do {
             l \<leftarrow> peek (rd_lp rd) lumaIndex;
             let Li = int32_t (uint l * 5573);
             C1i \<leftarrow> (if rd_c1p rd \<noteq> None
                     then map_option (\<lambda>c. int32_t ((uint c - 156) * 9085))
                            (peek (rd_c1p rd) chromaIndex)
                     else Some (fst carry));
             C2i \<leftarrow> (if rd_c2p rd \<noteq> None
                     then map_option (\<lambda>c. int32_t ((uint c - 137) * 7461))
                            (peek (rd_c2p rd) chromaIndex)
                     else Some (snd carry));
             Some (colorManage (rd_colorSpace rd) (rd_whiteBalance rd) (photoCDRGB Li C1i C2i),
                   (C1i, C2i))
           })"

text \<open>Delivery of one pixel in the requested format.\<close>

definition storePixel :: "ConvertToRGBData \<Rightarrow> int \<Rightarrow> int \<times> int \<times> int \<Rightarrow> memory \<Rightarrow> memory" where
  "storePixel rd di rgb mem =
     (let (ri, gi, bi) = rgb in
      if rd_outputSize rd = pcdFloatSize then
        (let mem = mem(rd_red rd + di := Float (floatOutput (nat ri)));
             mem = mem(rd_green rd + di := Float (floatOutput (nat gi)));
             mem = mem(rd_blue rd + di := Float (floatOutput (nat bi)))
         in case rd_alpha rd of None \<Rightarrow> mem | Some a \<Rightarrow> mem(a + di := Float float_one))
      else if rd_outputSize rd = pcdInt16Size then
        (let mem = mem(rd_red rd + di := UInt16 (uint16Output ! nat ri));
             mem = mem(rd_green rd + di := UInt16 (uint16Output ! nat gi));
             mem = mem(rd_blue rd + di := UInt16 (uint16Output ! nat bi))
         in case rd_alpha rd of None \<Rightarrow> mem | Some a \<Rightarrow> mem(a + di := UInt16 0xffff))
      else
        (let mem = mem(rd_red rd + di := UInt8 (uint8Output ! nat ri));
             mem = mem(rd_green rd + di := UInt8 (uint8Output ! nat gi));
             mem = mem(rd_blue rd + di := UInt8 (uint8Output ! nat bi))
         in case rd_alpha rd of None \<Rightarrow> mem | Some a \<Rightarrow> mem(a + di := UInt8 0xff)))"

definition convertStep ::
  "ConvertToRGBData \<Rightarrow> nat \<Rightarrow> nat \<Rightarrow> (int \<times> int) \<times> memory \<Rightarrow> ((int \<times> int) \<times> memory) option" where
  "convertStep rd row col st =
     (case convertPixel rd row col (fst st) of
        None \<Rightarrow> None
      | Some (rgb, carry) \<Rightarrow>
          Some (carry,
                storePixel rd
                  (destIndex (rd_imageRotate rd) (rd_columns rd) (rd_rows rd) row col (rd_d rd))
                  rgb (snd st)))"

text \<open>
  The row band of one worker. Both loops of the source run until \<open>!=\<close> fails; a band
  whose end lies before its start would run off the planes.
\<close>

definition convertToRGB :: "ConvertToRGBData \<Rightarrow> memory \<Rightarrow> memory option" where
  "convertToRGB rd mem =
     (if rd_endRow rd < rd_startRow rd then None
      else map_option snd
             (foldM (\<lambda>row. foldM (convertStep rd row) [0..<rd_columns rd])
                [rd_startRow rd..<rd_endRow rd] ((0, 0), mem)))"

section \<open>Interpolation\<close>

text \<open>
  One destination pixel of the up-resolution: add the signed delta already stored there
  when there is one, saturate, store.
\<close>

definition upResStore :: "bool \<Rightarrow> int \<Rightarrow> nat \<Rightarrow> u8 list \<Rightarrow> u8 list option" where
  "upResStore hasDeltas sm indexDelta dest =
     (if indexDelta < length dest then
        (let sm = (if hasDeltas then sm + sint (dest ! indexDelta) else sm);
             sm = (if sm < 0 then 0 else if sm > 255 then 255 else sm)
         in Some (dest[indexDelta := word_of_int sm]))
      else None)"

text \<open>The four destination pixels of base pixel \<open>(row, column)\<close>, bilinear, four taps.\<close>

definition upResCell ::
  "plane \<Rightarrow> nat \<Rightarrow> nat \<Rightarrow> bool \<Rightarrow> nat \<Rightarrow> nat \<Rightarrow> u8 list \<Rightarrow> u8 list option" where
  "upResCell base width height hasDeltas row column dest =
     (let w2 = drop_bit 1 width;
          columnPlus = pcdMin (column + 1) (w2 - 1);
          rowPlus = pcdMin (row + 1) (drop_bit 1 height - 1)
      in do {
        basePix \<leftarrow> peek base (column + row * w2);
        basePix01 \<leftarrow> peek base (columnPlus + row * w2);
        basePix10 \<leftarrow> peek base (column + rowPlus * w2);
        basePix11 \<leftarrow> peek base (columnPlus + rowPlus * w2);
        dest \<leftarrow> upResStore hasDeltas (uint basePix)
                  (push_bit 1 column + push_bit 1 row * width) dest;
        dest \<leftarrow> upResStore hasDeltas (drop_bit 1 (uint basePix + uint basePix01 + 1))
                  (push_bit 1 column + 1 + push_bit 1 row * width) dest;
        dest \<leftarrow> upResStore hasDeltas (drop_bit 1 (uint basePix + uint basePix10 + 1))
                  (push_bit 1 column + (push_bit 1 row + 1) * width) dest;
        upResStore hasDeltas
          (drop_bit 2 (uint basePix + uint basePix01 + uint basePix10 + uint basePix11 + 2))
          (push_bit 1 column + 1 + (push_bit 1 row + 1) * width) dest
      })"

definition upResInterpolate ::
  "plane \<Rightarrow> nat \<Rightarrow> nat \<Rightarrow> bool \<Rightarrow> nat \<Rightarrow> nat \<Rightarrow> u8 list \<Rightarrow> u8 list option" where
  "upResInterpolate base width height hasDeltas startRow endRow dest =
     foldM (\<lambda>row. foldM (upResCell base width height hasDeltas row) [0..<drop_bit 1 width])
       [drop_bit 1 startRow..<drop_bit 1 endRow] dest"

text \<open>Nearest neighbour, one destination pixel.\<close>

definition upResNearest ::
  "plane \<Rightarrow> nat \<Rightarrow> bool \<Rightarrow> nat \<Rightarrow> nat \<Rightarrow> u8 list \<Rightarrow> u8 list option" where
  "upResNearest base width hasDeltas row column dest =
     (let indexBase = drop_bit 1 column + drop_bit 1 row * drop_bit 1 width;
          indexDelta = column + row * width
      in do {
        b \<leftarrow> peek base indexBase;
        if indexDelta < length dest then
          (let sm = uint b;
               sm = (if hasDeltas then
                        (let sm = sm + sint (dest ! indexDelta)
                         in if sm < 0 then 0 else if sm > 255 then 255 else sm)
                      else sm)
           in Some (dest[indexDelta := word_of_int sm]))
        else None
      })"

text \<open>
  \<open>upResBuffer\<close> fills \<open>dest\<close> from \<open>base\<close>; the row bands of the workers are disjoint
  and are applied in thread order. The result is the new content of \<open>dest\<close>.
\<close>

definition upResBuffer ::
  "plane \<Rightarrow> plane \<Rightarrow> plane \<Rightarrow> nat \<Rightarrow> nat \<Rightarrow> int \<Rightarrow> bool \<Rightarrow> plane option" where
  "upResBuffer base dest lumap width height method hasDeltas =
     (case dest of
        None \<Rightarrow> Some None
      | Some dst \<Rightarrow>
          if method \<ge> kUpResIterpolate then
            map_option (\<lambda>(previousRow, dst). Some dst)
              (foldM (\<lambda>thread (previousRow, dst).
                   (let endRow = height div kNumThreads * (thread + 1)
                    in map_option (Pair endRow)
                         (upResInterpolate base width height hasDeltas previousRow endRow dst)))
                 [0..<kNumThreads] (0, dst))
          else
            map_option Some
              (foldM (\<lambda>row. foldM (upResNearest base width hasDeltas row) [0..<width])
                 [0..<height] dst))"

text \<open>
  \<open>interpolateBuffers\<close>: the result is \<open>(c1UpRes, c2UpRes, resFactor)\<close>. Allocation is
  taken to succeed. A fresh buffer is given as zeros: with \<open>hasDeltas\<close> false it is only
  written. The intermediate buffer of the factor-4 case is used for both chroma planes in
  turn.
\<close>

definition interpolateBuffers :: "pcdDecode \<Rightarrow> nat \<Rightarrow> (plane \<times> plane \<times> nat) option" where
  "interpolateBuffers s resFactor =
     (let w = PCDLumaWidth ! sceneNumber s; h = PCDLumaHeight ! sceneNumber s
      in if upResMethod s \<ge> kUpResIterpolate then
           do {
             let fresh = Some (replicate (h * w) 0);
             let intermediate = (if resFactor = 2
                                 then Some (replicate (drop_bit 1 h * drop_bit 1 w) 0)
                                 else None);
             intermediate \<leftarrow> (if resFactor = 2
                              then upResBuffer (chroma1 s) intermediate None (drop_bit 1 w)
                                     (drop_bit 1 h) (upResMethod s) False
                              else Some intermediate);
             let c1p = (if resFactor = 2 then intermediate else chroma1 s);
             c1UpRes \<leftarrow> upResBuffer c1p fresh (luma s) w h (upResMethod s) False;
             intermediate \<leftarrow> (if resFactor = 2
                              then upResBuffer (chroma2 s) intermediate None (drop_bit 1 w)
                                     (drop_bit 1 h) (upResMethod s) False
                              else Some intermediate);
             let c2p = (if resFactor = 2 then intermediate else chroma2 s);
             c2UpRes \<leftarrow> upResBuffer c2p fresh (luma s) w h (upResMethod s) False;
             Some (c1UpRes, c2UpRes, 0)
           }
         else Some (None, None, resFactor))"

section \<open>Output\<close>

text \<open>
  What \<open>populateBuffers\<close> puts into \<open>rd[thread]\<close> before it starts the worker: the band
  from \<open>previousRow\<close> to \<open>PCDLumaHeight[sceneNumber] / kNumThreads * (thread + 1)\<close>.
\<close>

definition threadData ::
  "pcdDecode \<Rightarrow> int \<Rightarrow> int \<Rightarrow> int \<Rightarrow> int option \<Rightarrow> int \<Rightarrow> nat \<Rightarrow> plane \<Rightarrow> plane \<Rightarrow> nat
     \<Rightarrow> nat \<Rightarrow> nat \<Rightarrow> ConvertToRGBData" where
  "threadData s red green blue alpha d dataSize c1p c2p resFactor previousRow thread =
     \<lparr>rd_outputSize = dataSize, rd_red = red, rd_green = green,
      rd_blue = blue, rd_alpha = alpha, rd_d = d,
      rd_startRow = previousRow,
      rd_endRow = PCDLumaHeight ! sceneNumber s div kNumThreads * (thread + 1),
      rd_columns = PCDLumaWidth ! sceneNumber s,
      rd_rows = PCDLumaHeight ! sceneNumber s,
      rd_lp = luma s,
      rd_c1p = (if monochrome s then None else c1p),
      rd_c2p = (if monochrome s then None else c2p),
      rd_resFactor = resFactor, rd_imageRotate = imageRotate s,
      rd_colorSpace = colorSpace s, rd_whiteBalance = whiteBalance s\<rparr>"

text \<open>
  \<open>populateBuffers\<close> assigns to no member of the decoder; the decoder is returned beside
  the memory to make that explicit. The first thing it does, before it looks at
  \<open>pcdFileHeader\<close>, is to read \<open>PCDChromaResFactor[sceneNumber]\<close>: a \<open>sceneNumber\<close> beyond
  the six entries of the table is a read outside the table, \<open>None\<close>. The bands of the
  workers are applied in thread order.
\<close>

definition populateBuffers ::
  "pcdDecode \<Rightarrow> int \<Rightarrow> int \<Rightarrow> int \<Rightarrow> int option \<Rightarrow> int \<Rightarrow> nat \<Rightarrow> memory
     \<Rightarrow> (pcdDecode \<times> memory) option" where
  "populateBuffers s red green blue alpha d dataSize mem =
     (if sceneNumber s < length PCDChromaResFactor then
        (let resFactor = PCDChromaResFactor ! sceneNumber s
         in if pcdFileHeader s = None then Some (s, mem)
            else
              do {
                (c1UpRes, c2UpRes, resFactor) \<leftarrow> interpolateBuffers s resFactor;
                let c1p = (if c1UpRes \<noteq> None then c1UpRes else chroma1 s);
                let c2p = (if c2UpRes \<noteq> None then c2UpRes else chroma2 s);
                (previousRow, mem) \<leftarrow>
                  foldM (\<lambda>thread (previousRow, mem).
                      (let rd = threadData s red green blue alpha d dataSize c1p c2p resFactor
                                  previousRow thread
                       in map_option (Pair (rd_endRow rd)) (convertToRGB rd mem)))
                    [0..<kNumThreads] (0, mem);
                Some (s, mem)
              })
      else None)"

definition populateFloatBuffers ::
  "pcdDecode \<Rightarrow> int \<Rightarrow> int \<Rightarrow> int \<Rightarrow> int option \<Rightarrow> int \<Rightarrow> memory \<Rightarrow> (pcdDecode \<times> memory) option" where
  "populateFloatBuffers s red green blue alpha d mem =
     populateBuffers s red green blue alpha d pcdFloatSize mem"

definition populateUInt16Buffers ::
  "pcdDecode \<Rightarrow> int \<Rightarrow> int \<Rightarrow> int \<Rightarrow> int option \<Rightarrow> int \<Rightarrow> memory \<Rightarrow> (pcdDecode \<times> memory) option" where
  "populateUInt16Buffers s red green blue alpha d mem =
     populateBuffers s red green blue alpha d pcdInt16Size mem"

definition populateUInt8Buffers ::
  "pcdDecode \<Rightarrow> int \<Rightarrow> int \<Rightarrow> int \<Rightarrow> int option \<Rightarrow> int \<Rightarrow> memory \<Rightarrow> (pcdDecode \<times> memory) option" where
  "populateUInt8Buffers s red green blue alpha d mem =
     populateBuffers s red green blue alpha d pcdByteSize mem"

section \<open>The Huffman bit stream\<close>

text \<open>
  What a decoding routine can end with besides returning: a C++ exception (the source
  throws string literals) or an access outside a plane.
\<close>

datatype failure = Thrown string | InvalidAccess

text \<open>
  \<open>ReadBuffer\<close>: the sector buffer is an array of \<open>KSectorSize\<close> bytes, \<open>b_p\<close> the index
  the pointer \<open>p\<close> has in it, \<open>b_fp\<close> the bytes of the file from its current position.
  \<open>sum\<close> never exceeds 32 bits; \<open>bits\<close> is an \<open>unsigned long\<close> (64 bits) whose
  subtraction wraps.
\<close>

record ReadBuffer =
  b_sbuffer :: "nat \<Rightarrow> u8"
  b_fp :: "u8 list"
  b_sum :: u32
  b_bits :: nat
  b_p :: nat

record huffTable =
  ht_key :: "u16 \<Rightarrow> u8"
  ht_len :: "u16 \<Rightarrow> u8"

definition kHuffmanErrorLen :: u8 where "kHuffmanErrorLen = 0x1f"

definition ulong_sub :: "nat \<Rightarrow> nat \<Rightarrow> nat" where
  "ulong_sub a n = (if n \<le> a then a - n else a + 2 ^ 64 - n)"

text \<open>
  \<open>readNextSector\<close>: \<open>fread\<close> on the file delivers the bytes that are left, at most a
  sector; a short last sector leaves the tail of the buffer as it was. \<open>None\<close> is the
  return value \<open>false\<close>.
\<close>

definition readNextSector :: "ReadBuffer \<Rightarrow> ReadBuffer option" where
  "readNextSector b =
     (if b_fp b = [] then None
      else Some (b\<lparr>b_sbuffer := (\<lambda>i. if i < length (take KSectorSize (b_fp b))
                                         then b_fp b ! i else b_sbuffer b i),
                    b_fp := drop KSectorSize (b_fp b)\<rparr>))"

text \<open>The refill loop of \<open>PCDGetBits\<close>.\<close>

function fillBits :: "ReadBuffer \<Rightarrow> failure + ReadBuffer" where
  "fillBits b =
     (if b_bits b \<le> 24 then
        (case (if b_p b \<ge> KSectorSize
               then map_option (\<lambda>b'. b'\<lparr>b_p := 0\<rparr>) (readNextSector b)
               else Some b) of
           None \<Rightarrow> Inl (Thrown ''Unexpected end of file in Huffman sequence'')
         | Some b1 \<Rightarrow>
             fillBits (b1\<lparr>b_sum := b_sum b1 OR push_bit (24 - b_bits b1) (ucast (b_sbuffer b1 (b_p b1))),
                          b_bits := b_bits b1 + 8,
                          b_p := b_p b1 + 1\<rparr>))
      else Inr b)"
  by pat_completeness auto
termination
  by (relation "measure (\<lambda>b. 25 - b_bits b)")
     (auto simp: readNextSector_def split: if_splits)

declare fillBits.simps [simp del]

definition PCDGetBits :: "ReadBuffer \<Rightarrow> nat \<Rightarrow> failure + ReadBuffer" where
  "PCDGetBits b n =
     fillBits (b\<lparr>b_sum := push_bit n (b_sum b), b_bits := ulong_sub (b_bits b) n\<rparr>)"

definition initReadBuffer :: "(nat \<Rightarrow> u8) \<Rightarrow> u8 list \<Rightarrow> failure + ReadBuffer" where
  "initReadBuffer uninitialised file =
     PCDGetBits \<lparr>b_sbuffer = uninitialised, b_fp = file, b_sum = 0, b_bits = 0,
                 b_p = KSectorSize\<rparr> 0"

text \<open>
  Measures for the two loops of \<open>syncHuffman\<close>: the bytes left in the file and in
  the buffer, then the bit count.
\<close>

definition bytesAhead :: "ReadBuffer \<Rightarrow> nat" where
  "bytesAhead b =
     length (b_fp b) * (KSectorSize + 1) + (KSectorSize - b_p b)"

definition bitsAhead :: "nat \<Rightarrow> ReadBuffer \<Rightarrow> nat" where
  "bitsAhead n b = (if b_bits b < n then b_bits b + 2 ^ 64 else b_bits b)"

lemma fillBits_progress:
  "fillBits b = Inr b' \<Longrightarrow>
     bytesAhead b' \<le> bytesAhead b \<and> (b_bits b \<le> 24 \<longrightarrow> bytesAhead b' < bytesAhead b)
     \<and> (24 < b_bits b \<longrightarrow> b' = b)"
proof (induction b rule: fillBits.induct)
  case (1 b)
  show ?case
  proof (cases "b_bits b \<le> 24")
    case False
    with "1.prems" show ?thesis by (simp add: fillBits.simps [of b])
  next
    case True
    note le = True
    show ?thesis
    proof (cases "b_p b \<ge> KSectorSize")
      case True
      show ?thesis
      proof (cases "readNextSector b")
        case None
        with le True "1.prems" show ?thesis by (simp add: fillBits.simps [of b])
      next
        case (Some b1)
        let ?b2 = "(b1\<lparr>b_p := 0\<rparr>)\<lparr>b_sum := b_sum (b1\<lparr>b_p := 0\<rparr>) OR push_bit (24 - b_bits (b1\<lparr>b_p := 0\<rparr>)) (ucast (b_sbuffer (b1\<lparr>b_p := 0\<rparr>) (b_p (b1\<lparr>b_p := 0\<rparr>)))),
                          b_bits := b_bits (b1\<lparr>b_p := 0\<rparr>) + 8,
                          b_p := b_p (b1\<lparr>b_p := 0\<rparr>) + 1\<rparr>"
        have eq: "fillBits b = fillBits ?b2"
          using le True Some by (subst fillBits.simps) simp
        have ih: "bytesAhead b' \<le> bytesAhead ?b2"
          using "1.IH" [of "b1\<lparr>b_p := 0\<rparr>"] le True Some "1.prems" eq by simp
        have "0 < length (b_fp b)" and "b_fp b1 = drop KSectorSize (b_fp b)"
          using Some by (auto simp: readNextSector_def split: if_splits)
        moreover have "\<And>n::nat. 0 < n \<Longrightarrow> (n - 2048) * 2049 + 2047 < n * 2049"
          by arith
        ultimately have "bytesAhead ?b2 < bytesAhead b"
          using True by (simp add: bytesAhead_def KSectorSize_def)
        with ih le show ?thesis by simp
      qed
    next
      case False
      let ?b2 = "b\<lparr>b_sum := b_sum b OR push_bit (24 - b_bits b) (ucast (b_sbuffer b (b_p b))),
                          b_bits := b_bits b + 8,
                          b_p := b_p b + 1\<rparr>"
      have eq: "fillBits b = fillBits ?b2"
        using le False by (subst fillBits.simps) simp
      have ih: "bytesAhead b' \<le> bytesAhead ?b2"
        using "1.IH" [of b] le False "1.prems" eq by simp
      have "bytesAhead ?b2 < bytesAhead b"
        using False by (auto simp: bytesAhead_def KSectorSize_def)
      with ih le show ?thesis by simp
    qed
  qed
qed

lemma PCDGetBits_decreases:
  assumes "PCDGetBits b n = Inr b'" "0 < n" "n \<le> 24"
  shows "(b', b) \<in> measures [bytesAhead, bitsAhead n]"
proof -
  let ?b0 = "b\<lparr>b_sum := push_bit n (b_sum b), b_bits := ulong_sub (b_bits b) n\<rparr>"
  have f: "fillBits ?b0 = Inr b'" using assms(1) by (simp add: PCDGetBits_def)
  have same: "bytesAhead ?b0 = bytesAhead b" by (simp add: bytesAhead_def)
  show ?thesis
  proof (cases "b_bits ?b0 \<le> 24")
    case True
    with fillBits_progress [OF f] same show ?thesis by simp
  next
    case False
    with fillBits_progress [OF f] have "b' = ?b0" by simp
    moreover have "bitsAhead n ?b0 < bitsAhead n b"
      using False assms(2,3) by (auto simp: bitsAhead_def ulong_sub_def split: if_splits)
    ultimately show ?thesis using same by simp
  qed
qed

text \<open>\<open>syncHuffman\<close>: its first loop steps by bytes, its second by bits.\<close>

function syncByte :: "ReadBuffer \<Rightarrow> failure + ReadBuffer" where
  "syncByte b =
     (if \<not> (b_sum b AND 0x00fff000 = 0x00fff000) then
        (case PCDGetBits b 8 of Inl e \<Rightarrow> Inl e | Inr b' \<Rightarrow> syncByte b')
      else Inr b)"
  by pat_completeness auto
termination
proof (relation "measures [bytesAhead, bitsAhead 8]")
  show "wf (measures [bytesAhead, bitsAhead 8])" by simp
next
  fix b b' :: ReadBuffer
  assume "PCDGetBits b 8 = Inr b'"
  then show "(b', b) \<in> measures [bytesAhead, bitsAhead 8]"
    by (rule PCDGetBits_decreases) simp_all
qed

function syncBit :: "ReadBuffer \<Rightarrow> failure + ReadBuffer" where
  "syncBit b =
     (if \<not> (b_sum b AND 0xffffff00 = 0xfffffe00) then
        (case PCDGetBits b 1 of Inl e \<Rightarrow> Inl e | Inr b' \<Rightarrow> syncBit b')
      else Inr b)"
  by pat_completeness auto
termination
proof (relation "measures [bytesAhead, bitsAhead 1]")
  show "wf (measures [bytesAhead, bitsAhead 1])" by simp
next
  fix b b' :: ReadBuffer
  assume "PCDGetBits b 1 = Inr b'"
  then show "(b', b) \<in> measures [bytesAhead, bitsAhead 1]"
    by (rule PCDGetBits_decreases) simp_all
qed

declare syncByte.simps [simp del] syncBit.simps [simp del]

definition syncHuffman :: "ReadBuffer \<Rightarrow> failure + ReadBuffer" where
  "syncHuffman b = (case syncByte b of Inl e \<Rightarrow> Inl e | Inr b' \<Rightarrow> syncBit b')"

text \<open>
  \<open>PCDDecodeHuffman\<close> writes into the plane \<open>mem\<close> from offset \<open>dest\<close> on. The recovery
  loop of the source restarts \<open>i\<close> at 0 and writes through \<open>dest\<close>, which the decoding
  loop has not moved (it writes through \<open>ptr\<close>).
\<close>

definition zeroSequence :: "plane \<Rightarrow> nat \<Rightarrow> int \<Rightarrow> plane option" where
  "zeroSequence mem dest len =
     (if len \<le> 0 then Some mem
      else case mem of
             None \<Rightarrow> None
           | Some xs \<Rightarrow> map_option Some (foldM (\<lambda>i ys. poke ys (dest + i) 0) [0..<nat len] xs))"

definition codeOf :: "ReadBuffer \<Rightarrow> u16" where
  "codeOf b = ucast (drop_bit 16 (b_sum b) AND 0xffff)"

function PCDDecodeHuffman_loop ::
  "huffTable \<Rightarrow> nat \<Rightarrow> int \<Rightarrow> nat \<Rightarrow> ReadBuffer \<Rightarrow> plane \<Rightarrow> failure + (ReadBuffer \<times> plane)" where
  "PCDDecodeHuffman_loop huf dest len i b mem =
     (if int i < len then
        (let code = codeOf b in
         if ht_len huf code = kHuffmanErrorLen then
           (case zeroSequence mem dest len of
              None \<Rightarrow> Inl InvalidAccess
            | Some mem' \<Rightarrow>
                (case syncHuffman b of Inl e \<Rightarrow> Inl e | Inr b' \<Rightarrow> Inr (b', mem')))
         else
           (case mem of
              None \<Rightarrow> Inl InvalidAccess
            | Some xs \<Rightarrow>
                (case poke xs (dest + i) (ht_key huf code) of
                   None \<Rightarrow> Inl InvalidAccess
                 | Some ys \<Rightarrow>
                     (case PCDGetBits b (unat (ht_len huf code)) of
                        Inl e \<Rightarrow> Inl e
                      | Inr b' \<Rightarrow> PCDDecodeHuffman_loop huf dest len (i + 1) b' (Some ys)))))
      else Inr (b, mem))"
  by pat_completeness auto
termination
  by (relation "measure (\<lambda>(huf, dest, len, i, b, mem). nat (len - int i))") auto

declare PCDDecodeHuffman_loop.simps [simp del]

definition PCDDecodeHuffman ::
  "ReadBuffer \<Rightarrow> huffTable \<Rightarrow> plane \<Rightarrow> nat \<Rightarrow> int \<Rightarrow> failure + (ReadBuffer \<times> plane)" where
  "PCDDecodeHuffman b huf mem dest len = PCDDecodeHuffman_loop huf dest len 0 b mem"

text \<open>
  The bit stream after \<open>k\<close> symbols have been decoded from it, when none of them meets
  the error entry of the table and the stream does not end.
\<close>

fun afterSymbols :: "huffTable \<Rightarrow> nat \<Rightarrow> ReadBuffer \<Rightarrow> ReadBuffer option" where
  "afterSymbols huf 0 b = Some b"
| "afterSymbols huf (Suc k) b =
     (if ht_len huf (codeOf b) = kHuffmanErrorLen then None
      else case PCDGetBits b (unat (ht_len huf (codeOf b))) of
             Inl e \<Rightarrow> None
           | Inr b' \<Rightarrow> afterSymbols huf k b')"

section \<open>The delta decoder\<close>

text \<open>The fields of a sequence header, as \<open>readPCDDeltas\<close> takes them from \<open>buf->sum\<close>.\<close>

definition headerFields :: "nat \<Rightarrow> u32 \<Rightarrow> nat \<times> nat \<times> nat" where
  "headerFields sceneSelect sm =
     (let row = unat (drop_bit (RowShift ! sceneSelect) sm AND RowMask ! sceneSelect);
          sequence = unat (drop_bit (SequenceShift ! sceneSelect) sm AND SequenceMask ! sceneSelect);
          plane = unat (drop_bit (PlaneShift ! sceneSelect) sm AND PlaneMask ! sceneSelect);
          row = row * (if plane = 0 then 1 else RowSubSample ! sceneSelect)
      in (row, sequence, plane))"

fun skipHeader :: "nat \<Rightarrow> ReadBuffer \<Rightarrow> failure + ReadBuffer" where
  "skipHeader 0 b = Inr b"
| "skipHeader (Suc n) b = (case PCDGetBits b 8 of Inl e \<Rightarrow> Inl e | Inr b' \<Rightarrow> skipHeader n b')"

record deltaState =
  ds_buf :: ReadBuffer
  ds_data0 :: plane
  ds_data1 :: plane
  ds_data2 :: plane
  ds_planeTrack :: nat
  ds_row :: nat

text \<open>The dispatch on the plane of a sequence whose row lies inside the image.\<close>

definition decodeSequence ::
  "huffTable list \<Rightarrow> nat \<Rightarrow> nat \<Rightarrow> nat \<Rightarrow> nat \<Rightarrow> nat \<Rightarrow> nat \<Rightarrow> deltaState
     \<Rightarrow> failure + deltaState" where
  "decodeSequence huf sceneSelect sequenceSize colOffset row sequence plane st =
     (if plane = 0 then
        (case PCDDecodeHuffman (ds_buf st) (huf ! 0) (ds_data0 st)
                (row * PCDLumaWidth ! sceneSelect + sequence * sequenceSize + colOffset)
                (if sequenceSize = 0 then int (PCDLumaWidth ! sceneSelect) else int sequenceSize) of
           Inl e \<Rightarrow> Inl e
         | Inr (b, m) \<Rightarrow>
             Inr (st\<lparr>ds_buf := b, ds_data0 := m, ds_planeTrack := ds_planeTrack st AND 0x6\<rparr>))
      else if plane = 2 then
        (if ds_data1 st \<noteq> None then
           (case PCDDecodeHuffman (ds_buf st) (huf ! 1) (ds_data1 st)
                   (drop_bit 1 row * PCDChromaWidth ! sceneSelect + sequence * sequenceSize
                      + drop_bit 1 colOffset)
                   (if sequenceSize = 0 then int (PCDChromaWidth ! sceneSelect)
                    else int sequenceSize) of
              Inl e \<Rightarrow> Inl e
            | Inr (b, m) \<Rightarrow>
                Inr (st\<lparr>ds_buf := b, ds_data1 := m, ds_planeTrack := ds_planeTrack st AND 0x5\<rparr>))
         else Inr (st\<lparr>ds_planeTrack := ds_planeTrack st AND 0x5\<rparr>))
      else if plane = 3 \<or> plane = 4 then
        (if ds_data2 st \<noteq> None then
           (case PCDDecodeHuffman (ds_buf st) (huf ! 2) (ds_data2 st)
                   (drop_bit 1 row * PCDChromaWidth ! sceneSelect + sequence * sequenceSize
                      + drop_bit 1 colOffset)
                   (if sequenceSize = 0 then int (PCDChromaWidth ! sceneSelect)
                    else int sequenceSize) of
              Inl e \<Rightarrow> Inl e
            | Inr (b, m) \<Rightarrow>
                Inr (st\<lparr>ds_buf := b, ds_data2 := m, ds_planeTrack := ds_planeTrack st AND 0x3\<rparr>))
         else Inr (st\<lparr>ds_planeTrack := ds_planeTrack st AND 0x3\<rparr>))
      else Inl (Thrown ''Corrupt Image''))"

text \<open>One pass of the loop of \<open>readPCDDeltas\<close>: sync, header, dispatch.\<close>

definition readSequence ::
  "huffTable list \<Rightarrow> nat \<Rightarrow> nat \<Rightarrow> nat \<Rightarrow> deltaState \<Rightarrow> failure + deltaState" where
  "readSequence huf sceneSelect sequenceSize colOffset st =
     (case syncHuffman (ds_buf st) of
        Inl e \<Rightarrow> Inl e
      | Inr b1 \<Rightarrow>
          (case PCDGetBits b1 16 of
             Inl e \<Rightarrow> Inl e
           | Inr b2 \<Rightarrow>
               (let (row, sequence, plane) = headerFields sceneSelect (b_sum b2) in
                case skipHeader (HuffmanHeaderSize ! sceneSelect) b2 of
                  Inl e \<Rightarrow> Inl e
                | Inr b3 \<Rightarrow>
                    (if row < PCDLumaHeight ! sceneSelect then
                       decodeSequence huf sceneSelect sequenceSize colOffset row sequence plane
                         (st\<lparr>ds_buf := b3, ds_row := row\<rparr>)
                     else Inr (st\<lparr>ds_buf := b3, ds_row := row\<rparr>)))))"

function readPCDDeltas_loop ::
  "huffTable list \<Rightarrow> nat \<Rightarrow> nat \<Rightarrow> nat \<Rightarrow> nat \<Rightarrow> deltaState \<Rightarrow> failure + deltaState" where
  "readPCDDeltas_loop huf sceneSelect sequenceSize colOffset sequencesToProcess st =
     (if (ds_planeTrack st \<noteq> 0 \<or> ds_row st < PCDLumaHeight ! sceneSelect)
         \<and> sequencesToProcess > 0 then
        (case readSequence huf sceneSelect sequenceSize colOffset st of
           Inl e \<Rightarrow> Inl e
         | Inr st' \<Rightarrow>
             readPCDDeltas_loop huf sceneSelect sequenceSize colOffset (sequencesToProcess - 1) st')
      else Inr st)"
  by pat_completeness auto
termination
  by (relation "measure (\<lambda>(huf, sceneSelect, sequenceSize, colOffset, n, st). n)") auto

declare readPCDDeltas_loop.simps [simp del]

definition readPCDDeltas ::
  "ReadBuffer \<Rightarrow> huffTable list \<Rightarrow> nat \<Rightarrow> nat \<Rightarrow> nat \<Rightarrow> plane \<times> plane \<times> plane \<Rightarrow> nat
     \<Rightarrow> failure + (ReadBuffer \<times> plane \<times> plane \<times> plane)" where
  "readPCDDeltas buf huf sceneSelect sequenceSize sequencesToProcess data colOffset =
     (let (data0, data1, data2) = data;
          planeTrack = (if data0 \<noteq> None then 1 else 0) OR (if data1 \<noteq> None then 2 else 0)
                         OR (if data2 \<noteq> None then 4 else 0);
          sequencesToProcess =
            (if sequencesToProcess = 0 then
               (if sceneSelect = k64Base then 1
                else PCDLumaHeight ! sceneSelect + 2 * PCDChromaHeight ! sceneSelect)
             else sequencesToProcess)
      in case readPCDDeltas_loop huf sceneSelect sequenceSize colOffset sequencesToProcess
                \<lparr>ds_buf = buf, ds_data0 = data0, ds_data1 = data1, ds_data2 = data2,
                 ds_planeTrack = planeTrack, ds_row = 0\<rparr> of
           Inl e \<Rightarrow> Inl e
         | Inr st \<Rightarrow> Inr (ds_buf st, ds_data0 st, ds_data1 st, ds_data2 st))"

section \<open>Parsing\<close>

text \<open>
  What \<open>parseFile\<close> and \<open>parseICFile\<close> get from the file system and the allocator, one
  field for each call whose result they branch on:
  \<^item> \<open>io_fopen\<close>: the primary file opens; \<open>io_malloc_header\<close>: the header is allocated;
  \<^item> \<open>io_header\<close>: the header, when all its bytes could be read;
  \<^item> \<open>io_base_image\<close>: the planes \<open>readBaseImage\<close> reads at a level, when allocation
    and the reads succeed there;
  \<^item> \<open>io_malloc_hTables\<close>: the Huffman tables are allocated;
  \<^item> \<open>io_deltas_4Base\<close>, \<open>io_deltas_16Base\<close>: what reading the tables and the deltas of
    the level ends with (the 16Base read depends on the monochrome flag);
  \<^item> \<open>io_ipe_fopen\<close>, \<open>io_ipe_ftell\<close>, \<open>io_ipe_malloc_hTables\<close>: the companion file
    opens, its size, its tables are allocated;
  \<^item> \<open>io_ipe_body\<close>: the members \<open>ipeLayers\<close> and \<open>ipeFiles\<close> as the \<open>try\<close> block of
    \<open>parseICFile\<close> leaves them and what the block ends with.
\<close>

record pcdIO =
  io_fopen :: bool
  io_malloc_header :: bool
  io_header :: "PCDFile option"
  io_base_image :: "nat \<Rightarrow> (u8 list \<times> u8 list \<times> u8 list) option"
  io_malloc_hTables :: bool
  io_deltas_4Base :: "failure + plane"
  io_deltas_16Base :: "bool \<Rightarrow> failure + (plane \<times> plane \<times> plane)"
  io_ipe_fopen :: bool
  io_ipe_ftell :: int
  io_ipe_malloc_hTables :: bool
  io_ipe_body :: "bool \<Rightarrow> nat \<times> nat \<times> (failure + (plane \<times> plane \<times> plane))"

definition setDelta :: "nat \<Rightarrow> nat \<Rightarrow> plane \<Rightarrow> pcdDecode \<Rightarrow> pcdDecode" where
  "setDelta i j v s = s\<lparr>deltas := (deltas s)[i := (deltas s ! i)[j := v]]\<rparr>"

definition pcdFreeAll :: "pcdDecode \<Rightarrow> pcdDecode" where
  "pcdFreeAll s =
     s\<lparr>luma := None, chroma1 := None, chroma2 := None, pcdFileHeader := None,
       deltas := replicate 3 (replicate 3 None)\<rparr>"

text \<open>
  \<open>errorString\<close> is an array member of the decoder. The source guards each warning it
  writes in a handler with \<open>errorString == NULL\<close>, the address of that array.
\<close>

definition errorStringIsNULL :: "pcdDecode \<Rightarrow> bool" where
  "errorStringIsNULL s = False"

text \<open>
  \<open>readBaseImage\<close>: from the level asked for, at most \<open>kBase\<close>, downwards until a level can
  be read. The result is the level, \<open>-1\<close> when none could be read, and the planes.
\<close>

function readBaseImage_loop ::
  "pcdIO \<Rightarrow> int \<Rightarrow> int \<times> (u8 list \<times> u8 list \<times> u8 list) option" where
  "readBaseImage_loop io sn =
     (if sn \<ge> int kBase16 then
        (case io_base_image io (nat sn) of
           Some planes \<Rightarrow> (sn, Some planes)
         | None \<Rightarrow> readBaseImage_loop io (sn - 1))
      else (sn, None))"
  by pat_completeness auto
termination
  by (relation "measure (\<lambda>(io, sn). nat (sn + 1))") (auto simp: kBase16_def)

declare readBaseImage_loop.simps [simp del]

definition readBaseImage ::
  "pcdIO \<Rightarrow> int \<Rightarrow> int \<times> (u8 list \<times> u8 list \<times> u8 list) option" where
  "readBaseImage io sn =
     readBaseImage_loop io (if sn > int kBase then int kBase else sn)"

text \<open>
  \<open>parseICFile\<close>. \<open>None\<close> is an invalid access (\<open>strlen\<close> of a \<open>NULL\<close> name, or inside
  the decoding). Every \<open>throw\<close> of the source throws a string literal, which the handler
  \<open>catch (char *err)\<close> does not take; \<open>catch (...)\<close> does.
\<close>

definition parseICFile :: "pcdIO \<Rightarrow> string option \<Rightarrow> pcdDecode \<Rightarrow> (bool \<times> pcdDecode) option" where
  "parseICFile io ipe_file s =
     (case ipe_file of
        None \<Rightarrow> None
      | Some name \<Rightarrow>
          if length name < 10 then
            Some (False, s\<lparr>errorString := ''IPE filename too short to be valid''\<rparr>)
          else if \<not> io_ipe_fopen io then
            Some (False, s\<lparr>errorString := ''Could not open 64Base IPE file''\<rparr>)
          else if (io_ipe_ftell io sdiv int KSectorSize + 1) mod 2 ^ 64 < 1 then
            Some (False, s\<lparr>errorString := ''Could not read 64Base IPE file''\<rparr>)
          else if \<not> io_ipe_malloc_hTables io then
            Some (False, s\<lparr>errorString := ''Could not allocate huffman tables''\<rparr>)
          else
            (case io_ipe_body io (monochrome s) of
               (layers, files, r) \<Rightarrow>
                 (let s = s\<lparr>ipeLayers := layers, ipeFiles := files\<rparr> in
                  case r of
                    Inl InvalidAccess \<Rightarrow> None
                  | Inl (Thrown err) \<Rightarrow>
                      (let s = (if errorStringIsNULL s
                                then s\<lparr>errorString := ''Error while processing 64Base image''\<rparr>
                                else s);
                           s = setDelta (k64Base - k4Base) 0 None s;
                           s = setDelta (k64Base - k4Base) 1 None s;
                           s = setDelta (k64Base - k4Base) 2 None s
                       in Some (False, s))
                  | Inr (d0, d1, d2) \<Rightarrow>
                      (let s = setDelta (k64Base - k4Base) 0 d0 s;
                           s = setDelta (k64Base - k4Base) 1 d1 s;
                           s = setDelta (k64Base - k4Base) 2 d2 s
                       in Some (True, s)))))"

text \<open>The 16Base stage of \<open>parseFile\<close>, with the 64Base stage inside its \<open>try\<close> block.\<close>

definition parse16Base :: "pcdIO \<Rightarrow> string option \<Rightarrow> pcdDecode \<Rightarrow> pcdDecode option" where
  "parse16Base io ipe_file s =
     (case (case io_deltas_16Base io (monochrome s) of
              Inl InvalidAccess \<Rightarrow> None
            | Inl (Thrown err) \<Rightarrow>
                (let s = s\<lparr>sceneNumber := k4Base\<rparr> in
                 Some (if errorStringIsNULL s
                       then s\<lparr>errorString :=
                              ''Could not find a valid 16Base image; falling back to 4Base''\<rparr>
                       else s))
            | Inr (d0, d1, d2) \<Rightarrow>
                (let s = setDelta (k16Base - k4Base) 0 d0 s;
                     s = setDelta (k16Base - k4Base) 1 d1 s;
                     s = setDelta (k16Base - k4Base) 2 d2 s
                 in if sceneNumber s \<ge> k64Base then
                      (case parseICFile io ipe_file s of
                         None \<Rightarrow> None
                       | Some (ok, s) \<Rightarrow>
                           if \<not> ok then
                             (let s = s\<lparr>sceneNumber := k16Base\<rparr> in
                              Some (if errorStringIsNULL s
                                    then s\<lparr>errorString := ''Error while processing 64Base image''\<rparr>
                                    else s))
                           else Some s)
                    else Some s)) of
        None \<Rightarrow> None
      | Some s \<Rightarrow>
          Some (if sceneNumber s = k4Base then
                  setDelta (k16Base - k4Base) 2 None
                    (setDelta (k16Base - k4Base) 1 None
                       (setDelta (k16Base - k4Base) 0 None s))
                else s))"

text \<open>The 4Base stage of \<open>parseFile\<close>, entered when \<open>sceneNumber >= k4Base\<close>.\<close>

definition parse4Base :: "pcdIO \<Rightarrow> string option \<Rightarrow> pcdDecode \<Rightarrow> pcdDecode option" where
  "parse4Base io ipe_file s =
     (case (if \<not> io_malloc_hTables io then
              Some (s\<lparr>errorString := ''Could not allocate huffman tables''\<rparr>)
            else
              (case io_deltas_4Base io of
                 Inl InvalidAccess \<Rightarrow> None
               | Inl (Thrown err) \<Rightarrow>
                   (let s = s\<lparr>sceneNumber := kBase\<rparr> in
                    Some (if errorStringIsNULL s
                          then s\<lparr>errorString :=
                                 ''Could not find a valid 4Base image; falling back to Base''\<rparr>
                          else s))
               | Inr d0 \<Rightarrow>
                   (let s = setDelta (k4Base - k4Base) 0 d0 s
                    in if sceneNumber s \<ge> k16Base then parse16Base io ipe_file s else Some s))) of
        None \<Rightarrow> None
      | Some s \<Rightarrow>
          Some (if sceneNumber s = kBase then setDelta (k4Base - k4Base) 0 None s else s))"

text \<open>
  \<open>parseFile\<close>. \<open>sNum\<close> is an \<open>unsigned int\<close>; \<open>readBaseImage\<close> takes it as an \<open>int\<close> and
  its \<open>int\<close> result is stored in the \<open>unsigned int\<close> member \<open>baseScene\<close>.
\<close>

definition parseFile ::
  "pcdIO \<Rightarrow> string option \<Rightarrow> nat \<Rightarrow> pcdDecode \<Rightarrow> (bool \<times> pcdDecode) option" where
  "parseFile io ipe_file sNum s =
     (let s = pcdFreeAll s;
          s = s\<lparr>errorString := []\<rparr>
      in if \<not> io_fopen io then
           Some (False, s\<lparr>errorString :=
                   ''Could not open PCD file - may be a file permissions problem''\<rparr>)
         else if \<not> io_malloc_header io then Some (False, s)
         else
           (case io_header io of
              None \<Rightarrow> Some (False, s\<lparr>errorString := ''PCD file is too small to be valid''\<rparr>)
            | Some pcdFile \<Rightarrow>
                (let s = s\<lparr>pcdFileHeader := Some pcdFile\<rparr>;
                     overview = compareBytes (signature (header pcdFile)) ''PCD_OPA''
                 in if \<not> compareBytes (ipiSignature (ipiHeader pcdFile)) ''PCD_IPI'' \<and> \<not> overview
                    then Some (False, s\<lparr>pcdFileHeader := None,
                                         errorString := ''That is not a valid PCD file''\<rparr>)
                    else if interleaveRatio (iciBase16 pcdFile) \<noteq> 1
                    then Some (False, s\<lparr>pcdFileHeader := None,
                                         errorString := ''The file contains interleaved audio''\<rparr>)
                    else
                      (let a = attributes (iciBase16 pcdFile);
                           s = s\<lparr>imageRotate := unat (a AND 0x03),
                                 imageResolution := unat (drop_bit 2 a AND 0x03) + kBase,
                                 imageIPEAvailable := unat (drop_bit 4 a AND 0x01),
                                 imageHuffmanClass := unat (drop_bit 5 a AND 0x02)\<rparr>;
                           s = s\<lparr>sceneNumber := uint32_t (int sNum)\<rparr>;
                           s = (if imageResolution s < k16Base
                                then s\<lparr>sceneNumber := pcdMin (sceneNumber s) (imageResolution s)\<rparr>
                                else s);
                           (r, planes) = readBaseImage io (int32_t (int (sceneNumber s)));
                           s = (case planes of
                                  None \<Rightarrow> s
                                | Some (l, c1, c2) \<Rightarrow>
                                    s\<lparr>luma := Some l, chroma1 := Some c1, chroma2 := Some c2\<rparr>);
                           s = s\<lparr>baseScene := uint32_t r\<rparr>
                       in if baseScene s < kBase16 then
                            Some (False, s\<lparr>errorString := ''No valid base image could be found''\<rparr>)
                          else
                            (let s = (if baseScene s < kBase
                                      then s\<lparr>sceneNumber := baseScene s\<rparr> else s)
                             in if sceneNumber s \<ge> k4Base then
                                  map_option (Pair True) (parse4Base io ipe_file s)
                                else Some (True, s))))))"

section \<open>Construction\<close>

text \<open>
  The constructor initialises some members only; the others keep what the storage of the
  object held, so the constructor is a function of that storage.
\<close>

definition pcdDecode_new :: "pcdDecode \<Rightarrow> pcdDecode" where
  "pcdDecode_new raw =
     raw\<lparr>luma := None, chroma1 := None, chroma2 := None,
         deltas := replicate 3 (replicate 3 None),
         upResMethod := kUpResLumaIterpolate,
         pcdFileHeader := None,
         colorSpace := kPCDRawColorSpace,
         whiteBalance := kPCDD65White,
         monochrome := False\<rparr>"

text \<open>Storage filled with zero bytes, for the examples.\<close>

definition zeroStorage :: pcdDecode where
  "zeroStorage =
     \<lparr>upResMethod = 0, monochrome = False, luma = None, chroma1 = None, chroma2 = None,
      deltas = replicate 3 (replicate 3 None), imageRotate = 0, imageResolution = 0,
      colorSpace = 0, whiteBalance = 0, imageIPEAvailable = 0, imageHuffmanClass = 0,
      baseScene = 0, sceneNumber = 0, ipeLayers = 0, ipeFiles = 0, pcdFileHeader = None,
      errorString = []\<rparr>"

text \<open>
  A 4Base decoding state at a sequence boundary whose header carries row 8191, beyond
  the 1024 luma rows.
\<close>

definition skipState :: deltaState where
  "skipState =
     \<lparr>ds_buf = \<lparr>b_sbuffer = (\<lambda>i. 0xFF), b_fp = [], b_sum = 0xFFFFFE3F, b_bits = 32, b_p = 0\<rparr>,
      ds_data0 = Some [1, 2, 3], ds_data1 = None, ds_data2 = None, ds_planeTrack = 1, ds_row = 0\<rparr>"

text \<open>
  A primary file with a valid header that announces a 16Base image (resolution class 2),
  whose Base image and 4Base and 16Base deltas can be read, and a companion file that
  opens but whose descriptor gives 2 layers, so that the \<open>try\<close> block of \<open>parseICFile\<close>
  throws \<open>Invalid number of layers\<close>.
\<close>

definition validHeader :: PCDFile where
  "validHeader =
     \<lparr>header = \<lparr>signature = replicate 7 (CHR 0x00)\<rparr>,
      ipiHeader = \<lparr>ipiSignature = ''PCD_IPI''\<rparr>,
      iciBase16 = \<lparr>attributes = 0x08, interleaveRatio = 1\<rparr>\<rparr>"

definition malformedCompanion :: pcdIO where
  "malformedCompanion =
     \<lparr>io_fopen = True, io_malloc_header = True, io_header = Some validHeader,
      io_base_image = (\<lambda>n. if n = kBase
                             then Some (replicate (768 * 512) 0, replicate (384 * 256) 0,
                                        replicate (384 * 256) 0)
                             else None),
      io_malloc_hTables = True,
      io_deltas_4Base = Inr (Some (replicate (1536 * 1024) 0)),
      io_deltas_16Base = (\<lambda>mono. Inr (Some (replicate (3072 * 2048) 0),
                                        Some (replicate (1536 * 1024) 0),
                                        Some (replicate (1536 * 1024) 0))),
      io_ipe_fopen = True, io_ipe_ftell = 4096, io_ipe_malloc_hTables = True,
      io_ipe_body = (\<lambda>mono. (2, 0, Inl (Thrown ''Invalid number of layers'')))\<rparr>"

text \<open>A one-pixel band: luma 196, chroma 100 and 200, raw Photo CD colour space.\<close>

definition spotPixel :: ConvertToRGBData where
  "spotPixel =
     \<lparr>rd_outputSize = pcdByteSize, rd_red = 0, rd_green = 1, rd_blue = 2, rd_alpha = None,
      rd_d = 3, rd_startRow = 0, rd_endRow = 1, rd_columns = 1, rd_rows = 1,
      rd_lp = Some [196], rd_c1p = Some [100], rd_c2p = Some [200],
      rd_resFactor = 0, rd_imageRotate = 0, rd_colorSpace = kPCDRawColorSpace,
      rd_whiteBalance = kPCDD65White\<rparr>"

text \<open>
  Bit streams for the examples: an accumulator whose top 20 bits are \<open>0xFFFFE\<close> but
  whose top 24 bits are not \<open>0xFFFFFE\<close>, followed by a marker in the sector buffer; a
  stream that has run out; an accumulator one bit before a marker.
\<close>

definition markerLike :: ReadBuffer where
  "markerLike =
     \<lparr>b_sbuffer = (\<lambda>i. if i = 0 then 0xFF else if i = 1 then 0xFF else if i = 2 then 0xFE else 0),
      b_fp = [], b_sum = 0xFFFFE100, b_bits = 32, b_p = 0\<rparr>"

definition exhausted :: ReadBuffer where
  "exhausted = \<lparr>b_sbuffer = (\<lambda>i. 0), b_fp = [], b_sum = 0, b_bits = 32, b_p = KSectorSize\<rparr>"

definition bitPhase :: ReadBuffer where
  "bitPhase = \<lparr>b_sbuffer = (\<lambda>i. 0), b_fp = [], b_sum = 0x7FFFFF00, b_bits = 32, b_p = 0\<rparr>"

text \<open>
  The table built from the single entry (length 1, codeword \<open>0x8000\<close>, symbol \<open>0x2A\<close>),
  and a stream whose first bit decodes to that symbol and whose second does not decode,
  one bit before a marker.
\<close>

definition halfTable :: huffTable where
  "halfTable =
     \<lparr>ht_key = (\<lambda>c. if c \<ge> 0x8000 then 0x2A else 0x7f),
      ht_len = (\<lambda>c. if c \<ge> 0x8000 then 1 else kHuffmanErrorLen)\<rparr>"

definition errStream :: ReadBuffer where
  "errStream = \<lparr>b_sbuffer = (\<lambda>i. 0), b_fp = [], b_sum = 0xBFFFFF80, b_bits = 32, b_p = 0\<rparr>"





text \<open>
  A Base16 file whose header asks for rotation 3 (the two low bits of the attributes) and
  whose image is uniform (luma 2, chroma 156 and 138) but for the first pixel of the first
  row, of luma 0. \<open>rotatedDecoder\<close> is a fresh decoder after \<open>parseFile\<close> of that file at
  level \<open>kBase16\<close> and \<open>setInterpolation (kUpResNearest)\<close>.
\<close>

definition rotatedHeader :: PCDFile where
  "rotatedHeader =
     \<lparr>header = \<lparr>signature = replicate 7 (CHR 0x00)\<rparr>,
      ipiHeader = \<lparr>ipiSignature = ''PCD_IPI''\<rparr>,
      iciBase16 = \<lparr>attributes = 0x0B, interleaveRatio = 1\<rparr>\<rparr>"

definition rotatedFile :: pcdIO where
  "rotatedFile =
     \<lparr>io_fopen = True, io_malloc_header = True, io_header = Some rotatedHeader,
      io_base_image = (\<lambda>n. if n = kBase16
                             then Some (0 # replicate (192 * 128 - 1) 2, replicate (96 * 64) 156,
                                        replicate (96 * 64) 138)
                             else None),
      io_malloc_hTables = True,
      io_deltas_4Base = Inl (Thrown ''Unexpected end of file in Huffman sequence''),
      io_deltas_16Base = (\<lambda>mono. Inl (Thrown ''Unexpected end of file in Huffman sequence'')),
      io_ipe_fopen = False, io_ipe_ftell = 0, io_ipe_malloc_hTables = True,
      io_ipe_body = (\<lambda>mono. (0, 0, Inl (Thrown ''IC File too small'')))\<rparr>"

definition rotatedDecoder :: pcdDecode where
  "rotatedDecoder =
     setInterpolation kUpResNearest
       (case parseFile rotatedFile None kBase16 (pcdDecode_new zeroStorage) of
          Some (ok, s) \<Rightarrow> s
        | None \<Rightarrow> pcdDecode_new zeroStorage)"
section \<open>Auxiliary facts\<close>

lemma foldM_append:
  "foldM f (xs @ ys) s = (case foldM f xs s of None \<Rightarrow> None | Some s' \<Rightarrow> foldM f ys s')"
  by (induction xs arbitrary: s) (auto split: option.splits)

text \<open>
  Three facts about \<open>foldM\<close>: a run whose steps all succeed succeeds; what no step
  changes is unchanged by the run; and what exactly one step \<open>x0\<close> of a run sets, the
  others leaving it alone, is what \<open>x0\<close> set.
\<close>

lemma foldM_total:
  assumes "\<And>x s. x \<in> set xs \<Longrightarrow> \<exists>s'. f x s = Some s'"
  shows "\<exists>s'. foldM f xs s = Some s'"
  using assms
proof (induction xs arbitrary: s)
  case Nil
  then show ?case by simp
next
  case (Cons x xs)
  from Cons.prems [of x s] obtain s1 where "f x s = Some s1" by auto
  with Cons.IH [of s1] Cons.prems show ?case by simp
qed

lemma foldM_frame:
  assumes "foldM f xs st = Some st'" and "I st"
    and "\<And>x s s'. x \<in> set xs \<Longrightarrow> I s \<Longrightarrow> f x s = Some s' \<Longrightarrow> I s' \<and> g s' = g s"
  shows "I st' \<and> g st' = g st"
  using assms
proof (induction xs arbitrary: st)
  case Nil
  then show ?case by simp
next
  case (Cons x xs)
  from Cons.prems(1) obtain s1 where s1: "f x st = Some s1" "foldM f xs s1 = Some st'"
    by (auto split: option.splits)
  from Cons.prems(3) [of x st s1] s1(1) Cons.prems(2) have a: "I s1" "g s1 = g st" by simp_all
  have "I st' \<and> g st' = g s1"
  proof (rule Cons.IH [OF s1(2) a(1)])
    fix y s s'
    assume "y \<in> set xs" "I s" "f y s = Some s'"
    then show "I s' \<and> g s' = g s" using Cons.prems(3) [of y s s'] by simp
  qed
  with a(2) show ?case by simp
qed

lemma foldM_written:
  assumes "foldM f xs st = Some st'" and "I st" and "x0 \<in> set xs" and "distinct xs"
    and frame: "\<And>x s s'. x \<in> set xs \<Longrightarrow> x \<noteq> x0 \<Longrightarrow> I s \<Longrightarrow> f x s = Some s'
                  \<Longrightarrow> I s' \<and> g s' = g s"
    and hit: "\<And>s s'. I s \<Longrightarrow> f x0 s = Some s' \<Longrightarrow> I s' \<and> P (g s')"
  shows "I st' \<and> P (g st')"
  using assms(1-4) frame
proof (induction xs arbitrary: st)
  case Nil
  then show ?case by simp
next
  case (Cons x xs)
  from Cons.prems(1) obtain s1 where s1: "f x st = Some s1" "foldM f xs s1 = Some st'"
    by (auto split: option.splits)
  show ?case
  proof (cases "x = x0")
    case True
    from hit [OF Cons.prems(2)] s1(1) True have a: "I s1" "P (g s1)" by simp_all
    have "I st' \<and> g st' = g s1"
    proof (rule foldM_frame [where I = I and g = g, OF s1(2) a(1)])
      fix y s s'
      assume y: "y \<in> set xs" "I s" "f y s = Some s'"
      with Cons.prems(4) True have "y \<noteq> x0" by auto
      with y show "I s' \<and> g s' = g s" using Cons.prems(5) [of y s s'] by simp
    qed
    with a(2) show ?thesis by simp
  next
    case False
    from Cons.prems(5) [of x st s1] False s1(1) Cons.prems(2) have a: "I s1" by simp
    from False Cons.prems(3) have m: "x0 \<in> set xs" by simp
    from Cons.prems(4) have d: "distinct xs" by simp
    show ?thesis
    proof (rule Cons.IH [OF s1(2) a m d])
      fix y s s'
      assume "y \<in> set xs" "y \<noteq> x0" "I s" "f y s = Some s'"
      then show "I s' \<and> g s' = g s" using Cons.prems(5) [of y s s'] by simp
    qed
  qed
qed

lemma peek_None: "peek None i = None"
  by (simp add: peek_def)
section \<open>The monochrome flag\<close>














section \<open>The 64Base fallback\<close>

text \<open>
  Claim C2 says that for a valid primary file whose 64Base companion opens but fails
  parsing, \<open>parseFile\<close> returns true, the level is SixteenBase and the error string
  mentions 64Base. On the file \<open>malformedCompanion\<close> the first two hold and the error
  string is empty: the handlers write their message only under \<open>errorString == NULL\<close>,
  which is never the case for an array member.
\<close>

theorem parseFile_malformed_64Base:
  "(case parseFile malformedCompanion (Some ''/cdrom/IPE/IMG0001/64BASE/INFO.IC'') k64Base
           (pcdDecode_new zeroStorage) of
      None \<Rightarrow> False
    | Some (ok, s') \<Rightarrow> ok \<and> sceneNumber s' = k16Base \<and> getErrorString s' = [])"
  by (simp add: parseFile_def parse4Base_def parse16Base_def parseICFile_def readBaseImage_def
      readBaseImage_loop.simps malformedCompanion_def validHeader_def pcdDecode_new_def
      zeroStorage_def pcdFreeAll_def setDelta_def errorStringIsNULL_def compareBytes_def
      kBase16_def kBase_def k4Base_def k16Base_def k64Base_def KSectorSize_def pcdMin_def
      int32_t_def uint32_t_def Let_def signed_take_bit_int_eq_self getErrorString_def)

section \<open>The decoded level\<close>

lemma readBaseImage_loop_le:
  "readBaseImage_loop io n = (r, planes) \<Longrightarrow> r \<le> n \<and> - 1 \<le> r \<or> r = n"
proof (induction io n rule: readBaseImage_loop.induct)
  case (1 io sn)
  then show ?case
    by (subst (asm) (2) readBaseImage_loop.simps)
       (auto simp: kBase16_def split: if_splits option.splits)
qed

lemma readBaseImage_le:
  assumes "readBaseImage io n = (r, planes)" "0 \<le> n"
  shows "- 1 \<le> r \<and> r \<le> n \<and> r \<le> 2"
proof -
  let ?m = "if n > int kBase then int kBase else n"
  have "readBaseImage_loop io ?m = (r, planes)" using assms(1) by (simp add: readBaseImage_def)
  from readBaseImage_loop_le [OF this] assms(2) show ?thesis
    by (auto simp: kBase_def split: if_splits)
qed

lemma setDelta_sceneNumber [simp]: "sceneNumber (setDelta i j v s) = sceneNumber s"
  by (simp add: setDelta_def)

lemma parseICFile_sceneNumber:
  "parseICFile io ipe s = Some (ok, s') \<Longrightarrow> sceneNumber s' = sceneNumber s"
  by (auto simp: parseICFile_def errorStringIsNULL_def Let_def
      split: option.splits if_splits prod.splits sum.splits failure.splits)

lemma parse16Base_le:
  "parse16Base io ipe s = Some s' \<Longrightarrow> k16Base \<le> sceneNumber s \<Longrightarrow>
     sceneNumber s' \<le> sceneNumber s \<and> k4Base \<le> sceneNumber s'"
  by (auto simp: parse16Base_def errorStringIsNULL_def Let_def k16Base_def k4Base_def k64Base_def
      split: option.splits if_splits prod.splits sum.splits failure.splits
      dest!: parseICFile_sceneNumber)

lemma parse4Base_le:
  "parse4Base io ipe s = Some s' \<Longrightarrow> k4Base \<le> sceneNumber s \<Longrightarrow>
     sceneNumber s' \<le> sceneNumber s \<and> kBase \<le> sceneNumber s'"
  by (auto simp: parse4Base_def errorStringIsNULL_def Let_def k16Base_def k4Base_def kBase_def
      split: option.splits if_splits prod.splits sum.splits failure.splits
      dest!: parse16Base_le)

lemma parse4Base_imp:
  "parse4Base io ipe s = Some s' \<Longrightarrow>
     k4Base \<le> sceneNumber s \<longrightarrow> sceneNumber s' \<le> sceneNumber s"
  using parse4Base_le by blast

lemma readBaseImage_range:
  assumes "readBaseImage io n = (r, planes)"
  shows "(n < 0 \<and> r = n) \<or> (0 \<le> n \<and> - 1 \<le> r \<and> r \<le> n \<and> r \<le> 2)"
proof (cases "n < 0")
  case True
  then show ?thesis
    using assms by (simp add: readBaseImage_def readBaseImage_loop.simps kBase_def kBase16_def)
next
  case False
  then show ?thesis using readBaseImage_le [OF assms] by simp
qed

text \<open>
  Claim C3. For every file (every answer of the file system) and every requested level
  \<open>L\<close>, of \<open>PCDResolutions\<close> or any other \<open>unsigned int\<close>, whenever \<open>parseFile\<close> returns
  true the decoded level \<open>sceneNumber\<close> lies between \<open>kBase16\<close> and \<open>L\<close>, whichever of the
  downgrade paths (base image, 4Base, 16Base, 64Base) was taken.
\<close>

theorem parseFile_level_bounds:
  assumes "parseFile io ipe L s = Some (True, s')" "L < 2 ^ 32"
  shows "kBase16 \<le> sceneNumber s' \<and> sceneNumber s' \<le> L"
proof -
  from assms(1) obtain pcdFile where hdr: "io_header io = Some pcdFile"
    by (auto simp: parseFile_def Let_def split: if_splits option.splits)
  define a where "a = attributes (iciBase16 pcdFile)"
  define res where "res = unat (drop_bit 2 a AND 0x03) + kBase"
  define n0 where
    "n0 = (if res < k16Base then pcdMin (uint32_t (int L)) res else uint32_t (int L))"
  define v where "v = int32_t (int n0)"
  obtain r planes where rb: "readBaseImage io v = (r, planes)"
    by (cases "readBaseImage io v")
  define bs where "bs = uint32_t r"
  define n1 where "n1 = (if bs < kBase then bs else n0)"
  have L: "uint32_t (int L) = L" using assms(2) by (simp add: uint32_t_def)
  have n0: "n0 \<le> L" unfolding n0_def L by (simp add: pcdMin_def)
  have "take_bit 32 v = take_bit 32 (int n0)"
    unfolding v_def int32_t_def by (simp add: take_bit_signed_take_bit)
  then have vm: "v mod 2 ^ 32 = int n0"
    using n0 assms(2) by (simp add: take_bit_eq_mod)
  have vr: "- (2 ^ 31) \<le> v" "v < 2 ^ 31"
    unfolding v_def int32_t_def
    using signed_take_bit_int_greater_eq_minus_exp [of 31 "int n0"]
      signed_take_bit_int_less_exp [of 31 "int n0"] by simp_all
  have "bs = 2 ^ 32 - 1 \<or> bs \<le> n0"
  proof (cases "v < 0")
    case True
    with readBaseImage_range [OF rb] have "r = v" by simp
    then show ?thesis using vm by (simp add: bs_def uint32_t_def)
  next
    case False
    then have "v mod 2 ^ 32 = v" using vr by simp
    with vm have "v = int n0" by simp
    with readBaseImage_range [OF rb] False
    have "r = - 1 \<or> (0 \<le> r \<and> r \<le> int n0 \<and> r < 2 ^ 32)" by auto
    then show ?thesis unfolding bs_def uint32_t_def by (elim disjE) (simp, auto)
  qed
  then have n1: "n1 \<le> L"
    using n0 by (auto simp: n1_def kBase_def)
  have "sceneNumber s' \<le> n1"
    using assms(1) hdr rb
    by (auto simp: parseFile_def Let_def a_def res_def n0_def v_def bs_def n1_def kBase16_def
        split: if_splits option.splits prod.splits dest!: parse4Base_imp)
  with n1 show ?thesis by (simp add: kBase16_def)
qed

theorem parseFile_level_bounds_witness:
  "k64Base < 2 ^ 32
   \<and> (case parseFile malformedCompanion (Some ''/cdrom/IPE/IMG0001/64BASE/INFO.IC'') k64Base
              zeroStorage of
         None \<Rightarrow> False
       | Some (ok, s') \<Rightarrow> ok \<and> kBase16 \<le> sceneNumber s' \<and> sceneNumber s' \<le> k64Base)"
proof -
  have "\<exists>s'. parseFile malformedCompanion (Some ''/cdrom/IPE/IMG0001/64BASE/INFO.IC'') k64Base
               zeroStorage = Some (True, s')"
    by (simp add: parseFile_def parse4Base_def parse16Base_def parseICFile_def readBaseImage_def
        readBaseImage_loop.simps malformedCompanion_def validHeader_def
        zeroStorage_def pcdFreeAll_def setDelta_def errorStringIsNULL_def compareBytes_def
        kBase16_def kBase_def k4Base_def k16Base_def k64Base_def KSectorSize_def pcdMin_def
        int32_t_def uint32_t_def Let_def signed_take_bit_int_eq_self)
  then obtain s' where
    p: "parseFile malformedCompanion (Some ''/cdrom/IPE/IMG0001/64BASE/INFO.IC'') k64Base
          zeroStorage = Some (True, s')"
    by blast
  have l: "k64Base < 2 ^ 32" by (simp add: k64Base_def)
  from parseFile_level_bounds [OF p l] p l show ?thesis by simp
qed

section \<open>Recovery from a corrupt sequence\<close>

lemma zero_run:
  "dest + n \<le> length xs \<Longrightarrow>
     foldM (\<lambda>i ys. poke ys (dest + i) 0) [0..<n] xs
       = Some (take dest xs @ replicate n 0 @ drop (dest + n) xs)"
proof (induction n)
  case 0
  then show ?case by simp
next
  case (Suc n)
  let ?ys = "take dest xs @ replicate n 0 @ drop (dest + n) xs"
  have len: "length ?ys = length xs" using Suc.prems by simp
  have "foldM (\<lambda>i ys. poke ys (dest + i) 0) [0..<Suc n] xs = poke ?ys (dest + n) 0"
    using Suc by (simp add: foldM_append split: option.splits)
  also have "\<dots> = Some (?ys[dest + n := 0])"
    using Suc.prems len by (simp add: poke_def)
  also have "?ys[dest + n := 0] = take dest xs @ replicate (Suc n) 0 @ drop (dest + Suc n) xs"
  proof -
    have d: "drop (dest + n) xs = xs ! (dest + n) # drop (dest + Suc n) xs"
      using Suc.prems by (simp add: Cons_nth_drop_Suc)
    have "replicate (Suc n) (0::u8) = replicate n 0 @ [0]"
      by (simp add: replicate_append_same)
    then show ?thesis
      using Suc.prems by (simp add: d list_update_append del: replicate_Suc)
  qed
  finally show ?case .
qed

lemma zeroSequence_fill:
  "dest + nat len \<le> length xs \<Longrightarrow>
     zeroSequence (Some xs) dest len
       = Some (Some (take dest xs @ replicate (nat len) 0 @ drop (dest + nat len) xs))"
  by (simp add: zeroSequence_def zero_run)

lemma decode_loop_error:
  assumes "afterSymbols huf k b = Some bk"
    and "int (i + k) < len"
    and "ht_len huf (codeOf bk) = kHuffmanErrorLen"
    and "dest + nat len \<le> length xs"
    and "length ys = length xs"
    and "take dest ys = take dest xs"
    and "drop (dest + nat len) ys = drop (dest + nat len) xs"
  shows "PCDDecodeHuffman_loop huf dest len i b (Some ys) =
           (case syncHuffman bk of
              Inl e \<Rightarrow> Inl e
            | Inr b' \<Rightarrow>
                Inr (b', Some (take dest xs @ replicate (nat len) 0 @ drop (dest + nat len) xs)))"
  using assms
proof (induction k arbitrary: i b ys)
  case 0
  then have "bk = b" by simp
  moreover have "zeroSequence (Some ys) dest len
      = Some (Some (take dest xs @ replicate (nat len) 0 @ drop (dest + nat len) xs))"
    using zeroSequence_fill [of dest len ys] 0 by simp
  ultimately show ?case
    using 0 by (subst PCDDecodeHuffman_loop.simps) (simp split: sum.splits)
next
  case (Suc k)
  from Suc.prems(1) obtain b' where
    ne: "ht_len huf (codeOf b) \<noteq> kHuffmanErrorLen"
    and g: "PCDGetBits b (unat (ht_len huf (codeOf b))) = Inr b'"
    and a: "afterSymbols huf k b' = Some bk"
    by (auto split: if_splits sum.splits)
  let ?ys = "ys[dest + i := ht_key huf (codeOf b)]"
  have i: "int i < len" "dest + i < length ys" using Suc.prems by auto
  have p: "poke ys (dest + i) (ht_key huf (codeOf b)) = Some ?ys"
    using i by (simp add: poke_def)
  have t: "take dest ?ys = take dest xs" using Suc.prems by simp
  have d: "drop (dest + nat len) ?ys = drop (dest + nat len) xs"
    using Suc.prems i by simp
  have "PCDDecodeHuffman_loop huf dest len i b (Some ys)
          = PCDDecodeHuffman_loop huf dest len (i + 1) b' (Some ?ys)"
    using i ne g p by (subst PCDDecodeHuffman_loop.simps) simp
  also have "\<dots> = (case syncHuffman bk of
              Inl e \<Rightarrow> Inl e
            | Inr b' \<Rightarrow>
                Inr (b', Some (take dest xs @ replicate (nat len) 0 @ drop (dest + nat len) xs)))"
    using Suc.prems t d by (intro Suc.IH [OF a]) simp_all
  finally show ?case .
qed

text \<open>
  Claim C4, amended. When, in a call decoding a sequence of \<open>n\<close> symbols, \<open>k < n\<close> symbols
  have been decoded and the next one meets the error entry (length 31), the decoder
  writes zero into all \<open>n\<close> positions of the sequence in the destination, the \<open>k\<close>
  already decoded ones included, leaves the rest of the plane as it was, resynchronises
  from the point of the error and returns, so that decoding resumes at the next sequence
  boundary (or the end of the file is reported by the resynchronisation).
\<close>

theorem decode_error_zeroes_sequence:
  assumes "afterSymbols huf k b = Some bk"
    and "int k < len"
    and "ht_len huf (codeOf bk) = kHuffmanErrorLen"
    and "dest + nat len \<le> length xs"
  shows "PCDDecodeHuffman b huf (Some xs) dest len =
           (case syncHuffman bk of
              Inl e \<Rightarrow> Inl e
            | Inr b' \<Rightarrow>
                Inr (b', Some (take dest xs @ replicate (nat len) 0 @ drop (dest + nat len) xs)))"
  unfolding PCDDecodeHuffman_def
  using assms by (intro decode_loop_error [where k = k]) simp_all

text \<open>
  Claim C4, as stated: when the \<open>k\<close>-th symbol of a sequence of \<open>n\<close> meets the error
  entry, the decoder zeroes positions \<open>k..n-1\<close> and leaves the \<open>k\<close> symbols already
  decoded in place. On \<open>errStream\<close> with \<open>halfTable\<close> and \<open>n = 2\<close> the first symbol decodes
  to \<open>0x2A\<close> and the second meets the error entry; the destination then holds 0 in
  position 0 as well, not \<open>0x2A\<close>.
\<close>

theorem decode_error_counterexample:
  "ht_key halfTable (codeOf errStream) = 0x2A
   \<and> ht_len halfTable (codeOf errStream) = 1
   \<and> (case afterSymbols halfTable 1 errStream of
         None \<Rightarrow> False
       | Some bk \<Rightarrow> ht_len halfTable (codeOf bk) = kHuffmanErrorLen)
   \<and> (case PCDDecodeHuffman errStream halfTable (Some [1, 2, 3]) 0 2 of
         Inl e \<Rightarrow> False
       | Inr (b', m) \<Rightarrow> m = Some [0, 0, 3] \<and> m \<noteq> Some [0x2A, 0, 3] \<and> b_sum b' = 0xFFFFFE00)"
  by code_simp

theorem decode_error_zeroes_sequence_witness:
  "(1::int) < 2 \<and> 0 + nat 2 \<le> length [1, 2, 3 :: u8]
   \<and> (case afterSymbols halfTable 1 errStream of
         None \<Rightarrow> False
       | Some bk \<Rightarrow>
           ht_len halfTable (codeOf bk) = kHuffmanErrorLen
           \<and> PCDDecodeHuffman errStream halfTable (Some [1, 2, 3]) 0 2 =
               (case syncHuffman bk of
                  Inl e \<Rightarrow> Inl e
                | Inr b' \<Rightarrow> Inr (b', Some [0, 0, 3])))"
proof -
  have "case afterSymbols halfTable 1 errStream of
          None \<Rightarrow> False | Some bk \<Rightarrow> ht_len halfTable (codeOf bk) = kHuffmanErrorLen"
    by code_simp
  then obtain bk where a: "afterSymbols halfTable 1 errStream = Some bk"
    and e: "ht_len halfTable (codeOf bk) = kHuffmanErrorLen"
    by (auto split: option.splits)
  have "PCDDecodeHuffman errStream halfTable (Some [1, 2, 3]) 0 2 =
          (case syncHuffman bk of
             Inl e \<Rightarrow> Inl e
           | Inr b' \<Rightarrow> Inr (b', Some [0, 0, 3]))"
  proof -
    have l: "take 0 [1, 2, 3] @ replicate (nat 2) 0 @ drop (0 + nat 2) [1, 2, 3] = [0, 0, 3 :: u8]"
      by (simp add: numeral_2_eq_2)
    show ?thesis
      using decode_error_zeroes_sequence [OF a _ e, of 2 0 "[1, 2, 3]"] unfolding l by simp
  qed
  with a e show ?thesis by simp
qed

section \<open>Sequence headers\<close>

lemma decodeSequence_row:
  "decodeSequence huf sc q c row sq plane st = Inr st' \<Longrightarrow> ds_row st' = ds_row st"
  by (auto simp: decodeSequence_def split: if_splits sum.splits prod.splits)

lemma readSequence_skips:
  assumes "readSequence huf sc q c st = Inr st'" "\<not> ds_row st' < PCDLumaHeight ! sc"
  shows "ds_data0 st' = ds_data0 st \<and> ds_data1 st' = ds_data1 st \<and> ds_data2 st' = ds_data2 st
         \<and> ds_planeTrack st' = ds_planeTrack st"
  using assms
  by (auto simp: readSequence_def Let_def split: sum.splits prod.splits if_splits
      dest!: decodeSequence_row)

text \<open>
  Claim C5, as stated, gives the plane at Base, FourBase and SixteenBase as
  \<open>(acc >> 22) & 0x6\<close>. The table \<open>PlaneMask\<close> holds \<open>0x3\<close> for these levels: for the
  accumulator \<open>0xFEC00000\<close> the source decodes plane 3 (the second chroma plane) where
  the claim's mask gives 2.
\<close>

theorem headerFields_counterexample:
  "snd (snd (headerFields k16Base 0xFEC00000)) = 3
   \<and> unat (drop_bit 22 (0xFEC00000 :: u32) AND 0x6) = 2"
  by (simp add: headerFields_def k16Base_def RowShift_def RowMask_def SequenceShift_def
      SequenceMask_def PlaneShift_def PlaneMask_def RowSubSample_def)

text \<open>
  Claim C5, amended. At FourBase and SixteenBase the header gives
  \<open>plane = (acc >> 22) & 0x3\<close>, \<open>row = (acc >> 9) & 0x1FFF\<close> and sequence 0. At
  SixtyFourBase it gives \<open>plane = (acc >> 19) & 0x6\<close>, \<open>sequence = (acc >> 1) & 0xF\<close> and
  \<open>row = (acc >> 6) & 0x3FFF\<close>, multiplied by 2 when the plane is not the luma plane
  (plane 0). At Base the tables hold no header layout: every field is 0. A sequence
  whose row is not below the luma height is skipped: the three delta planes are left as
  they were (rows are not taken modulo the height).
\<close>

theorem headerFields_levels:
  "(sc = k4Base \<or> sc = k16Base \<longrightarrow>
      headerFields sc acc = (unat (drop_bit 9 acc AND 0x1fff), 0, unat (drop_bit 22 acc AND 0x3)))
   \<and> headerFields k64Base acc =
       (unat (drop_bit 6 acc AND 0x3fff) * (if drop_bit 19 acc AND 0x6 = 0 then 1 else 2),
        unat (drop_bit 1 acc AND 0xf), unat (drop_bit 19 acc AND 0x6))
   \<and> headerFields kBase acc = (0, 0, 0)
   \<and> (readSequence huf sc q c st = Inr st' \<and> \<not> ds_row st' < PCDLumaHeight ! sc \<longrightarrow>
        ds_data0 st' = ds_data0 st \<and> ds_data1 st' = ds_data1 st \<and> ds_data2 st' = ds_data2 st)"
proof (intro conjI impI)
  assume "sc = k4Base \<or> sc = k16Base"
  then show "headerFields sc acc = (unat (drop_bit 9 acc AND 0x1fff), 0, unat (drop_bit 22 acc AND 0x3))"
    by (auto simp: Let_def headerFields_def k4Base_def k16Base_def RowShift_def RowMask_def
        SequenceShift_def SequenceMask_def PlaneShift_def PlaneMask_def RowSubSample_def)
next
  show "headerFields k64Base acc =
       (unat (drop_bit 6 acc AND 0x3fff) * (if drop_bit 19 acc AND 0x6 = 0 then 1 else 2),
        unat (drop_bit 1 acc AND 0xf), unat (drop_bit 19 acc AND 0x6))"
    by (simp add: Let_def headerFields_def k64Base_def RowShift_def RowMask_def SequenceShift_def
        SequenceMask_def PlaneShift_def PlaneMask_def RowSubSample_def unat_eq_0)
next
  show "headerFields kBase acc = (0, 0, 0)"
    by (simp add: Let_def headerFields_def kBase_def RowShift_def RowMask_def SequenceShift_def
        SequenceMask_def PlaneShift_def PlaneMask_def RowSubSample_def)
next
  assume "readSequence huf sc q c st = Inr st' \<and> \<not> ds_row st' < PCDLumaHeight ! sc"
  then show "ds_data0 st' = ds_data0 st" "ds_data1 st' = ds_data1 st" "ds_data2 st' = ds_data2 st"
    using readSequence_skips by blast+
qed

theorem headerFields_levels_witness:
  "(k4Base = k4Base \<or> k4Base = k16Base)
   \<and> headerFields k4Base 0xFE3FFFFF = (8191, 0, 0)
   \<and> (case readSequence [] k4Base 0 0 skipState of
         Inl e \<Rightarrow> False
       | Inr st' \<Rightarrow> \<not> ds_row st' < PCDLumaHeight ! k4Base \<and> ds_data0 st' = Some [1, 2, 3]
                    \<and> ds_data1 st' = None \<and> ds_data2 st' = None)"
proof -
  have "case readSequence [] k4Base 0 0 skipState of
          Inl e \<Rightarrow> False | Inr st' \<Rightarrow> \<not> ds_row st' < PCDLumaHeight ! k4Base"
    by code_simp
  then obtain st' where r: "readSequence [] k4Base 0 0 skipState = Inr st'"
    and h: "\<not> ds_row st' < PCDLumaHeight ! k4Base"
    by (auto split: sum.splits)
  have d: "ds_data0 skipState = Some [1, 2, 3]" "ds_data1 skipState = None"
    "ds_data2 skipState = None"
    by (simp_all add: skipState_def)
  have f: "unat (drop_bit 9 (0xFE3FFFFF :: u32) AND 0x1fff) = 8191"
    "unat (drop_bit 22 (0xFE3FFFFF :: u32) AND 0x3) = 0"
    by simp_all
  from headerFields_levels [of k4Base "0xFE3FFFFF" "[]" 0 0 skipState st'] r h d f
  show ?thesis by simp
qed

section \<open>Rotation\<close>

text \<open>
  The decoder of the example: a Base16 image, rotation 3, the first pixel of luma 0 in
  an image of luma 2.
\<close>

lemma rotatedDecoder_eq:
  "rotatedDecoder =
     zeroStorage\<lparr>luma := Some (0 # replicate (192 * 128 - 1) 2),
                 chroma1 := Some (replicate (96 * 64) 156),
                 chroma2 := Some (replicate (96 * 64) 138),
                 pcdFileHeader := Some rotatedHeader,
                 imageRotate := 3,
                 imageResolution := 4\<rparr>"
  by (simp add: rotatedDecoder_def parseFile_def readBaseImage_def
      readBaseImage_loop.simps rotatedFile_def rotatedHeader_def pcdDecode_new_def
      zeroStorage_def pcdFreeAll_def compareBytes_def setInterpolation_def
      kBase16_def kBase_def k4Base_def k16Base_def k64Base_def pcdMin_def
      kUpResNearest_def kUpResLumaIterpolate_def kPCDRawColorSpace_def kPCDD65White_def
      int32_t_def uint32_t_def Let_def signed_take_bit_int_eq_self)

lemma rotatedDecoder_fields:
  "sceneNumber rotatedDecoder = kBase16" "imageRotate rotatedDecoder = 3"
  "pcdFileHeader rotatedDecoder \<noteq> None"
  "luma rotatedDecoder = Some (0 # replicate (192 * 128 - 1) 2)"
  "interpolateBuffers rotatedDecoder (PCDChromaResFactor ! sceneNumber rotatedDecoder)
     = Some (None, None, 1)"
  by (simp_all add: rotatedDecoder_eq zeroStorage_def kBase16_def interpolateBuffers_def
      PCDChromaResFactor_def kUpResIterpolate_def Let_def)

text \<open>
  Writes of one pixel: where \<open>storePixel\<close> writes and where it does not, and the index
  that rotation 3 gives source pixel \<open>(row, col)\<close> of a 192 x 128 image: the index is
  \<open>(127 - row + col * 128) * d\<close>, without wrap-around for an \<open>int\<close> stride, and no two
  pixels have the same.
\<close>

lemma storePixel_other:
  assumes "a \<noteq> rd_red rd + di" "a \<noteq> rd_green rd + di" "a \<noteq> rd_blue rd + di"
    "\<forall>al. rd_alpha rd = Some al \<longrightarrow> a \<noteq> al + di"
  shows "storePixel rd di rgb mem a = mem a"
  using assms by (cases rgb) (auto simp: storePixel_def Let_def split: option.splits)

lemma storePixel_hit:
  assumes "b \<in> insert (rd_red rd) (insert (rd_green rd) (insert (rd_blue rd) (set_option (rd_alpha rd))))"
  shows "storePixel rd di rgb m (b + di) = storePixel rd di rgb m0 (b + di)"
  using assms by (cases rgb) (auto simp: storePixel_def Let_def split: option.splits)

lemma destIndex_rotate3:
  assumes "row < 128" "col < 192" "- (2 ^ 31) \<le> d" "d < 2 ^ 31"
  shows "destIndex 3 192 128 row col d = (127 - int row + int col * 128) * d"
proof -
  define k where "k = 127 - int row + int col * 128"
  have k: "0 \<le> k" "k \<le> 24575" using assms(1,2) by (simp_all add: k_def)
  have "\<bar>k * d\<bar> = k * \<bar>d\<bar>" using k by (simp add: abs_mult)
  also have "\<dots> \<le> 24575 * 2 ^ 31"
    using k assms(3,4) by (intro mult_mono) simp_all
  finally have "- (2 ^ 63) \<le> k * d" "k * d < 2 ^ 63" by simp_all
  then have "signed_take_bit 63 (k * d) = k * d"
    by (simp add: signed_take_bit_int_eq_self)
  then show ?thesis
    using assms(1,2) by (simp add: destIndex_def ptrdiff_t_def k_def algebra_simps)
qed

lemma index_rotate3_inj:
  assumes "row < 128" "row' < 128" "(127::int) - int row + int col * 128 = 127 - int row' + int col' * 128"
  shows "row = row' \<and> col = col'"
proof -
  have "int (col * 128 + row') = int (col' * 128 + row)" using assms(3) by simp
  then have e: "col * 128 + row' = col' * 128 + row" by (simp only: of_nat_eq_iff)
  then have "(col * 128 + row') div 128 = (col' * 128 + row) div 128" by simp
  then have "col = col'" using assms(1,2) by simp
  with e show ?thesis by simp
qed

text \<open>
  \<open>C1i\<close> and \<open>C2i\<close> start at 0 in every band and keep that value where the chroma
  pointer is \<open>NULL\<close>, so a pixel converts as it would from the start of a band.
\<close>

lemma convertPixel_carry:
  assumes "(rd_c1p rd = None \<longrightarrow> fst c = 0) \<and> (rd_c2p rd = None \<longrightarrow> snd c = 0)"
    and "convertPixel rd row col c = Some (rgb, c')"
  shows "((rd_c1p rd = None \<longrightarrow> fst c' = 0) \<and> (rd_c2p rd = None \<longrightarrow> snd c' = 0))
         \<and> (\<exists>c0. convertPixel rd row col (0, 0) = Some (rgb, c0))"
  using assms
  by (cases c; cases "rd_c1p rd"; cases "rd_c2p rd")
     (auto simp: convertPixel_def Let_def peek_None split: if_splits Option.bind_splits)

text \<open>
  One step of \<open>convertToRGB\<close> at rotation 3: it leaves alone every address other than
  the four it writes, and what it writes is the converted pixel.
\<close>

lemma convertStep_frame:
  assumes geom: "rd_columns rd = 192" "rd_rows rd = 128" "rd_imageRotate rd = 3"
    and stride: "- (2 ^ 31) \<le> rd_d rd" "rd_d rd < 2 ^ 31"
    and pos: "row < 128" "col < 192"
    and run: "convertStep rd row col st = Some st'"
    and carry: "(rd_c1p rd = None \<longrightarrow> fst (fst st) = 0) \<and> (rd_c2p rd = None \<longrightarrow> snd (fst st) = 0)"
    and other: "\<forall>b'\<in>insert (rd_red rd) (insert (rd_green rd) (insert (rd_blue rd)
                    (set_option (rd_alpha rd)))).
                  b' + (127 - int row + int col * 128) * rd_d rd \<noteq> a"
  shows "((rd_c1p rd = None \<longrightarrow> fst (fst st') = 0) \<and> (rd_c2p rd = None \<longrightarrow> snd (fst st') = 0))
         \<and> snd st' a = snd st a"
proof -
  let ?di = "(127 - int row + int col * 128) * rd_d rd"
  from run obtain rgb c' where px: "convertPixel rd row col (fst st) = Some (rgb, c')"
    and st': "st' = (c', storePixel rd
                 (destIndex (rd_imageRotate rd) (rd_columns rd) (rd_rows rd) row col (rd_d rd))
                 rgb (snd st))"
    by (auto simp: convertStep_def split: option.splits)
  have di: "destIndex (rd_imageRotate rd) (rd_columns rd) (rd_rows rd) row col (rd_d rd) = ?di"
    unfolding geom by (rule destIndex_rotate3 [OF pos stride])
  have "storePixel rd ?di rgb (snd st) a = snd st a"
    using other by (intro storePixel_other) auto
  with convertPixel_carry [OF carry px] show ?thesis
    unfolding st' di by simp
qed

lemma convertStep_hit:
  assumes geom: "rd_columns rd = 192" "rd_rows rd = 128" "rd_imageRotate rd = 3"
    and stride: "- (2 ^ 31) \<le> rd_d rd" "rd_d rd < 2 ^ 31"
    and pos: "row < 128" "col < 192"
    and run: "convertStep rd row col st = Some st'"
    and carry: "(rd_c1p rd = None \<longrightarrow> fst (fst st) = 0) \<and> (rd_c2p rd = None \<longrightarrow> snd (fst st) = 0)"
    and b: "b \<in> insert (rd_red rd) (insert (rd_green rd) (insert (rd_blue rd)
                    (set_option (rd_alpha rd))))"
  shows "((rd_c1p rd = None \<longrightarrow> fst (fst st') = 0) \<and> (rd_c2p rd = None \<longrightarrow> snd (fst st') = 0))
         \<and> (\<exists>rgb c. convertPixel rd row col (0, 0) = Some (rgb, c)
               \<and> snd st' (b + (127 - int row + int col * 128) * rd_d rd)
                 = storePixel rd ((127 - int row + int col * 128) * rd_d rd) rgb m0
                     (b + (127 - int row + int col * 128) * rd_d rd))"
proof -
  let ?di = "(127 - int row + int col * 128) * rd_d rd"
  from run obtain rgb c' where px: "convertPixel rd row col (fst st) = Some (rgb, c')"
    and st': "st' = (c', storePixel rd
                 (destIndex (rd_imageRotate rd) (rd_columns rd) (rd_rows rd) row col (rd_d rd))
                 rgb (snd st))"
    by (auto simp: convertStep_def split: option.splits)
  have di: "destIndex (rd_imageRotate rd) (rd_columns rd) (rd_rows rd) row col (rd_d rd) = ?di"
    unfolding geom by (rule destIndex_rotate3 [OF pos stride])
  from convertPixel_carry [OF carry px] obtain c0 where
    c: "(rd_c1p rd = None \<longrightarrow> fst c' = 0) \<and> (rd_c2p rd = None \<longrightarrow> snd c' = 0)"
    and p0: "convertPixel rd row col (0, 0) = Some (rgb, c0)"
    by (elim conjE exE) (rule that, rule conjI)
  have "snd st' (b + ?di) = storePixel rd ?di rgb m0 (b + ?di)"
    unfolding st' di snd_conv by (rule storePixel_hit [OF b])
  with c p0 show ?thesis unfolding st' by auto
qed

text \<open>
  One band: when no sample of another pixel lies at the address \<open>b + di\<close> of source
  pixel \<open>(r0, c0)\<close> in buffer \<open>b\<close>, the band leaves there what storing that pixel
  leaves when the row is in the band, and what was there before when it is not.
\<close>

lemma convertToRGB_pixel:
  fixes rd :: ConvertToRGBData and r0 c0 :: nat and b a :: int
  defines "B \<equiv> insert (rd_red rd) (insert (rd_green rd) (insert (rd_blue rd)
                    (set_option (rd_alpha rd))))"
  defines "di \<equiv> (127 - int r0 + int c0 * 128) * rd_d rd"
  assumes geom: "rd_columns rd = 192" "rd_rows rd = 128" "rd_imageRotate rd = 3"
    and stride: "- (2 ^ 31) \<le> rd_d rd" "rd_d rd < 2 ^ 31"
    and pos: "r0 < 128" "c0 < 192"
    and b: "b \<in> B"
    and apart: "\<And>row col b'. row < 128 \<Longrightarrow> col < 192 \<Longrightarrow> row \<noteq> r0 \<or> col \<noteq> c0 \<Longrightarrow> b' \<in> B
                  \<Longrightarrow> b' + (127 - int row + int col * 128) * rd_d rd \<noteq> b + di"
    and band: "rd_endRow rd \<le> 128"
    and run: "convertToRGB rd m = Some m'"
  shows "if rd_startRow rd \<le> r0 \<and> r0 < rd_endRow rd
         then \<exists>rgb c. convertPixel rd r0 c0 (0, 0) = Some (rgb, c)
                \<and> m' (b + di) = storePixel rd di rgb m0 (b + di)
         else m' (b + di) = m (b + di)"
proof -
  let ?I = "\<lambda>st :: (int \<times> int) \<times> memory.
              (rd_c1p rd = None \<longrightarrow> fst (fst st) = 0) \<and> (rd_c2p rd = None \<longrightarrow> snd (fst st) = 0)"
  let ?g = "\<lambda>st :: (int \<times> int) \<times> memory. snd st (b + di)"
  let ?P = "\<lambda>v. \<exists>rgb c. convertPixel rd r0 c0 (0, 0) = Some (rgb, c)
                 \<and> v = storePixel rd di rgb m0 (b + di)"
  let ?rowF = "\<lambda>row. foldM (convertStep rd row) [0..<rd_columns rd]"
  have step_frame: "?I s' \<and> ?g s' = ?g s"
    if "row < 128" "col < 192" "row \<noteq> r0 \<or> col \<noteq> c0" "?I s" "convertStep rd row col s = Some s'"
    for row col s s'
  proof (rule convertStep_frame [OF geom stride that(1,2,5,4)])
    show "\<forall>b'\<in>insert (rd_red rd) (insert (rd_green rd) (insert (rd_blue rd)
                    (set_option (rd_alpha rd)))).
            b' + (127 - int row + int col * 128) * rd_d rd \<noteq> b + di"
      using apart [OF that(1,2,3)] unfolding B_def by blast
  qed
  have step_hit: "?I s' \<and> ?P (?g s')"
    if "?I s" "convertStep rd r0 c0 s = Some s'" for s s'
    using convertStep_hit [OF geom stride pos that(2,1) b [unfolded B_def], of m0]
    unfolding di_def by simp
  have row_frame: "?I s' \<and> ?g s' = ?g s"
    if "row < 128" "row \<noteq> r0" "?I s" "?rowF row s = Some s'" for row s s'
  proof (rule foldM_frame [where I = ?I and g = ?g, OF that(4,3)])
    fix x :: nat and t t' :: "(int \<times> int) \<times> memory"
    assume x: "x \<in> set [0..<rd_columns rd]" and t: "?I t" "convertStep rd row x t = Some t'"
    from x have "x < 192" unfolding geom(1) set_upt by simp
    from step_frame [OF that(1) this _ t] that(2) show "?I t' \<and> ?g t' = ?g t" by simp
  qed
  have row_hit: "?I s' \<and> ?P (?g s')" if "?I s" "?rowF r0 s = Some s'" for s s'
  proof (rule foldM_written [where I = ?I and g = ?g and P = ?P and ?x0.0 = c0, OF that(2,1)])
    show "c0 \<in> set [0..<rd_columns rd]" unfolding geom(1) set_upt using pos(2) by simp
    show "distinct [0..<rd_columns rd]" by (rule distinct_upt)
  next
    fix x :: nat and t t' :: "(int \<times> int) \<times> memory"
    assume x: "x \<in> set [0..<rd_columns rd]" "x \<noteq> c0"
      and t: "?I t" "convertStep rd r0 x t = Some t'"
    from x(1) have "x < 192" unfolding geom(1) set_upt by simp
    from step_frame [OF pos(1) this _ t] x(2) show "?I t' \<and> ?g t' = ?g t" by simp
  next
    fix t t' :: "(int \<times> int) \<times> memory"
    assume "?I t" "convertStep rd r0 c0 t = Some t'"
    then show "?I t' \<and> ?P (?g t')" by (rule step_hit)
  qed
  from run obtain st' where le: "rd_startRow rd \<le> rd_endRow rd"
    and fm: "foldM ?rowF [rd_startRow rd..<rd_endRow rd] ((0, 0), m) = Some st'"
    and m': "m' = snd st'"
    by (auto simp: convertToRGB_def split: if_splits)
  have i0: "?I ((0, 0), m)" by simp
  show ?thesis
  proof (cases "rd_startRow rd \<le> r0 \<and> r0 < rd_endRow rd")
    case True
    have "?I st' \<and> ?P (?g st')"
    proof (rule foldM_written [where I = ?I and g = ?g and P = ?P and ?x0.0 = r0, OF fm i0])
      show "r0 \<in> set [rd_startRow rd..<rd_endRow rd]" using True by simp
      show "distinct [rd_startRow rd..<rd_endRow rd]" by (rule distinct_upt)
    next
      fix x :: nat and t t' :: "(int \<times> int) \<times> memory"
      assume x: "x \<in> set [rd_startRow rd..<rd_endRow rd]" "x \<noteq> r0"
        and t: "?I t" "?rowF x t = Some t'"
      from x(1) band have "x < 128" by simp
      from row_frame [OF this x(2) t] show "?I t' \<and> ?g t' = ?g t" .
    next
      fix t t' :: "(int \<times> int) \<times> memory"
      assume "?I t" "?rowF r0 t = Some t'"
      then show "?I t' \<and> ?P (?g t')" by (rule row_hit)
    qed
    then have "?P (m' (b + di))" unfolding m' by simp
    with True show ?thesis by simp
  next
    case False
    have "?I st' \<and> ?g st' = ?g ((0, 0), m)"
    proof (rule foldM_frame [where I = ?I and g = ?g, OF fm i0])
      fix x :: nat and t t' :: "(int \<times> int) \<times> memory"
      assume x: "x \<in> set [rd_startRow rd..<rd_endRow rd]"
        and t: "?I t" "?rowF x t = Some t'"
      from x band have "x < 128" by simp
      moreover from x False have "x \<noteq> r0" by auto
      ultimately show "?I t' \<and> ?g t' = ?g t" using t by (rule row_frame)
    qed
    then have "m' (b + di) = m (b + di)" unfolding m' by simp
    with False show ?thesis by (simp only: if_False)
  qed
qed

text \<open>The bands that \<open>populateBuffers\<close> hands out for a Base16 image at rotation 3.\<close>

lemma threadData_fields:
  assumes "sceneNumber s = kBase16" "imageRotate s = 3"
  shows "rd_columns (threadData s red green blue alpha d dataSize c1p c2p rf p t) = 192"
    "rd_rows (threadData s red green blue alpha d dataSize c1p c2p rf p t) = 128"
    "rd_imageRotate (threadData s red green blue alpha d dataSize c1p c2p rf p t) = 3"
    "rd_startRow (threadData s red green blue alpha d dataSize c1p c2p rf p t) = p"
    "rd_endRow (threadData s red green blue alpha d dataSize c1p c2p rf p t) = 16 * (t + 1)"
  using assms
  by (simp_all add: threadData_def kBase16_def PCDLumaWidth_def PCDLumaHeight_def kNumThreads_def)

lemma threadData_shared:
  "rd_d (threadData s red green blue alpha d dataSize c1p c2p rf p t) = d"
  "rd_red (threadData s red green blue alpha d dataSize c1p c2p rf p t) = red"
  "rd_green (threadData s red green blue alpha d dataSize c1p c2p rf p t) = green"
  "rd_blue (threadData s red green blue alpha d dataSize c1p c2p rf p t) = blue"
  "rd_alpha (threadData s red green blue alpha d dataSize c1p c2p rf p t) = alpha"
  "convertPixel (threadData s red green blue alpha d dataSize c1p c2p rf p t)
     = convertPixel (threadData s red green blue alpha d dataSize c1p c2p rf 0 0)"
  "storePixel (threadData s red green blue alpha d dataSize c1p c2p rf p t)
     = storePixel (threadData s red green blue alpha d dataSize c1p c2p rf 0 0)"
  by (simp_all add: threadData_def convertPixel_def storePixel_def fun_eq_iff Let_def)

lemma threads_pixel:
  fixes s :: pcdDecode and red green blue d b :: int and alpha :: "int option"
    and r0 c0 dataSize rf :: nat and c1p c2p :: plane
  defines "B \<equiv> insert red (insert green (insert blue (set_option alpha)))"
  defines "di \<equiv> (127 - int r0 + int c0 * 128) * d"
  defines "rd \<equiv> threadData s red green blue alpha d dataSize c1p c2p rf"
  defines "bandf \<equiv> \<lambda>thread (previousRow, mem).
             (let rd = threadData s red green blue alpha d dataSize c1p c2p rf previousRow thread
              in map_option (Pair (rd_endRow rd)) (convertToRGB rd mem))"
  assumes s: "sceneNumber s = kBase16" "imageRotate s = 3"
    and stride: "- (2 ^ 31) \<le> d" "d < 2 ^ 31"
    and pos: "r0 < 128" "c0 < 192"
    and b: "b \<in> B"
    and apart: "\<And>row col b'. row < 128 \<Longrightarrow> col < 192 \<Longrightarrow> row \<noteq> r0 \<or> col \<noteq> c0 \<Longrightarrow> b' \<in> B
                  \<Longrightarrow> b' + (127 - int row + int col * 128) * d \<noteq> b + di"
    and k: "k \<le> 8"
    and run: "foldM bandf [0..<k] (0, m) = Some (pr, m')"
  shows "pr = 16 * k
         \<and> (if r0 < 16 * k
            then \<exists>rgb c. convertPixel (rd 0 0) r0 c0 (0, 0) = Some (rgb, c)
                   \<and> m' (b + di) = storePixel (rd 0 0) di rgb m (b + di)
            else m' (b + di) = m (b + di))"
proof -
  define P where "P = (\<lambda>v. \<exists>rgb c. convertPixel (rd 0 0) r0 c0 (0, 0) = Some (rgb, c)
                           \<and> v = storePixel (rd 0 0) di rgb m (b + di))"
  have "pr = 16 * k \<and> (if r0 < 16 * k then P (m' (b + di)) else m' (b + di) = m (b + di))"
    using k run
  proof (induction k arbitrary: pr m')
    case 0
    then show ?case by simp
  next
    case (Suc k)
    have "foldM bandf [0..<Suc k] (0, m) =
            (case foldM bandf [0..<k] (0, m) of None \<Rightarrow> None | Some s' \<Rightarrow> foldM bandf [k] s')"
      by (simp only: upt_Suc_append [OF le0] foldM_append)
    with Suc.prems(2) obtain pr1 m1 where r1: "foldM bandf [0..<k] (0, m) = Some (pr1, m1)"
      and r2: "bandf k (pr1, m1) = Some (pr, m')"
      by (auto split: option.splits)
    from Suc.prems(1) have "k \<le> 8" by simp
    from Suc.IH [OF this r1] have pr1: "pr1 = 16 * k"
      and ih: "if r0 < 16 * k then P (m1 (b + di)) else m1 (b + di) = m (b + di)"
      by simp_all
    let ?rd = "rd (16 * k) k"
    from r2 have cv: "convertToRGB ?rd m1 = Some m'" and pr: "pr = rd_endRow ?rd"
      by (auto simp: bandf_def rd_def pr1 Let_def)
    note f = threadData_fields [OF s, of red green blue alpha d dataSize c1p c2p rf "16 * k" k,
        folded rd_def]
    note sh = threadData_shared [of s red green blue alpha d dataSize c1p c2p rf "16 * k" k,
        folded rd_def]
    have e: "rd_endRow ?rd \<le> 128" unfolding f using Suc.prems(1) by simp
    have band: "if rd_startRow ?rd \<le> r0 \<and> r0 < rd_endRow ?rd
         then \<exists>rgb c. convertPixel ?rd r0 c0 (0, 0) = Some (rgb, c)
                \<and> m' (b + (127 - int r0 + int c0 * 128) * rd_d ?rd)
                  = storePixel ?rd ((127 - int r0 + int c0 * 128) * rd_d ?rd) rgb m
                      (b + (127 - int r0 + int c0 * 128) * rd_d ?rd)
         else m' (b + (127 - int r0 + int c0 * 128) * rd_d ?rd)
              = m1 (b + (127 - int r0 + int c0 * 128) * rd_d ?rd)"
    proof (rule convertToRGB_pixel [OF f(1,2,3) _ _ pos _ _ e cv])
      show "- (2 ^ 31) \<le> rd_d ?rd" "rd_d ?rd < 2 ^ 31" unfolding sh using stride by simp_all
      show "b \<in> insert (rd_red ?rd) (insert (rd_green ?rd) (insert (rd_blue ?rd)
                      (set_option (rd_alpha ?rd))))"
        unfolding sh using b by (simp add: B_def)
    next
      fix row col :: nat and b' :: int
      assume "row < 128" "col < 192" "row \<noteq> r0 \<or> col \<noteq> c0"
        "b' \<in> insert (rd_red ?rd) (insert (rd_green ?rd) (insert (rd_blue ?rd)
                      (set_option (rd_alpha ?rd))))"
      then show "b' + (127 - int row + int col * 128) * rd_d ?rd
                   \<noteq> b + (127 - int r0 + int c0 * 128) * rd_d ?rd"
        unfolding sh using apart [of row col b'] by (simp add: B_def di_def)
    qed
    have band': "if 16 * k \<le> r0 \<and> r0 < 16 * (k + 1) then P (m' (b + di))
                 else m' (b + di) = m1 (b + di)"
      using band
      unfolding P_def di_def rd_def
        threadData_fields [OF s, of red green blue alpha d dataSize c1p c2p rf "16 * k" k]
        threadData_shared [of s red green blue alpha d dataSize c1p c2p rf "16 * k" k] .
    have "pr = 16 * Suc k" unfolding pr f by simp
    moreover have "if r0 < 16 * Suc k then P (m' (b + di)) else m' (b + di) = m (b + di)"
    proof (cases "r0 < 16 * k")
      case True
      with band' have "m' (b + di) = m1 (b + di)" by simp
      with ih True show ?thesis by simp
    next
      case False
      show ?thesis
      proof (cases "r0 < 16 * (k + 1)")
        case True
        with False band' show ?thesis by simp
      next
        case False
        with band' have "m' (b + di) = m1 (b + di)" by simp
        with ih False \<open>\<not> r0 < 16 * k\<close> show ?thesis by simp
      qed
    qed
    ultimately show ?case by (rule conjI)
  qed
  then show ?thesis unfolding P_def .
qed

text \<open>
  The whole output: source pixel \<open>(r0, c0)\<close> is at index \<open>(127 - r0 + c0 * 128) * d\<close>
  of each buffer whose sample there no other pixel shares.
\<close>

lemma populateBuffers_pixel:
  fixes s :: pcdDecode and red green blue d b :: int and alpha :: "int option"
    and r0 c0 dataSize :: nat
  defines "B \<equiv> insert red (insert green (insert blue (set_option alpha)))"
  defines "k0 \<equiv> 127 - r0 + c0 * 128"
  assumes s: "sceneNumber s = kBase16" "imageRotate s = 3"
    and hdr: "pcdFileHeader s \<noteq> None"
    and stride: "- (2 ^ 31) \<le> d" "d < 2 ^ 31"
    and pos: "r0 < 128" "c0 < 192"
    and b: "b \<in> B"
    and apart: "\<forall>j\<in>{0..<192 * 128}. j \<noteq> k0 \<longrightarrow> (\<forall>b'\<in>B. b' + int j * d \<noteq> b + int k0 * d)"
    and run: "populateBuffers s red green blue alpha d dataSize mem = Some (s', mem')"
  shows "\<exists>c1UpRes c2UpRes resFactor rgb carry.
           interpolateBuffers s (PCDChromaResFactor ! sceneNumber s)
             = Some (c1UpRes, c2UpRes, resFactor)
         \<and> convertPixel
             (threadData s red green blue alpha d dataSize
                (if c1UpRes \<noteq> None then c1UpRes else chroma1 s)
                (if c2UpRes \<noteq> None then c2UpRes else chroma2 s) resFactor 0 0)
             r0 c0 (0, 0) = Some (rgb, carry)
         \<and> mem' (b + int k0 * d)
             = storePixel
                 (threadData s red green blue alpha d dataSize
                    (if c1UpRes \<noteq> None then c1UpRes else chroma1 s)
                    (if c2UpRes \<noteq> None then c2UpRes else chroma2 s) resFactor 0 0)
                 (int k0 * d) rgb mem (b + int k0 * d)"
proof -
  from run hdr obtain c1UpRes c2UpRes resFactor pr where
    ib: "interpolateBuffers s (PCDChromaResFactor ! sceneNumber s)
           = Some (c1UpRes, c2UpRes, resFactor)"
    and fm: "foldM (\<lambda>thread (previousRow, mem).
               (let rd = threadData s red green blue alpha d dataSize
                           (if c1UpRes \<noteq> None then c1UpRes else chroma1 s)
                           (if c2UpRes \<noteq> None then c2UpRes else chroma2 s) resFactor
                           previousRow thread
                in map_option (Pair (rd_endRow rd)) (convertToRGB rd mem)))
             [0..<8] (0, mem) = Some (pr, mem')"
    by (auto simp: populateBuffers_def Let_def kNumThreads_def
        split: if_splits Option.bind_splits simp del: upt_rec_numeral)
  have k0: "int k0 = 127 - int r0 + int c0 * 128" using pos(1) by (simp add: k0_def)
  have ap: "b' + (127 - int row + int col * 128) * d \<noteq> b + (127 - int r0 + int c0 * 128) * d"
    if "row < 128" "col < 192" "row \<noteq> r0 \<or> col \<noteq> c0" "b' \<in> B" for row col b'
  proof -
    define j where "j = 127 - row + col * 128"
    have j: "int j = 127 - int row + int col * 128" using that(1) by (simp add: j_def)
    have "j \<in> {0..<192 * 128}" using that(1,2) by (simp add: j_def)
    moreover have "j \<noteq> k0"
    proof
      assume "j = k0"
      then have "(127::int) - int row + int col * 128 = 127 - int r0 + int c0 * 128"
        using j k0 by simp
      from index_rotate3_inj [OF that(1) pos(1) this] that(3) show False by simp
    qed
    ultimately have "b' + int j * d \<noteq> b + int k0 * d" using apart that(4) by blast
    then show ?thesis unfolding j k0 .
  qed
  from threads_pixel [OF s stride pos b [unfolded B_def] ap [unfolded B_def] order_refl fm]
  have "\<exists>rgb c. convertPixel
             (threadData s red green blue alpha d dataSize
                (if c1UpRes \<noteq> None then c1UpRes else chroma1 s)
                (if c2UpRes \<noteq> None then c2UpRes else chroma2 s) resFactor 0 0)
             r0 c0 (0, 0) = Some (rgb, c)
         \<and> mem' (b + (127 - int r0 + int c0 * 128) * d)
             = storePixel
                 (threadData s red green blue alpha d dataSize
                    (if c1UpRes \<noteq> None then c1UpRes else chroma1 s)
                    (if c2UpRes \<noteq> None then c2UpRes else chroma2 s) resFactor 0 0)
                 ((127 - int r0 + int c0 * 128) * d) rgb mem
                 (b + (127 - int r0 + int c0 * 128) * d)"
    using pos(1) by simp
  with ib show ?thesis unfolding k0 by blast
qed

text \<open>On \<open>rotatedDecoder\<close> every pixel converts, so \<open>populateBuffers\<close> returns.\<close>

lemma rotated_pixel:
  assumes "row < 128" "col < 192"
  shows "convertPixel
           (threadData rotatedDecoder red green blue alpha d sz
              (chroma1 rotatedDecoder) (chroma2 rotatedDecoder) 1 p t)
           row col carry =
         Some (if row = 0 \<and> col = 0 then (7, 0, 0) else (18, 7, 10), (0, 7461))"
proof -
  have l: "col + row * 192 < 192 * 128" using assms by simp
  have "col div 2 \<le> 95" "row div 2 \<le> 63" using assms by simp_all
  then have c: "col div 2 + row div 2 * 96 < 96 * 64" by simp
  have d: "(7461 :: int) sdiv 2012 = 3" by (simp add: signed_divide_int_def)
  have n: "(0 # replicate 24575 (2 :: u8)) ! (col + row * 192)
             = (if row = 0 \<and> col = 0 then 0 else 2)"
    using l by (simp add: nth_Cons')
  show ?thesis
    using l c
    by (simp add: convertPixel_def threadData_def rotatedDecoder_eq zeroStorage_def
        PCDLumaWidth_def peek_def Let_def drop_bit_eq_div n
        photoCDRGB_def colorManage_def pcdPin_def int32_t_def d
        signed_take_bit_int_eq_self kPCDRawColorSpace_def kPCDYCCColorSpace_def
        kPCDLinearCCIR709ColorSpace_def kPCDsRGBColorSpace_def)
qed

lemma rotated_band:
  assumes "p \<le> 16 * (t + 1)" "t < 8"
  shows "\<exists>m'. convertToRGB
                (threadData rotatedDecoder red green blue alpha d sz
                   (chroma1 rotatedDecoder) (chroma2 rotatedDecoder) 1 p t) m = Some m'"
proof -
  let ?rd = "threadData rotatedDecoder red green blue alpha d sz
               (chroma1 rotatedDecoder) (chroma2 rotatedDecoder) 1 p t"
  note f = threadData_fields [OF rotatedDecoder_fields(1,2),
      of red green blue alpha d sz "chroma1 rotatedDecoder" "chroma2 rotatedDecoder" 1 p t]
  have "\<exists>st'. foldM (\<lambda>row. foldM (convertStep ?rd row) [0..<rd_columns ?rd])
                 [rd_startRow ?rd..<rd_endRow ?rd] ((0, 0), m) = Some st'"
  proof (rule foldM_total)
    fix row :: nat and st :: "(int \<times> int) \<times> memory"
    assume "row \<in> set [rd_startRow ?rd..<rd_endRow ?rd]"
    then have row: "row < 128" unfolding f using assms(2) by simp
    show "\<exists>st'. foldM (convertStep ?rd row) [0..<rd_columns ?rd] st = Some st'"
    proof (rule foldM_total)
      fix col :: nat and s1 :: "(int \<times> int) \<times> memory"
      assume "col \<in> set [0..<rd_columns ?rd]"
      then have "col < 192" unfolding f set_upt by simp
      from rotated_pixel [OF row this]
      show "\<exists>s'. convertStep ?rd row col s1 = Some s'"
        by (simp add: convertStep_def)
    qed
  qed
  moreover have "\<not> rd_endRow ?rd < rd_startRow ?rd" unfolding f using assms(1) by simp
  ultimately show ?thesis by (auto simp: convertToRGB_def)
qed

lemma rotated_threads:
  assumes "k \<le> 8"
  shows "\<exists>m'. foldM (\<lambda>thread (previousRow, mem).
                  (let rd = threadData rotatedDecoder red green blue alpha d sz
                              (chroma1 rotatedDecoder) (chroma2 rotatedDecoder) 1
                              previousRow thread
                   in map_option (Pair (rd_endRow rd)) (convertToRGB rd mem)))
               [0..<k] (0, m) = Some (16 * k, m')"
proof -
  define bandf where
    "bandf = (\<lambda>thread (previousRow, mem).
                (let rd = threadData rotatedDecoder red green blue alpha d sz
                            (chroma1 rotatedDecoder) (chroma2 rotatedDecoder) 1
                            previousRow thread
                 in map_option (Pair (rd_endRow rd)) (convertToRGB rd mem)))"
  have "\<exists>m'. foldM bandf [0..<k] (0, m) = Some (16 * k, m')"
    using assms
  proof (induction k)
    case 0
    then show ?case by simp
  next
    case (Suc k)
    from Suc obtain mk where mk: "foldM bandf [0..<k] (0, m) = Some (16 * k, mk)" by auto
    have "16 * k \<le> 16 * (k + 1)" "k < 8" using Suc.prems by simp_all
    from rotated_band [OF this, of red green blue alpha d sz mk]
    obtain m' where m': "convertToRGB
                  (threadData rotatedDecoder red green blue alpha d sz
                     (chroma1 rotatedDecoder) (chroma2 rotatedDecoder) 1 (16 * k) k) mk = Some m'"
      by blast
    note f = threadData_fields [OF rotatedDecoder_fields(1,2),
        of red green blue alpha d sz "chroma1 rotatedDecoder" "chroma2 rotatedDecoder" 1 "16 * k" k]
    have step: "bandf k (16 * k, mk) = Some (16 * (k + 1), m')"
      unfolding bandf_def by (simp only: case_prod_conv Let_def m' f option.map)
    have "foldM bandf [0..<Suc k] (0, m) =
            (case foldM bandf [0..<k] (0, m) of None \<Rightarrow> None | Some s' \<Rightarrow> foldM bandf [k] s')"
      by (simp only: upt_Suc_append [OF le0] foldM_append)
    also have "\<dots> = Some (16 * (k + 1), m')"
      by (simp only: mk option.case foldM.simps step)
    finally show ?case by (simp only: Suc_eq_plus1) blast
  qed
  then show ?thesis unfolding bandf_def .
qed

lemma rotated_populate:
  "\<exists>m'. populateBuffers rotatedDecoder red green blue alpha d sz m = Some (rotatedDecoder, m')"
proof -
  from rotated_threads [of 8 red green blue alpha d sz m] obtain m' where
    "foldM (\<lambda>thread (previousRow, mem).
              (let rd = threadData rotatedDecoder red green blue alpha d sz
                          (chroma1 rotatedDecoder) (chroma2 rotatedDecoder) 1
                          previousRow thread
               in map_option (Pair (rd_endRow rd)) (convertToRGB rd mem)))
       [0..<8] (0, m) = Some (16 * 8, m')"
    by auto
  then show ?thesis
    using rotatedDecoder_fields(3,5)
    by (simp add: populateBuffers_def rotatedDecoder_fields(1) kBase16_def
        PCDChromaResFactor_def kNumThreads_def del: upt_rec_numeral)
qed

lemma rotated_output:
  assumes pos: "r0 < 128" "c0 < 192"
    and out: "populateUInt8Buffers rotatedDecoder 0 100000 200000 None 1 m = Some (s', m')"
  shows "m' (int (127 - r0 + c0 * 128)) = UInt8 (if r0 = 0 \<and> c0 = 0 then 1 else 3)"
proof -
  let ?k = "127 - r0 + c0 * 128"
  have k: "?k < 192 * 128" using pos by simp
  have ap: "\<forall>j\<in>{0..<192 * 128}. j \<noteq> ?k
              \<longrightarrow> (\<forall>b'\<in>insert 0 (insert 100000 (insert 200000 (set_option None))).
                     b' + int j * 1 \<noteq> 0 + int ?k * 1)"
    using k by auto
  from out have run: "populateBuffers rotatedDecoder 0 100000 200000 None 1 pcdByteSize m
                        = Some (s', m')"
    by (simp add: populateUInt8Buffers_def)
  have "(0::int) \<in> insert 0 (insert 100000 (insert 200000 (set_option None)))" by simp
  from populateBuffers_pixel [OF rotatedDecoder_fields(1,2,3) _ _ pos this ap run]
  obtain rgb carry where
    px: "convertPixel
           (threadData rotatedDecoder 0 100000 200000 None 1 pcdByteSize
              (chroma1 rotatedDecoder) (chroma2 rotatedDecoder) 1 0 0)
           r0 c0 (0, 0) = Some (rgb, carry)"
    and v: "m' (0 + int ?k * 1)
             = storePixel
                 (threadData rotatedDecoder 0 100000 200000 None 1 pcdByteSize
                    (chroma1 rotatedDecoder) (chroma2 rotatedDecoder) 1 0 0)
                 (int ?k * 1) rgb m (0 + int ?k * 1)"
    unfolding rotatedDecoder_fields(5) by auto
  from px have rgb: "rgb = (if r0 = 0 \<and> c0 = 0 then (7, 0, 0) else (18, 7, 10))"
    unfolding rotated_pixel [OF pos] by simp
  have l: "uint8Output ! 7 = 1" "uint8Output ! 18 = 3"
    by (simp_all add: uint8Output_def)
  show ?thesis
    using v l unfolding rgb
    by (simp add: storePixel_def threadData_def pcdByteSize_def pcdFloatSize_def
        pcdInt16Size_def)
qed

text \<open>
  Claim C6, as stated: for a 192 x 128 image decoded with rotation 3 the output is
  128 x 192 and source pixel (0, 0) goes to destination (H - 1, 0), H the height after
  rotation. The dimensions hold. The destination does not. In the image of
  \<open>rotatedDecoder\<close> source pixel (0, 0) is the only one of luma 0: its red sample is 1,
  that of every other pixel is 3. With H = 192 the position (H - 1, 0) is index 191 of
  the 128-wide raster when read as (column, row) and index 191 * 128 when read as
  (row, column). After \<open>populateUInt8Buffers\<close> with stride 1 the red buffer, at address
  0, holds 3 at both and holds the 1 at index 127.
\<close>

theorem rotate3_counterexample:
  "getWidth rotatedDecoder = 128 \<and> getHeight rotatedDecoder = 192
   \<and> luma rotatedDecoder = Some (0 # replicate (192 * 128 - 1) 2)
   \<and> (case populateUInt8Buffers rotatedDecoder 0 100000 200000 None 1 (\<lambda>a. UInt8 9) of
         None \<Rightarrow> False
       | Some (s', m) \<Rightarrow> m 127 = UInt8 1 \<and> m 191 = UInt8 3 \<and> m (191 * 128) = UInt8 3)"
proof -
  from rotated_populate [of 0 100000 200000 None 1 pcdByteSize "\<lambda>a. UInt8 9"]
  obtain m where out: "populateUInt8Buffers rotatedDecoder 0 100000 200000 None 1 (\<lambda>a. UInt8 9)
                         = Some (rotatedDecoder, m)"
    by (auto simp: populateUInt8Buffers_def)
  have "m 127 = UInt8 1" using rotated_output [OF _ _ out, of 0 0] by simp
  moreover have "m 191 = UInt8 3" using rotated_output [OF _ _ out, of 64 1] by simp
  moreover have "m (191 * 128) = UInt8 3" using rotated_output [OF _ _ out, of 127 191] by simp
  moreover have "getWidth rotatedDecoder = 128" "getHeight rotatedDecoder = 192"
    using rotatedDecoder_fields(1,2)
    by (simp_all add: getWidth_def getHeight_def kBase16_def PCDLumaWidth_def PCDLumaHeight_def)
  ultimately show ?thesis using rotatedDecoder_fields(4) unfolding out by simp
qed

text \<open>
  Claim C6, amended: for a 192 x 128 image (level \<open>kBase16\<close>) decoded with rotation 3,
  \<open>getWidth\<close> is 128 and \<open>getHeight\<close> is 192, and source pixel (0, 0) is written at
  destination index \<open>(H - 1) * d\<close>, where \<open>H = 128\<close> is the height before rotation, that
  is the width after it, and \<open>d\<close> the stride: the last column of the first output row.
  In full: \<open>populateBuffers\<close> (with the \<open>dataSize\<close> of any of the three output formats)
  on a decoder that holds a file converts source pixel (0, 0) first, from the chroma
  that \<open>interpolateBuffers\<close> gives, and that step of \<open>convertToRGB\<close> stores the pixel
  at index \<open>(H - 1) * d\<close>; and when the call returns, each of the caller's buffers
  holds at that index what this store left there, provided no sample of another pixel
  has the same address (the buffers do not overlap there).
\<close>

theorem rotate3_base16:
  fixes s :: pcdDecode and red green blue d :: int and alpha :: "int option"
  defines "B \<equiv> insert red (insert green (insert blue (set_option alpha)))"
  assumes level: "sceneNumber s = kBase16" and rot: "imageRotate s = 3"
    and hdr: "pcdFileHeader s \<noteq> None"
    and stride: "- (2 ^ 31) \<le> d" "d < 2 ^ 31"
    and sep: "\<not> (\<exists>j\<in>{0..<192 * 128}. j \<noteq> 127
                  \<and> (\<exists>b\<in>B. \<exists>b'\<in>B. b' + int j * d = b + 127 * d))"
    and out: "populateBuffers s red green blue alpha d dataSize mem = Some (s', mem')"
  shows "getWidth s = 128 \<and> getHeight s = 192 \<and> PCDLumaHeight ! sceneNumber s = 128
         \<and> (\<exists>c1UpRes c2UpRes resFactor rgb carry.
               interpolateBuffers s (PCDChromaResFactor ! sceneNumber s)
                 = Some (c1UpRes, c2UpRes, resFactor)
             \<and> (let rd = threadData s red green blue alpha d dataSize
                            (if c1UpRes \<noteq> None then c1UpRes else chroma1 s)
                            (if c2UpRes \<noteq> None then c2UpRes else chroma2 s) resFactor 0 0;
                     di = (int (PCDLumaHeight ! sceneNumber s) - 1) * d
                 in convertPixel rd 0 0 (0, 0) = Some (rgb, carry)
                  \<and> convertStep rd 0 0 ((0, 0), mem) = Some (carry, storePixel rd di rgb mem)
                  \<and> (\<forall>b\<in>B. mem' (b + di) = storePixel rd di rgb mem (b + di))))"
proof -
  have dims: "getWidth s = 128" "getHeight s = 192" "PCDLumaHeight ! sceneNumber s = 128"
    using level rot
    by (simp_all add: getWidth_def getHeight_def kBase16_def PCDLumaWidth_def PCDLumaHeight_def)
  have k: "127 - (0::nat) + 0 * 128 = 127" by simp
  have pix: "\<exists>c1UpRes c2UpRes resFactor rgb carry.
           interpolateBuffers s (PCDChromaResFactor ! sceneNumber s)
             = Some (c1UpRes, c2UpRes, resFactor)
         \<and> convertPixel
             (threadData s red green blue alpha d dataSize
                (if c1UpRes \<noteq> None then c1UpRes else chroma1 s)
                (if c2UpRes \<noteq> None then c2UpRes else chroma2 s) resFactor 0 0)
             0 0 (0, 0) = Some (rgb, carry)
         \<and> mem' (b + 127 * d)
             = storePixel
                 (threadData s red green blue alpha d dataSize
                    (if c1UpRes \<noteq> None then c1UpRes else chroma1 s)
                    (if c2UpRes \<noteq> None then c2UpRes else chroma2 s) resFactor 0 0)
                 (127 * d) rgb mem (b + 127 * d)"
    if b: "b \<in> B" for b
  proof -
    have "\<forall>j\<in>{0..<192 * 128}. j \<noteq> 127 - 0 + 0 * 128
            \<longrightarrow> (\<forall>b'\<in>insert red (insert green (insert blue (set_option alpha))).
                   b' + int j * d \<noteq> b + int (127 - 0 + 0 * 128) * d)"
      using sep b unfolding B_def k by auto
    from populateBuffers_pixel [OF level rot hdr stride _ _ b [unfolded B_def] this out]
    show ?thesis unfolding k by simp
  qed
  have "red \<in> B" by (simp add: B_def)
  from pix [OF this] obtain c1UpRes c2UpRes resFactor rgb carry where
    ib: "interpolateBuffers s (PCDChromaResFactor ! sceneNumber s)
           = Some (c1UpRes, c2UpRes, resFactor)"
    and px: "convertPixel
             (threadData s red green blue alpha d dataSize
                (if c1UpRes \<noteq> None then c1UpRes else chroma1 s)
                (if c2UpRes \<noteq> None then c2UpRes else chroma2 s) resFactor 0 0)
             0 0 (0, 0) = Some (rgb, carry)"
    by blast
  let ?rd = "threadData s red green blue alpha d dataSize
                (if c1UpRes \<noteq> None then c1UpRes else chroma1 s)
                (if c2UpRes \<noteq> None then c2UpRes else chroma2 s) resFactor 0 0"
  note f = threadData_fields [OF level rot, of red green blue alpha d dataSize
      "if c1UpRes \<noteq> None then c1UpRes else chroma1 s"
      "if c2UpRes \<noteq> None then c2UpRes else chroma2 s" resFactor 0 0]
  note sh = threadData_shared(1) [of s red green blue alpha d dataSize
      "if c1UpRes \<noteq> None then c1UpRes else chroma1 s"
      "if c2UpRes \<noteq> None then c2UpRes else chroma2 s" resFactor 0 0]
  have "destIndex 3 192 128 0 0 d = (127 - int 0 + int 0 * 128) * d"
    by (rule destIndex_rotate3 [OF _ _ stride]) simp_all
  then have di: "destIndex (rd_imageRotate ?rd) (rd_columns ?rd) (rd_rows ?rd) 0 0 (rd_d ?rd)
                   = 127 * d"
    unfolding f sh by simp
  have st: "convertStep ?rd 0 0 ((0, 0), mem) = Some (carry, storePixel ?rd (127 * d) rgb mem)"
    unfolding convertStep_def fst_conv snd_conv px di by simp
  have all: "\<forall>b\<in>B. mem' (b + 127 * d) = storePixel ?rd (127 * d) rgb mem (b + 127 * d)"
  proof
    fix b assume "b \<in> B"
    from pix [OF this] ib px
    show "mem' (b + 127 * d) = storePixel ?rd (127 * d) rgb mem (b + 127 * d)" by auto
  qed
  have "(int (PCDLumaHeight ! sceneNumber s) - 1) * d = 127 * d" unfolding dims by simp
  with dims ib px st all show ?thesis
    by (simp only: Let_def) blast
qed

theorem rotate3_base16_witness:
  "sceneNumber rotatedDecoder = kBase16 \<and> imageRotate rotatedDecoder = 3
   \<and> pcdFileHeader rotatedDecoder \<noteq> None
   \<and> - (2 ^ 31) \<le> (1 :: int) \<and> (1 :: int) < 2 ^ 31
   \<and> \<not> (\<exists>j\<in>{0..<192 * 128}. j \<noteq> 127
           \<and> (\<exists>b\<in>{0, 100000, 200000}. \<exists>b'\<in>{0, 100000, 200000}.
                 b' + int j * 1 = b + 127 * (1 :: int)))
   \<and> (case populateUInt8Buffers rotatedDecoder 0 100000 200000 None 1 (\<lambda>a. UInt8 9) of
         None \<Rightarrow> False
       | Some (s', mem') \<Rightarrow>
           getWidth rotatedDecoder = 128 \<and> getHeight rotatedDecoder = 192
           \<and> mem' 127 = UInt8 1 \<and> mem' 100127 = UInt8 0 \<and> mem' 200127 = UInt8 0)"
proof -
  from rotated_populate [of 0 100000 200000 None 1 pcdByteSize "\<lambda>a. UInt8 9"]
  obtain m' where out: "populateBuffers rotatedDecoder 0 100000 200000 None 1 pcdByteSize
                          (\<lambda>a. UInt8 9) = Some (rotatedDecoder, m')"
    by auto
  have sep: "\<not> (\<exists>j\<in>{0..<192 * 128}. j \<noteq> 127
           \<and> (\<exists>b\<in>insert 0 (insert 100000 (insert 200000 (set_option None))).
               \<exists>b'\<in>insert 0 (insert 100000 (insert 200000 (set_option None))).
                 b' + int j * 1 = b + 127 * (1 :: int)))"
    by auto
  have r: "- (2 ^ 31) \<le> (1 :: int)" "(1 :: int) < 2 ^ 31" by simp_all
  from rotate3_base16 [OF rotatedDecoder_fields(1,2,3) r sep out]
  obtain rgb carry where
    dims: "getWidth rotatedDecoder = 128" "getHeight rotatedDecoder = 192"
    and px: "convertPixel
           (threadData rotatedDecoder 0 100000 200000 None 1 pcdByteSize
              (chroma1 rotatedDecoder) (chroma2 rotatedDecoder) 1 0 0)
           0 0 (0, 0) = Some (rgb, carry)"
    and v: "\<forall>b\<in>{0, 100000, 200000}. m' (b + 127)
             = storePixel
                 (threadData rotatedDecoder 0 100000 200000 None 1 pcdByteSize
                    (chroma1 rotatedDecoder) (chroma2 rotatedDecoder) 1 0 0)
                 127 rgb (\<lambda>a. UInt8 9) (b + 127)"
    unfolding rotatedDecoder_fields(5) by (auto simp: Let_def)
  have "(0::nat) < 128" "(0::nat) < 192" by simp_all
  note rp = rotated_pixel [OF this]
  from px have rgb: "rgb = (7, 0, 0)"
    unfolding rp by simp
  have l: "uint8Output ! 7 = 1" "uint8Output ! 0 = 0"
    by (simp_all add: uint8Output_def)
  have "m' 127 = UInt8 1" "m' 100127 = UInt8 0" "m' 200127 = UInt8 0"
    using v l unfolding rgb
    by (simp_all add: storePixel_def threadData_def pcdByteSize_def pcdFloatSize_def
        pcdInt16Size_def)
  with dims rotatedDecoder_fields(1,2,3) sep r show ?thesis
    unfolding populateUInt8Buffers_def out by simp
qed
section \<open>Colour conversion of a pixel\<close>

lemma int32_t_id: "- (2 ^ 31) \<le> x \<Longrightarrow> x < 2 ^ 31 \<Longrightarrow> int32_t x = x"
  by (simp add: int32_t_def signed_take_bit_int_eq_self)

lemma uint_byte_bounds: "0 \<le> uint (v :: u8) \<and> uint v \<le> 255"
  using uint_lt2p [of v] by simp

lemma div_le_self_int: "0 \<le> (x::int) \<Longrightarrow> 0 < k \<Longrightarrow> 0 \<le> x div k \<and> x div k \<le> x"
  using zdiv_mono2 [of x 1 k] by (simp add: pos_imp_zdiv_nonneg_iff)

lemma sdiv_bounds:
  assumes "- m \<le> (x::int)" "x \<le> m" "0 < k"
  shows "- m \<le> x sdiv k \<and> x sdiv k \<le> m"
proof (cases "0 \<le> x")
  case True
  then have "x sdiv k = x div k" using assms(3) by (simp add: signed_divide_int_def sgn_if)
  moreover have "0 \<le> x div k" "x div k \<le> x"
    using div_le_self_int [of x k] True assms(3) by simp_all
  ultimately show ?thesis using assms True by linarith
next
  case False
  then have e: "x sdiv k = - ((- x) div k)" using assms(3) by (simp add: signed_divide_int_def sgn_if)
  have "0 \<le> (- x) div k" "(- x) div k \<le> - x"
    using div_le_self_int [of "- x" k] False assms(3) by simp_all
  with e show ?thesis using assms False by linarith
qed

lemma photoCDRGB_exact:
  fixes l u v :: u8
  defines "Li \<equiv> uint l * 5573" and "C1i \<equiv> (uint u - 156) * 9085"
    and "C2i \<equiv> (uint v - 137) * 7461"
  shows "int32_t Li = Li" "int32_t C1i = C1i" "int32_t C2i = C2i"
    "photoCDRGB Li C1i C2i =
       (max 0 (min 1388 ((Li + C2i) div 2 ^ 10)),
        max 0 (min 1388 (Li div 2 ^ 10 - C1i sdiv 5278 - C2i sdiv 2012)),
        max 0 (min 1388 ((Li + C1i) div 2 ^ 10)))"
proof -
  have l: "0 \<le> Li" "Li \<le> 1421115"
    using uint_byte_bounds [of l] by (simp_all add: Li_def)
  have c1: "- 1417260 \<le> C1i" "C1i \<le> 899415"
    using uint_byte_bounds [of u] by (simp_all add: C1i_def)
  have c2: "- 1022157 \<le> C2i" "C2i \<le> 880398"
    using uint_byte_bounds [of v] by (simp_all add: C2i_def)
  show "int32_t Li = Li" "int32_t C1i = C1i" "int32_t C2i = C2i"
    using l c1 c2 by (simp_all add: int32_t_id)
  have a: "int32_t (Li + C2i) = Li + C2i" "int32_t (Li + C1i) = Li + C1i"
    using l c1 c2 by (simp_all add: int32_t_id)
  have d0: "0 \<le> Li div 1024" "Li div 1024 \<le> 1421115"
    using div_le_self_int [of Li 1024] l by simp_all
  have d1: "- 1417260 \<le> C1i sdiv 5278" "C1i sdiv 5278 \<le> 1417260"
    using sdiv_bounds [of 1417260 C1i 5278] c1 by simp_all
  have d2: "- 1022157 \<le> C2i sdiv 2012" "C2i sdiv 2012 \<le> 1022157"
    using sdiv_bounds [of 1022157 C2i 2012] c2 by simp_all
  have b: "int32_t (Li div 1024 - C1i sdiv 5278) = Li div 1024 - C1i sdiv 5278"
    using d0 d1 by (simp add: int32_t_id)
  have c: "int32_t (Li div 1024 - C1i sdiv 5278 - C2i sdiv 2012)
             = Li div 1024 - C1i sdiv 5278 - C2i sdiv 2012"
    using d0 d1 d2 by (simp add: int32_t_id)
  show "photoCDRGB Li C1i C2i =
       (max 0 (min 1388 ((Li + C2i) div 2 ^ 10)),
        max 0 (min 1388 (Li div 2 ^ 10 - C1i sdiv 5278 - C2i sdiv 2012)),
        max 0 (min 1388 ((Li + C1i) div 2 ^ 10)))"
    by (simp add: photoCDRGB_def a b c drop_bit_eq_div pcdPin_def max_def min_def)
qed

text \<open>
  Claim C7. For a pixel converted in an RGB colour space, with \<open>L\<close> the luma byte and
  \<open>c1\<close>, \<open>c2\<close> the chroma bytes at the subsampled index, the converter computes
  \<open>Li = L * 5573\<close>, \<open>C1i = (c1 - 156) * 9085\<close>, \<open>C2i = (c2 - 137) * 7461\<close> and the indices
  \<open>R = clamp ((Li + C2i) >> 10)\<close>, \<open>G = clamp ((Li >> 10) - C1i / 5278 - C2i / 2012)\<close>,
  \<open>B = clamp ((Li + C1i) >> 10)\<close>, clamped to 0..1388, in exact integer arithmetic: the
  32-bit operations of the source never wrap, the shift is the division by \<open>2 ^ 10\<close>
  rounding down and \<open>/\<close> truncates (\<open>sdiv\<close>). These indices go through the colour
  management of the selected space; in the raw Photo CD space they are the result.
\<close>

theorem convertPixel_rgb:
  fixes L c1 c2 :: u8
  defines "Li \<equiv> uint L * 5573"
    and "C1i \<equiv> (uint c1 - 156) * 9085"
    and "C2i \<equiv> (uint c2 - 137) * 7461"
  defines "R \<equiv> max 0 (min 1388 ((Li + C2i) div 2 ^ 10))"
    and "G \<equiv> max 0 (min 1388 (Li div 2 ^ 10 - C1i sdiv 5278 - C2i sdiv 2012))"
    and "B \<equiv> max 0 (min 1388 ((Li + C1i) div 2 ^ 10))"
  assumes cs: "rd_colorSpace rd \<noteq> kPCDYCCColorSpace"
    and l: "peek (rd_lp rd) (col + row * rd_columns rd) = Some L"
    and p1: "peek (rd_c1p rd)
               (drop_bit (rd_resFactor rd) col
                  + drop_bit (rd_resFactor rd) row * drop_bit (rd_resFactor rd) (rd_columns rd))
             = Some c1"
    and p2: "peek (rd_c2p rd)
               (drop_bit (rd_resFactor rd) col
                  + drop_bit (rd_resFactor rd) row * drop_bit (rd_resFactor rd) (rd_columns rd))
             = Some c2"
  shows "convertPixel rd row col carry =
           Some (colorManage (rd_colorSpace rd) (rd_whiteBalance rd) (R, G, B), (C1i, C2i))
         \<and> (rd_colorSpace rd = kPCDRawColorSpace \<longrightarrow>
              convertPixel rd row col carry = Some ((R, G, B), (C1i, C2i)))"
proof -
  have n1: "rd_c1p rd \<noteq> None" using p1 by (cases "rd_c1p rd") (simp_all add: peek_def)
  have n2: "rd_c2p rd \<noteq> None" using p2 by (cases "rd_c2p rd") (simp_all add: peek_def)
  have step: "convertPixel rd row col carry =
           Some (colorManage (rd_colorSpace rd) (rd_whiteBalance rd)
                   (photoCDRGB (int32_t Li) (int32_t C1i) (int32_t C2i)),
                 (int32_t C1i, int32_t C2i))"
    using cs l p1 p2 n1 n2
    by (simp add: convertPixel_def Let_def Li_def C1i_def C2i_def)
  have ex: "int32_t Li = Li" "int32_t C1i = C1i" "int32_t C2i = C2i"
    "photoCDRGB Li C1i C2i = (R, G, B)"
    unfolding Li_def C1i_def C2i_def R_def G_def B_def
    by (rule photoCDRGB_exact)+
  have main: "convertPixel rd row col carry =
           Some (colorManage (rd_colorSpace rd) (rd_whiteBalance rd) (R, G, B), (C1i, C2i))"
    unfolding step ex ..
  have pin: "pcdPin 0 (max 0 (min 1388 x)) 1388 = max 0 (min 1388 x)" for x
    by (simp add: pcdPin_def)
  have "colorManage kPCDRawColorSpace wb (R, G, B) = (R, G, B)" for wb
    unfolding R_def G_def B_def
    by (simp add: colorManage_def pin kPCDRawColorSpace_def
        kPCDLinearCCIR709ColorSpace_def kPCDsRGBColorSpace_def)
  with main show ?thesis by simp
qed

theorem convertPixel_rgb_witness:
  "rd_colorSpace spotPixel \<noteq> kPCDYCCColorSpace
   \<and> peek (rd_lp spotPixel) 0 = Some 196
   \<and> peek (rd_c1p spotPixel) 0 = Some 100
   \<and> peek (rd_c2p spotPixel) 0 = Some 200
   \<and> convertPixel spotPixel 0 0 (0, 0) = Some ((1388, 929, 569), (- 508760, 470043))"
proof -
  have a: "rd_colorSpace spotPixel \<noteq> kPCDYCCColorSpace"
    by (simp add: spotPixel_def kPCDYCCColorSpace_def kPCDRawColorSpace_def)
  have b: "peek (rd_lp spotPixel) (0 + 0 * rd_columns spotPixel) = Some 196"
    "peek (rd_c1p spotPixel)
       (drop_bit (rd_resFactor spotPixel) 0
          + drop_bit (rd_resFactor spotPixel) 0
              * drop_bit (rd_resFactor spotPixel) (rd_columns spotPixel)) = Some 100"
    "peek (rd_c2p spotPixel)
       (drop_bit (rd_resFactor spotPixel) 0
          + drop_bit (rd_resFactor spotPixel) 0
              * drop_bit (rd_resFactor spotPixel) (rd_columns spotPixel)) = Some 200"
    by (simp_all add: spotPixel_def peek_def)
  have c: "rd_colorSpace spotPixel = kPCDRawColorSpace" by (simp add: spotPixel_def)
  have d: "(- 508760 :: int) sdiv 5278 = - 96" "(470043 :: int) sdiv 2012 = 233"
    by (simp_all add: signed_divide_int_def)
  have e: "convertPixel spotPixel 0 0 (0, 0) = Some ((1388, 929, 569), (- 508760, 470043))"
    using convertPixel_rgb [OF a b, THEN conjunct2, rule_format, OF c] d by simp
  have f: "peek (rd_lp spotPixel) 0 = Some 196" "peek (rd_c1p spotPixel) 0 = Some 100"
    "peek (rd_c2p spotPixel) 0 = Some 200"
    by (simp_all add: spotPixel_def peek_def)
  from a e f show ?thesis by blast
qed

section \<open>Resynchronisation\<close>

lemma fillBits_failure:
  "fillBits b = Inl e \<Longrightarrow> e = Thrown ''Unexpected end of file in Huffman sequence''"
proof (induction b rule: fillBits.induct)
  case (1 b)
  show ?case
  proof (cases "b_bits b \<le> 24")
    case False
    with "1.prems" show ?thesis by (simp add: fillBits.simps [of b])
  next
    case le: True
    show ?thesis
    proof (cases "if b_p b \<ge> KSectorSize
                  then map_option (\<lambda>b'. b'\<lparr>b_p := 0\<rparr>) (readNextSector b) else Some b")
      case None
      with le "1.prems" show ?thesis by (simp add: fillBits.simps [of b])
    next
      case (Some b1)
      from "1.IH" [OF le Some] "1.prems" le Some show ?thesis
        by (simp add: fillBits.simps [of b])
    qed
  qed
qed

lemma PCDGetBits_failure:
  "PCDGetBits b n = Inl e \<Longrightarrow> e = Thrown ''Unexpected end of file in Huffman sequence''"
  by (auto simp: PCDGetBits_def dest: fillBits_failure)

lemma syncByte_failure:
  "syncByte b = Inl e \<Longrightarrow> e = Thrown ''Unexpected end of file in Huffman sequence''"
proof (induction b rule: syncByte.induct)
  case (1 b)
  from "1.prems" show ?case
    by (subst (asm) syncByte.simps)
       (auto split: if_splits sum.splits dest: PCDGetBits_failure "1.IH")
qed

lemma syncBit_failure:
  "syncBit b = Inl e \<Longrightarrow> e = Thrown ''Unexpected end of file in Huffman sequence''"
proof (induction b rule: syncBit.induct)
  case (1 b)
  from "1.prems" show ?case
    by (subst (asm) syncBit.simps)
       (auto split: if_splits sum.splits dest: PCDGetBits_failure "1.IH")
qed

lemma syncBit_marker: "syncBit b = Inr b' \<Longrightarrow> b_sum b' AND 0xffffff00 = 0xfffffe00"
proof (induction b rule: syncBit.induct)
  case (1 b)
  from "1.prems" show ?case
    by (subst (asm) syncBit.simps) (auto split: if_splits sum.splits dest: "1.IH")
qed

lemma marker_byte_phase:
  fixes w :: u32
  assumes "w AND 0xffffff00 = 0xfffffe00"
  shows "w AND 0x00fff000 = 0x00fff000"
proof -
  have "w AND 0x00fff000 = (w AND 0xffffff00) AND 0x00fff000"
    by (simp add: and.assoc)
  also have "\<dots> = 0x00fff000" unfolding assms by simp
  finally show ?thesis .
qed

lemma syncHuffman_at_marker:
  "b_sum b AND 0xffffff00 = 0xfffffe00 \<Longrightarrow> syncHuffman b = Inr b"
  by (simp add: syncHuffman_def syncByte.simps syncBit.simps marker_byte_phase)

lemma syncHuffman_marker_result:
  "syncHuffman b = Inr b' \<Longrightarrow> b_sum b' AND 0xffffff00 = 0xfffffe00"
  by (auto simp: syncHuffman_def split: sum.splits dest: syncBit_marker)

lemma syncHuffman_failure:
  "syncHuffman b = Inl e \<Longrightarrow> e = Thrown ''Unexpected end of file in Huffman sequence''"
  by (auto simp: syncHuffman_def split: sum.splits dest: syncBit_failure syncByte_failure)

lemma syncHuffman_byte_step:
  "b_sum b AND 0x00fff000 \<noteq> 0x00fff000 \<Longrightarrow>
     syncHuffman b = (case PCDGetBits b 8 of Inl e \<Rightarrow> Inl e | Inr b1 \<Rightarrow> syncHuffman b1)"
  by (simp add: syncHuffman_def syncByte.simps [of b] split: sum.splits)

lemma syncHuffman_bit_step:
  "b_sum b AND 0x00fff000 = 0x00fff000 \<Longrightarrow> b_sum b AND 0xffffff00 \<noteq> 0xfffffe00 \<Longrightarrow>
     syncHuffman b = (case PCDGetBits b 1 of Inl e \<Rightarrow> Inl e | Inr b1 \<Rightarrow> syncBit b1)"
  by (simp add: syncHuffman_def syncByte.simps [of b] syncBit.simps [of b])

text \<open>
  Claim C8, as stated: \<open>sync()\<close> advances one bit at a time and terminates exactly when
  the top 20 bits of the accumulator equal \<open>0xFFFFE\<close>. On \<open>markerLike\<close> the top 20 bits
  are \<open>0xFFFFE\<close> and \<open>syncHuffman\<close> does not stop there: it goes on through four more
  bytes of the sector buffer, to the accumulator \<open>0xFFFFFE00\<close>, and its first step takes
  8 bits at once.
\<close>

theorem syncHuffman_counterexample:
  "drop_bit 12 (b_sum markerLike) = 0xFFFFE
   \<and> b_p markerLike = 0
   \<and> (case syncHuffman markerLike of
         Inl e \<Rightarrow> False
       | Inr b' \<Rightarrow> b_p b' = 4 \<and> b_sum b' = 0xFFFFFE00)
   \<and> (case PCDGetBits markerLike 8 of
         Inl e \<Rightarrow> False
       | Inr b1 \<Rightarrow> b_sum b1 = 0xFFE100FF \<and> b_p b1 = 1)"
  by code_simp

text \<open>
  Claim C8, amended. \<open>syncHuffman\<close> returns with the accumulator unchanged exactly when
  the top 24 bits of the accumulator equal \<open>0xFFFFFE\<close>, and whenever it returns the top
  24 bits equal \<open>0xFFFFFE\<close>; the only other outcome is the exception
  \<open>Unexpected end of file in Huffman sequence\<close>. It advances 8 bits at a time while bits
  12 to 23 of the accumulator are not all ones, then one bit at a time. It runs at the
  start of every sequence: every sequence that \<open>readPCDDeltas\<close> reads begins at such a
  marker.
\<close>

theorem syncHuffman_marker:
  "(syncHuffman b = Inr b \<longleftrightarrow> b_sum b AND 0xffffff00 = 0xfffffe00)
   \<and> (syncHuffman b = Inr b' \<longrightarrow> b_sum b' AND 0xffffff00 = 0xfffffe00)
   \<and> (syncHuffman b = Inl e \<longrightarrow> e = Thrown ''Unexpected end of file in Huffman sequence'')
   \<and> (b_sum b AND 0x00fff000 \<noteq> 0x00fff000 \<longrightarrow>
        syncHuffman b = (case PCDGetBits b 8 of Inl e \<Rightarrow> Inl e | Inr b1 \<Rightarrow> syncHuffman b1))
   \<and> (b_sum b AND 0x00fff000 = 0x00fff000 \<and> b_sum b AND 0xffffff00 \<noteq> 0xfffffe00 \<longrightarrow>
        syncHuffman b = (case PCDGetBits b 1 of Inl e \<Rightarrow> Inl e | Inr b1 \<Rightarrow> syncBit b1))
   \<and> (readSequence huf sc q c st = Inr st' \<longrightarrow>
        (case syncHuffman (ds_buf st) of
           Inl e \<Rightarrow> False
         | Inr b1 \<Rightarrow> b_sum b1 AND 0xffffff00 = 0xfffffe00))"
proof (intro conjI impI)
  show "syncHuffman b = Inr b \<longleftrightarrow> b_sum b AND 0xffffff00 = 0xfffffe00"
    using syncHuffman_at_marker syncHuffman_marker_result by blast
next
  assume "syncHuffman b = Inr b'"
  then show "b_sum b' AND 0xffffff00 = 0xfffffe00" by (rule syncHuffman_marker_result)
next
  assume "syncHuffman b = Inl e"
  then show "e = Thrown ''Unexpected end of file in Huffman sequence''"
    by (rule syncHuffman_failure)
next
  assume "b_sum b AND 0x00fff000 \<noteq> 0x00fff000"
  then show "syncHuffman b = (case PCDGetBits b 8 of Inl e \<Rightarrow> Inl e | Inr b1 \<Rightarrow> syncHuffman b1)"
    by (rule syncHuffman_byte_step)
next
  assume "b_sum b AND 0x00fff000 = 0x00fff000 \<and> b_sum b AND 0xffffff00 \<noteq> 0xfffffe00"
  then show "syncHuffman b = (case PCDGetBits b 1 of Inl e \<Rightarrow> Inl e | Inr b1 \<Rightarrow> syncBit b1)"
    using syncHuffman_bit_step by blast
next
  assume "readSequence huf sc q c st = Inr st'"
  then obtain b1 where "syncHuffman (ds_buf st) = Inr b1"
    by (auto simp: readSequence_def split: sum.splits)
  then show "case syncHuffman (ds_buf st) of
               Inl e \<Rightarrow> False | Inr b1 \<Rightarrow> b_sum b1 AND 0xffffff00 = 0xfffffe00"
    using syncHuffman_marker_result by auto
qed

theorem syncHuffman_marker_witness:
  "(case syncHuffman markerLike of
      Inl e \<Rightarrow> False | Inr b' \<Rightarrow> b_sum b' AND 0xffffff00 = 0xfffffe00 \<and> syncHuffman b' = Inr b')
   \<and> syncHuffman exhausted = Inl (Thrown ''Unexpected end of file in Huffman sequence'')
   \<and> b_sum markerLike AND 0x00fff000 \<noteq> 0x00fff000
   \<and> syncHuffman markerLike
       = (case PCDGetBits markerLike 8 of Inl e \<Rightarrow> Inl e | Inr b1 \<Rightarrow> syncHuffman b1)
   \<and> b_sum bitPhase AND 0x00fff000 = 0x00fff000
   \<and> b_sum bitPhase AND 0xffffff00 \<noteq> 0xfffffe00
   \<and> syncHuffman bitPhase
       = (case PCDGetBits bitPhase 1 of Inl e \<Rightarrow> Inl e | Inr b1 \<Rightarrow> syncBit b1)
   \<and> (case readSequence [] k4Base 0 0 skipState of
         Inl e \<Rightarrow> False
       | Inr st' \<Rightarrow> (case syncHuffman (ds_buf skipState) of
                      Inl e \<Rightarrow> False
                    | Inr b1 \<Rightarrow> b_sum b1 AND 0xffffff00 = 0xfffffe00))"
proof -
  have "case syncHuffman markerLike of Inl e \<Rightarrow> False | Inr b' \<Rightarrow> True" by code_simp
  then obtain b' where m: "syncHuffman markerLike = Inr b'" by (auto split: sum.splits)
  have m': "b_sum b' AND 0xffffff00 = 0xfffffe00"
    using syncHuffman_marker [of markerLike b'] m by simp
  have m'': "syncHuffman b' = Inr b'"
    using syncHuffman_marker [of b'] m' by simp
  have "case syncHuffman exhausted of Inl e \<Rightarrow> True | Inr b' \<Rightarrow> False" by code_simp
  then obtain e where x: "syncHuffman exhausted = Inl e" by (auto split: sum.splits)
  have x': "syncHuffman exhausted = Inl (Thrown ''Unexpected end of file in Huffman sequence'')"
    using syncHuffman_marker [of exhausted _ e] x by simp
  have c4: "b_sum markerLike AND 0x00fff000 \<noteq> 0x00fff000" by (simp add: markerLike_def)
  have s4: "syncHuffman markerLike
       = (case PCDGetBits markerLike 8 of Inl e \<Rightarrow> Inl e | Inr b1 \<Rightarrow> syncHuffman b1)"
    using syncHuffman_marker [of markerLike] c4 by blast
  have c5: "b_sum bitPhase AND 0x00fff000 = 0x00fff000"
    "b_sum bitPhase AND 0xffffff00 \<noteq> 0xfffffe00"
    by (simp_all add: bitPhase_def)
  have s5: "syncHuffman bitPhase
       = (case PCDGetBits bitPhase 1 of Inl e \<Rightarrow> Inl e | Inr b1 \<Rightarrow> syncBit b1)"
    using syncHuffman_marker [of bitPhase] c5 by blast
  have "case readSequence [] k4Base 0 0 skipState of Inl e \<Rightarrow> False | Inr st' \<Rightarrow> True"
    by code_simp
  then obtain st' where r: "readSequence [] k4Base 0 0 skipState = Inr st'"
    by (auto split: sum.splits)
  have r': "case syncHuffman (ds_buf skipState) of
              Inl e \<Rightarrow> False | Inr b1 \<Rightarrow> b_sum b1 AND 0xffffff00 = 0xfffffe00"
    using syncHuffman_marker [of _ _ _ "[]" k4Base 0 0 skipState st'] r by blast
  show ?thesis
    using m m' m'' x' c4 s4 c5 s5 r r' by simp
qed

section \<open>Output without a file\<close>

text \<open>
  The header is null on a new decoder and after every \<open>parseFile\<close> that returned false.
  The constructor does not assign \<open>sceneNumber\<close>: a new decoder has what the storage held.
\<close>

lemma pcdDecode_new_header: "pcdFileHeader (pcdDecode_new raw) = None"
  by (simp add: pcdDecode_new_def)

lemma pcdDecode_new_sceneNumber: "sceneNumber (pcdDecode_new raw) = sceneNumber raw"
  by (simp add: pcdDecode_new_def)

lemma parseFile_failure_header:
  "parseFile io ipe L s = Some (False, s') \<Longrightarrow> pcdFileHeader s' = None"
  by (auto simp: parseFile_def Let_def pcdFreeAll_def kBase16_def
      split: if_splits option.splits prod.splits)

text \<open>
  With a null header the three calls return at the guard, with the caller's memory and
  the decoder as they were, when \<open>sceneNumber\<close> is one of the six levels; for any other
  \<open>sceneNumber\<close> the read of \<open>PCDChromaResFactor\<close> that comes before the guard is outside the
  table, whatever the header.
\<close>

lemma populateBuffers_no_file:
  "pcdFileHeader s = None \<Longrightarrow> sceneNumber s < 6 \<Longrightarrow>
     populateFloatBuffers s red green blue alpha d mem = Some (s, mem)
     \<and> populateUInt16Buffers s red green blue alpha d mem = Some (s, mem)
     \<and> populateUInt8Buffers s red green blue alpha d mem = Some (s, mem)"
  by (simp add: populateFloatBuffers_def populateUInt16Buffers_def populateUInt8Buffers_def
      populateBuffers_def PCDChromaResFactor_def)

lemma populateBuffers_outside_table:
  "6 \<le> sceneNumber s \<Longrightarrow> populateBuffers s red green blue alpha d dataSize mem = None"
  by (simp add: populateBuffers_def PCDChromaResFactor_def)

text \<open>
  Claim C9 says that on a decoder on which no \<open>parseFile\<close> has succeeded the three calls
  return without writing to the caller's buffers and without changing the decoder. The
  source has the guard for it, \<open>if (pcdFileHeader == NULL) return\<close>, but reads
  \<open>PCDChromaResFactor[sceneNumber]\<close> on the line before, and the constructor leaves
  \<open>sceneNumber\<close> uninitialised. On a decoder constructed in storage that holds 1000 where
  \<open>sceneNumber\<close> lies, the header is null and each of the three calls reads entry 1000 of
  the six-entry table: an invalid access, not a return.
\<close>

theorem populate_new_decoder:
  "pcdFileHeader (pcdDecode_new (zeroStorage\<lparr>sceneNumber := 1000\<rparr>)) = None
   \<and> sceneNumber (pcdDecode_new (zeroStorage\<lparr>sceneNumber := 1000\<rparr>)) = 1000
   \<and> length PCDChromaResFactor = 6
   \<and> populateFloatBuffers (pcdDecode_new (zeroStorage\<lparr>sceneNumber := 1000\<rparr>))
        0 1 2 (Some 3) 4 (\<lambda>a. UInt8 7) = None
   \<and> populateUInt16Buffers (pcdDecode_new (zeroStorage\<lparr>sceneNumber := 1000\<rparr>))
        0 1 2 (Some 3) 4 (\<lambda>a. UInt8 7) = None
   \<and> populateUInt8Buffers (pcdDecode_new (zeroStorage\<lparr>sceneNumber := 1000\<rparr>))
        0 1 2 (Some 3) 4 (\<lambda>a. UInt8 7) = None"
  by (simp add: populateFloatBuffers_def populateUInt16Buffers_def populateUInt8Buffers_def
      populateBuffers_def PCDChromaResFactor_def pcdDecode_new_def)
section \<open>Metadata\<close>

text \<open>
  Claim C10. For every index \<open>select \<ge> kMaxPCDMetadata\<close> (20), and for every call made
  when no file has been parsed, \<open>getMetadata\<close> leaves the string \<open>Error\<close> in the value
  buffer, and in the description buffer when that pointer is not \<open>NULL\<close>; nothing else is
  written (a \<open>NULL\<close> description stays \<open>NULL\<close>, and both results are exactly that string).
\<close>

theorem getMetadata_error:
  "select \<ge> 20 \<or> pcdFileHeader s = None \<Longrightarrow>
     getMetadata fmt s select description val =
       ((if description \<noteq> None then Some ''Error'' else None), ''Error'')"
  by (auto simp: getMetadata_def kMaxPCDMetadata_def)

theorem getMetadata_error_witness:
  "((20::nat) \<ge> 20 \<or> pcdFileHeader (pcdDecode_new zeroStorage) = None)
   \<and> getMetadata (\<lambda>f c i. ''-'') (pcdDecode_new zeroStorage) 20 (Some ''d'') ''v''
       = (Some ''Error'', ''Error'')"
  using getMetadata_error [of 20 "pcdDecode_new zeroStorage" "\<lambda>f c i. ''-''" "Some ''d''" "''v''"]
  by simp

end
